theory Spec2Isabelle
  imports Complex_Main "HOL-Library.Multiset" "HOL-Library.Char_ord" "HOL-Library.List_Lexorder"
begin

section \<open>Data model\<close>

text \<open>
  The simulation engine of the repository lives in \<^verbatim>\<open>src/utils/trafficLightManager.js\<close>
  and \<^verbatim>\<open>src/utils/carManager.js\<close>. JavaScript numbers are modelled as reals (counters
  as integers), \<^verbatim>\<open>Date.now()\<close> as an integer number of milliseconds that is passed in,
  and every \<^verbatim>\<open>Math.random()\<close> draw as a real that is passed in. Objects that the source
  mutates in place are kept in a list; the position in the list is the identity of the object,
  and every function that mutates returns the new list.
\<close>

datatype lstate = Red | Yellow | Green | Waiting

datatype dir = Forward | Backward

datatype turn = TurnLeft | TurnRight | Straight | Uturn

record location =
  locId :: string
  locX :: real
  locY :: real

record street =
  strId :: string
  sfrom :: string
  sto :: string

text \<open>
  A traffic light. Only the fields that the engine reads are kept (\<^verbatim>\<open>x\<close>, \<^verbatim>\<open>y\<close>,
  \<^verbatim>\<open>lastStateChange\<close> and \<^verbatim>\<open>crossingGroupId\<close> are written but never read by it).
  \<^verbatim>\<open>oppositeGroupId\<close> is \<^verbatim>\<open>null\<close> until a group is assigned.
\<close>

record light =
  lightId :: string
  locationId :: string
  streetId :: string
  state :: lstate
  timer :: real
  angle :: real
  oppositeGroupId :: "string option"
  smartSwitchTarget :: "string option"
  lastSmartUpdate :: "int option"

record car =
  carId :: string
  originalId :: "string option"
  startLocationId :: string
  destinationId :: string
  currentStreetId :: string
  direction :: dir
  progress :: real
  speed :: real
  preferredSpeed :: real
  maxSpeed :: real
  reachedDestination :: bool
  stops :: int
  timeNotMoving :: real
  timeNotMovingStart :: "int option"
  lastStopTime :: "int option"
  path :: "string list"
  nextTurn :: "turn option"
  waitingToTurnLeft :: bool
  streetsTraveled :: int
  totalTravelTime :: real
  currentStreetStartTime :: "int option"
  turnSignalStartTime :: "int option"
  totalDistance :: real
  locationsVisited :: int
  lastSpeed :: real

text \<open>JavaScript truthiness of a string-or-null value: \<^verbatim>\<open>null\<close> and \<^verbatim>\<open>''\<close> are falsy.\<close>

definition truthy :: "string option \<Rightarrow> bool" where
  "truthy s = (s \<noteq> None \<and> s \<noteq> Some [])"

text \<open>Truthiness of a timestamp-or-null value: \<^verbatim>\<open>null\<close> and \<^verbatim>\<open>0\<close> are falsy.\<close>

definition truthyTime :: "int option \<Rightarrow> bool" where
  "truthyTime t = (t \<noteq> None \<and> t \<noteq> Some 0)"

text \<open>\<^verbatim>\<open>a || b\<close> on string-or-null values.\<close>

definition jsOr :: "string option \<Rightarrow> string option \<Rightarrow> string option" where
  "jsOr a b = (if truthy a then a else b)"

text \<open>A number that may be \<^verbatim>\<open>NaN\<close> (the result of adding to a missing property).\<close>

datatype jsnum = Num int | NaN

fun jsAdd :: "jsnum \<Rightarrow> jsnum \<Rightarrow> jsnum" where
  "jsAdd (Num a) (Num b) = Num (a + b)"
| "jsAdd _ _ = NaN"

text \<open>\<^verbatim>\<open>v || 0\<close> for a possibly missing, possibly \<^verbatim>\<open>NaN\<close> number.\<close>

fun orZero :: "jsnum option \<Rightarrow> int" where
  "orZero (Some (Num n)) = n"
| "orZero _ = 0"

section \<open>Adaptive control: ranking, scoring, decision\<close>

text \<open>
  The per-vehicle record built by \<^verbatim>\<open>collectApproachingCarsData\<close>. The property
  \<^verbatim>\<open>rank\<close> is absent until \<^verbatim>\<open>rankCarsByArrivalTime\<close> writes it.
\<close>

record carData =
  cdCar :: car
  cdStreetId :: string
  cdSpeed :: real
  intendedDirection :: turn
  estimatedArrivalTime :: real
  distanceToIntersection :: real
  slowingCars :: "car list"
  isStopped :: bool
  cdTimeNotMoving :: real
  rank :: "int option"

text \<open>
  \<^verbatim>\<open>[...approachingCarsData].sort((a, b) => a.estimatedArrivalTime - b.estimatedArrivalTime)\<close>:
  the sort of the language is stable, as is insertion by key.
\<close>

definition sortByArrival :: "carData list \<Rightarrow> carData list" where
  "sortByArrival cs = sort_key estimatedArrivalTime cs"

text \<open>
  The ranking loop of \<^verbatim>\<open>rankCarsByArrivalTime\<close>: \<open>i\<close> is the loop index, \<open>currentRank\<close>
  the running rank and \<open>prev\<close> the arrival time of element \<open>i - 1\<close> (unused when \<open>i = 0\<close>).
\<close>

fun assignRanks :: "nat \<Rightarrow> int \<Rightarrow> real \<Rightarrow> carData list \<Rightarrow> carData list" where
  "assignRanks i currentRank prev [] = []"
| "assignRanks i currentRank prev (c # cs) =
     (let r = (if 0 < i \<and> prev < estimatedArrivalTime c then int i + 1 else currentRank)
      in c\<lparr>rank := Some r\<rparr> # assignRanks (Suc i) r (estimatedArrivalTime c) cs)"

definition rankCarsByArrivalTime :: "carData list \<Rightarrow> carData list" where
  "rankCarsByArrivalTime approachingCarsData = assignRanks 0 1 0 (sortByArrival approachingCarsData)"

text \<open>\<^verbatim>\<open>100 - carData.rank\<close>; a missing rank gives \<^verbatim>\<open>NaN\<close>.\<close>

definition contribution :: "carData \<Rightarrow> jsnum" where
  "contribution d = (case rank d of None \<Rightarrow> NaN | Some r \<Rightarrow> Num (100 - r))"

text \<open>
  \<^verbatim>\<open>calculateStreetScores\<close>: the score object as a map from street id to number. Every
  street of a light starts at 0; adding to a street that has no entry gives \<^verbatim>\<open>NaN\<close>.
\<close>

definition initScores :: "light list \<Rightarrow> (string \<rightharpoonup> jsnum)" where
  "initScores intersectionLights =
     fold (\<lambda>l m. m(streetId l \<mapsto> Num 0)) intersectionLights Map.empty"

definition addScore :: "carData \<Rightarrow> (string \<rightharpoonup> jsnum) \<Rightarrow> (string \<rightharpoonup> jsnum)" where
  "addScore d m =
     m(cdStreetId d \<mapsto> (case m (cdStreetId d) of None \<Rightarrow> NaN | Some v \<Rightarrow> jsAdd v (contribution d)))"

definition calculateStreetScores :: "carData list \<Rightarrow> light list \<Rightarrow> (string \<rightharpoonup> jsnum)" where
  "calculateStreetScores rankedCars intersectionLights =
     fold addScore rankedCars (initScores intersectionLights)"

text \<open>
  Property keys of the grouping object in \<^verbatim>\<open>combineOppositeStreetScores\<close>: a \<^verbatim>\<open>null\<close>
  group id becomes the key \<^verbatim>\<open>"null"\<close>. Keys are enumerated in insertion order (group ids are
  never array indices).
\<close>

definition groupKey :: "string option \<Rightarrow> string" where
  "groupKey g = (case g of None \<Rightarrow> ''null'' | Some s \<Rightarrow> s)"

fun firstOccurrences :: "string list \<Rightarrow> string list" where
  "firstOccurrences [] = []"
| "firstOccurrences (x # xs) = x # firstOccurrences (filter (\<lambda>y. y \<noteq> x) xs)"

definition combineOppositeStreetScores ::
    "(string \<rightharpoonup> jsnum) \<Rightarrow> light list \<Rightarrow> (string \<times> int) list" where
  "combineOppositeStreetScores streetScores intersectionLights =
     map (\<lambda>g. (g, sum_list (map (\<lambda>l. orZero (streetScores (streetId l)))
                  (filter (\<lambda>l. groupKey (oppositeGroupId l) = g) intersectionLights))))
       (firstOccurrences (map (\<lambda>l. groupKey (oppositeGroupId l)) intersectionLights))"

datatype action = SWITCH | NONE

datatype reason =
    NO_LIGHTS | DEADLOCK_PREVENTION_ALL_RED | INITIALIZE_GREEN | NO_CARS_KEEP_CURRENT
  | ALREADY_OPTIMAL | SWITCH_TO_HIGHER_SCORE

record decision =
  dAction :: action
  targetGroup :: "string option"
  dReason :: reason

text \<open>The search for the highest score: \<open>(highestScore, highestScoringGroup)\<close>.\<close>

definition highestStep :: "string \<times> int \<Rightarrow> int \<times> string option \<Rightarrow> int \<times> string option" where
  "highestStep e acc = (if fst acc < snd e then (snd e, Some (fst e)) else acc)"

definition highest :: "(string \<times> int) list \<Rightarrow> int \<times> string option" where
  "highest pairScores = fold highestStep pairScores (0, None)"

definition firstGroupOf :: "light list \<Rightarrow> string option" where
  "firstGroupOf ls = (case ls of [] \<Rightarrow> None | l # _ \<Rightarrow> oppositeGroupId l)"

definition makeTrafficLightDecision :: "(string \<times> int) list \<Rightarrow> light list \<Rightarrow> decision" where
  "makeTrafficLightDecision pairScores intersectionLights =
    (let highestScore = fst (highest pairScores);
         highestScoringGroup = snd (highest pairScores);
         currentGreenGroup = firstGroupOf (filter (\<lambda>l. state l = Green) intersectionLights);
         allRed = (\<forall>l \<in> set intersectionLights. state l = Red);
         deadlockTarget = jsOr highestScoringGroup (firstGroupOf intersectionLights)
     in if allRed \<and> (\<exists>l \<in> set intersectionLights. 2 < timer l) \<and> truthy deadlockTarget
        then \<lparr>dAction = SWITCH, targetGroup = deadlockTarget, dReason = DEADLOCK_PREVENTION_ALL_RED\<rparr>
        else if (\<not> truthy highestScoringGroup \<or> highestScore = 0) \<and> \<not> truthy currentGreenGroup
                \<and> truthy (firstGroupOf intersectionLights)
        then \<lparr>dAction = SWITCH, targetGroup = firstGroupOf intersectionLights, dReason = INITIALIZE_GREEN\<rparr>
        else if \<not> truthy highestScoringGroup \<or> highestScore = 0
        then \<lparr>dAction = NONE, targetGroup = currentGreenGroup, dReason = NO_CARS_KEEP_CURRENT\<rparr>
        else if currentGreenGroup = highestScoringGroup
        then \<lparr>dAction = NONE, targetGroup = highestScoringGroup, dReason = ALREADY_OPTIMAL\<rparr>
        else \<lparr>dAction = SWITCH, targetGroup = highestScoringGroup, dReason = SWITCH_TO_HIGHER_SCORE\<rparr>)"

section \<open>Adaptive control: collecting the approaching vehicles\<close>

definition hypot :: "real \<Rightarrow> real \<Rightarrow> real" where
  "hypot a b = sqrt (a\<^sup>2 + b\<^sup>2)"

definition findStreet :: "string \<Rightarrow> street list \<Rightarrow> street option" where
  "findStreet sid streets = find (\<lambda>s. strId s = sid) streets"

definition findLocation :: "string \<Rightarrow> location list \<Rightarrow> location option" where
  "findLocation lid locations = find (\<lambda>loc. locId loc = lid) locations"

text \<open>Distance to the end of the street the car drives towards, as a share of its length.\<close>

definition distanceToEnd :: "car \<Rightarrow> real" where
  "distanceToEnd c = (if direction c = Forward then 1 - progress c else progress c)"

record approach =
  approaching :: bool
  hasEnteredIntersection :: bool
  apDistanceToIntersection :: real
  distanceInPixels :: real
  apLocationId :: string

text \<open>
  \<^verbatim>\<open>isCarApproachingIntersection\<close>; \<open>None\<close> stands for the early results
  \<^verbatim>\<open>{ approaching: false }\<close>.
\<close>

definition isCarApproachingIntersection :: "car \<Rightarrow> street list \<Rightarrow> location list \<Rightarrow> approach option" where
  "isCarApproachingIntersection c streets locations =
    (case findStreet (currentStreetId c) streets of
       None \<Rightarrow> None
     | Some street \<Rightarrow>
        (let approachingLocationId = (if direction c = Forward then sto street else sfrom street) in
         case findLocation approachingLocationId locations of
           None \<Rightarrow> None
         | Some approachingLocation \<Rightarrow>
            (case findLocation (if direction c = Forward then sfrom street else sto street) locations of
               None \<Rightarrow> None
             | Some otherLocation \<Rightarrow>
                (let d = distanceToEnd c;
                     streetLength = hypot (locX approachingLocation - locX otherLocation)
                                          (locY approachingLocation - locY otherLocation)
                 in Some \<lparr>approaching = (d < 9/10),
                          hasEnteredIntersection = (d * streetLength < 20),
                          apDistanceToIntersection = d,
                          distanceInPixels = d * streetLength,
                          apLocationId = approachingLocationId\<rparr>))))"

definition findSlowingCars :: "car \<Rightarrow> car list \<Rightarrow> car list" where
  "findSlowingCars c allCars =
     sort_key distanceToEnd
       (filter (\<lambda>otherCar.
            carId otherCar \<noteq> carId c \<and> currentStreetId otherCar = currentStreetId c \<and>
            direction otherCar = direction c \<and> \<not> reachedDestination otherCar \<and>
            (if direction c = Forward
             then progress c < progress otherCar \<and> progress otherCar < 1
             else progress otherCar < progress c \<and> 0 < progress otherCar) \<and>
            (speed otherCar < speed c \<or> speed otherCar < 1/10))
          allCars)"

text \<open>
  \<^verbatim>\<open>calculateEnhancedEstimatedArrivalTime\<close>; \<open>None\<close> stands for \<^verbatim>\<open>Infinity\<close>, which the
  source returns when the street or one of its ends is not found.
\<close>

definition calculateEnhancedEstimatedArrivalTime ::
    "car \<Rightarrow> approach \<Rightarrow> street list \<Rightarrow> location list \<Rightarrow> car list \<Rightarrow> real option" where
  "calculateEnhancedEstimatedArrivalTime c ap streets locations slowing =
    (if apDistanceToIntersection ap \<le> 0 then Some 0
     else case findStreet (currentStreetId c) streets of
       None \<Rightarrow> None
     | Some street \<Rightarrow>
        (case (findLocation (sfrom street) locations, findLocation (sto street) locations) of
           (Some fromLocation, Some toLocation) \<Rightarrow>
             (let streetLength = hypot (locX toLocation - locX fromLocation)
                                       (locY toLocation - locY fromLocation);
                  px = apDistanceToIntersection ap * streetLength;
                  effectiveSpeed = max (speed c) (1/10);
                  estimatedTime = px / (effectiveSpeed * 20)
              in case map (\<lambda>otherCar. max (speed otherCar) (1/20)) slowing of
                   [] \<Rightarrow> Some estimatedTime
                 | v # vs \<Rightarrow>
                    (let slowestCarSpeed = fold min vs v in
                     if slowestCarSpeed < effectiveSpeed
                     then Some (px / (max slowestCarSpeed (1/20) * 20) + real (length slowing) * (1/2))
                     else Some estimatedTime))
         | _ \<Rightarrow> None))"

text \<open>
  One step of the loop of \<^verbatim>\<open>collectApproachingCarsData\<close>: the entry pushed for a car, if
  any. An infinite arrival time cannot arise here (lemma \<open>arrival_time_finite\<close> below: the
  approach has already found the street and both its ends), so that case pushes nothing.
\<close>

definition approachingCarData ::
    "string \<Rightarrow> car list \<Rightarrow> street list \<Rightarrow> location list \<Rightarrow> light list \<Rightarrow> car \<Rightarrow> carData list" where
  "approachingCarData intersectionId cars streets locations intersectionLights c =
    (if reachedDestination c then []
     else if currentStreetId c \<notin> set (map streetId intersectionLights) then []
     else case isCarApproachingIntersection c streets locations of
       None \<Rightarrow> []
     | Some ap \<Rightarrow>
        (if \<not> approaching ap \<or> apLocationId ap \<noteq> intersectionId then []
         else case findStreet (currentStreetId c) streets of
           None \<Rightarrow> []
         | Some street \<Rightarrow>
            (let slowing = findSlowingCars c cars in
             case calculateEnhancedEstimatedArrivalTime c ap streets locations slowing of
               None \<Rightarrow> []
             | Some t \<Rightarrow>
                [\<lparr>cdCar = c, cdStreetId = currentStreetId c, cdSpeed = speed c,
                  intendedDirection = (case nextTurn c of Some t \<Rightarrow> t | None \<Rightarrow> Straight),
                  estimatedArrivalTime =
                    t + (if speed c < 1/10 then 1 else 0) + (if nextTurn c = Some TurnRight then 1 else 0),
                  distanceToIntersection = apDistanceToIntersection ap,
                  slowingCars = slowing, isStopped = (speed c < 1/10),
                  cdTimeNotMoving = timeNotMoving c, rank = None\<rparr>])))"

definition collectApproachingCarsData ::
    "string \<Rightarrow> car list \<Rightarrow> street list \<Rightarrow> location list \<Rightarrow> light list \<Rightarrow> carData list" where
  "collectApproachingCarsData intersectionId cars streets locations intersectionLights =
     concat (map (approachingCarData intersectionId cars streets locations intersectionLights) cars)"

definition analyzeAndDecideSmartTraffic ::
    "string \<Rightarrow> car list \<Rightarrow> street list \<Rightarrow> location list \<Rightarrow> light list \<Rightarrow> decision" where
  "analyzeAndDecideSmartTraffic intersectionId cars streets locations intersectionLights =
    (if intersectionLights = []
     then \<lparr>dAction = NONE, targetGroup = None, dReason = NO_LIGHTS\<rparr>
     else
       (let approachingCarsData =
              collectApproachingCarsData intersectionId cars streets locations intersectionLights;
            rankedCars = rankCarsByArrivalTime approachingCarsData;
            streetScores = calculateStreetScores rankedCars intersectionLights;
            pairScores = combineOppositeStreetScores streetScores intersectionLights
        in makeTrafficLightDecision pairScores intersectionLights))"

section \<open>The light state machine\<close>

text \<open>
  The lights are objects shared between the array that is passed around and the per-intersection
  arrays filtered from it; here the list of all lights is the store, and the light that is being
  updated is named by its index \<open>i\<close>.
\<close>

text \<open>\<^verbatim>\<open>a % n\<close> on numbers: the remainder has the sign of the dividend.\<close>

definition jsRem :: "real \<Rightarrow> real \<Rightarrow> real" where
  "jsRem a n = a - n * of_int (if 0 \<le> a / n then \<lfloor>a / n\<rfloor> else \<lceil>a / n\<rceil>)"

definition fallbackGroup :: "real \<Rightarrow> string" where
  "fallbackGroup a =
     (let normalizedAngle = jsRem (a + 360) 360 in
      if (45 \<le> normalizedAngle \<and> normalizedAngle \<le> 135) \<or> (225 \<le> normalizedAngle \<and> normalizedAngle \<le> 315)
      then ''north-south'' else ''east-west'')"

text \<open>The cycle duration of a state; \<open>None\<close> stands for \<^verbatim>\<open>Infinity\<close>.\<close>

fun cycleDuration :: "bool \<Rightarrow> lstate \<Rightarrow> real option" where
  "cycleDuration True Green = None"
| "cycleDuration True Yellow = Some (1/2)"
| "cycleDuration True Red = None"
| "cycleDuration True Waiting = Some (1/2)"
| "cycleDuration False Green = Some 10"
| "cycleDuration False Yellow = Some 2"
| "cycleDuration False Red = Some 12"
| "cycleDuration False Waiting = Some (1/2)"

text \<open>\<^verbatim>\<open>light.timer >= cycleDuration\<close>.\<close>

definition timedOut :: "real \<Rightarrow> real option \<Rightarrow> bool" where
  "timedOut t d = (case d of None \<Rightarrow> False | Some c \<Rightarrow> c \<le> t)"

definition sameIntersection :: "light \<Rightarrow> light \<Rightarrow> bool" where
  "sameIntersection me l = (locationId l = locationId me)"

text \<open>
  The synchronisation loops: every other light (other by its id) of the same intersection and
  group that is in state \<open>fromS\<close> goes to \<open>toS\<close> with its timer reset.
\<close>

definition syncGroup :: "lstate \<Rightarrow> lstate \<Rightarrow> light \<Rightarrow> light list \<Rightarrow> light list" where
  "syncGroup fromS toS me ls =
     map (\<lambda>otherLight.
            if sameIntersection me otherLight \<and> oppositeGroupId otherLight = oppositeGroupId me
               \<and> lightId otherLight \<noteq> lightId me \<and> state otherLight = fromS
            then otherLight\<lparr>state := toS, timer := 0\<rparr> else otherLight) ls"

text \<open>Traditional control, on yellow to red: every red light of another group goes to waiting.\<close>

definition pushPerpendicular :: "light \<Rightarrow> light list \<Rightarrow> light list" where
  "pushPerpendicular me ls =
     map (\<lambda>l. if sameIntersection me l \<and> oppositeGroupId l \<noteq> oppositeGroupId me \<and> state l = Red
               then l\<lparr>state := Waiting, timer := 0\<rparr> else l) ls"

text \<open>
  Smart control, on yellow to red: with a pending switch target, the red lights of the target
  group go to waiting, and the target is cleared once the whole group of the light is red.
\<close>

definition targetToWaiting :: "light \<Rightarrow> light list \<Rightarrow> light list" where
  "targetToWaiting me ls =
     map (\<lambda>l. if sameIntersection me l \<and> oppositeGroupId l = smartSwitchTarget me \<and> state l = Red
               then l\<lparr>state := Waiting, timer := 0\<rparr> else l) ls"

definition allCurrentGroupRed :: "light \<Rightarrow> light list \<Rightarrow> bool" where
  "allCurrentGroupRed me ls =
     (\<forall>l \<in> set ls. sameIntersection me l \<and> oppositeGroupId l = oppositeGroupId me \<longrightarrow> state l = Red)"

definition clearTargets :: "light \<Rightarrow> light list \<Rightarrow> light list" where
  "clearTargets me ls =
     map (\<lambda>l. if sameIntersection me l then l\<lparr>smartSwitchTarget := None\<rparr> else l) ls"

definition promoteTarget :: "light \<Rightarrow> light list \<Rightarrow> light list" where
  "promoteTarget me ls =
    (if truthy (smartSwitchTarget me) then
       (if allCurrentGroupRed me (targetToWaiting me ls)
        then clearTargets me (targetToWaiting me ls)
        else targetToWaiting me ls)
     else ls)"

text \<open>\<^verbatim>\<open>applySmartDecision\<close> on the lights of the intersection of \<open>me\<close>.\<close>

definition applySmartDecision :: "decision \<Rightarrow> light \<Rightarrow> light list \<Rightarrow> light list" where
  "applySmartDecision d me ls =
    (if dAction d = SWITCH then
       map (\<lambda>l. if sameIntersection me l
                 then (if state l = Green
                       then l\<lparr>smartSwitchTarget := targetGroup d, state := Yellow, timer := 0\<rparr>
                       else l\<lparr>smartSwitchTarget := targetGroup d\<rparr>)
                 else l) ls
     else if truthy (targetGroup d) then
       map (\<lambda>l. if sameIntersection me l \<and> oppositeGroupId l = targetGroup d \<and> state l = Green
                 then l\<lparr>timer := 0\<rparr> else l) ls
     else ls)"

text \<open>The once-per-second evaluation is due for a light.\<close>

definition smartUpdateDue :: "int \<Rightarrow> light \<Rightarrow> bool" where
  "smartUpdateDue now l =
     (case lastSmartUpdate l of
        None \<Rightarrow> True
      | Some t \<Rightarrow> t = 0 \<or> 1000 \<le> now - t)"

definition smartPhase ::
    "int \<Rightarrow> car list \<Rightarrow> street list \<Rightarrow> location list \<Rightarrow> nat \<Rightarrow> light list \<Rightarrow> light list" where
  "smartPhase now cars streets locations i ls =
    (if smartUpdateDue now (ls ! i) then
       (let me = ls ! i;
            ls1 = map (\<lambda>l. if sameIntersection me l then l\<lparr>lastSmartUpdate := Some now\<rparr> else l) ls;
            smartDecision = analyzeAndDecideSmartTraffic (locationId me) cars streets locations
                              (filter (sameIntersection me) ls1)
        in applySmartDecision smartDecision me ls1)
     else ls)"

text \<open>The change of state of light \<open>i\<close> once its timer has reached the cycle duration.\<close>

definition changeState :: "bool \<Rightarrow> nat \<Rightarrow> light list \<Rightarrow> light list" where
  "changeState isSmartControl i ls =
    (case state (ls ! i) of
       Green \<Rightarrow>
         (let me = (ls ! i)\<lparr>timer := 0, state := Yellow\<rparr>
          in syncGroup Green Yellow me (ls[i := me]))
     | Yellow \<Rightarrow>
         (let me = (ls ! i)\<lparr>timer := 0, state := Red\<rparr>;
              ls1 = syncGroup Yellow Red me (ls[i := me])
          in if isSmartControl then promoteTarget me ls1 else pushPerpendicular me ls1)
     | Waiting \<Rightarrow>
         (let me = (ls ! i)\<lparr>timer := 0, state := Green\<rparr>
          in syncGroup Waiting Green me (ls[i := me]))
     | Red \<Rightarrow> ls[i := (ls ! i)\<lparr>timer := 0\<rparr>])"

text \<open>\<^verbatim>\<open>light.timer += deltaTime\<close>.\<close>

definition incrementTimer :: "real \<Rightarrow> nat \<Rightarrow> light list \<Rightarrow> light list" where
  "incrementTimer deltaTime i ls = ls[i := (ls ! i)\<lparr>timer := timer (ls ! i) + deltaTime\<rparr>]"

text \<open>A light without a group id gets the fallback group of its angle.\<close>

definition ensureGroup :: "nat \<Rightarrow> light list \<Rightarrow> light list" where
  "ensureGroup i ls =
     (if \<not> truthy (oppositeGroupId (ls ! i)) \<and> filter (sameIntersection (ls ! i)) ls \<noteq> []
      then ls[i := (ls ! i)\<lparr>oppositeGroupId := Some (fallbackGroup (angle (ls ! i)))\<rparr>]
      else ls)"

text \<open>The check of the timer against the cycle duration, and the change of state.\<close>

definition stateMachine :: "bool \<Rightarrow> nat \<Rightarrow> light list \<Rightarrow> light list" where
  "stateMachine isSmartControl i ls =
     (if timedOut (timer (ls ! i)) (cycleDuration isSmartControl (state (ls ! i)))
      then changeState isSmartControl i ls else ls)"

text \<open>
  \<^verbatim>\<open>updateTrafficLight\<close> for the light at index \<open>i\<close> of \<open>allLights\<close> (the call made by
  \<^verbatim>\<open>updateTrafficLights\<close>, where \<^verbatim>\<open>light\<close> is an element of \<^verbatim>\<open>allLights\<close>).
\<close>

definition updateTrafficLight ::
    "int \<Rightarrow> real \<Rightarrow> bool \<Rightarrow> car list \<Rightarrow> street list \<Rightarrow> location list \<Rightarrow> nat \<Rightarrow> light list
       \<Rightarrow> light list" where
  "updateTrafficLight now deltaTime isSmartControl cars streets locations i allLights =
    (if length allLights \<le> i then allLights
     else if isSmartControl
     then stateMachine True i
            (smartPhase now cars streets locations i (ensureGroup i (incrementTimer deltaTime i allLights)))
     else stateMachine False i (ensureGroup i (incrementTimer deltaTime i allLights)))"

section \<open>The safety validator and the batch update\<close>

text \<open>
  \<^verbatim>\<open>greenLights.slice(2).forEach(...)\<close>: of the green lights of the intersection, all but the
  first two go to red; \<open>n\<close> counts the green lights seen so far.
\<close>

fun demoteExtraGreens :: "string \<Rightarrow> nat \<Rightarrow> light list \<Rightarrow> light list" where
  "demoteExtraGreens loc n [] = []"
| "demoteExtraGreens loc n (l # ls) =
     (if locationId l = loc \<and> state l = Green
      then (if n < 2 then l else l\<lparr>state := Red, timer := 0\<rparr>) # demoteExtraGreens loc (Suc n) ls
      else l # demoteExtraGreens loc n ls)"

text \<open>
  The body of the loop over the intersections in \<^verbatim>\<open>validateIntersectionSafety\<close>. The minimum
  of the timers of a non-empty list exceeds 3 exactly when every timer does.
\<close>

definition forceNorthSouthGreen :: "string \<Rightarrow> light list \<Rightarrow> light list" where
  "forceNorthSouthGreen loc ls =
     map (\<lambda>l. if locationId l = loc \<and> oppositeGroupId l = Some ''north-south''
               then l\<lparr>state := Green, timer := 0\<rparr> else l) ls"

definition validateAt :: "string \<Rightarrow> light list \<Rightarrow> light list" where
  "validateAt loc ls =
    (let intersectionLights = filter (\<lambda>l. locationId l = loc) ls in
     if length intersectionLights < 4 then ls
     else
      (let greenLights = filter (\<lambda>l. state l = Green) intersectionLights;
           redLights = filter (\<lambda>l. state l = Red) intersectionLights;
           ls1 = (if 2 < length greenLights then demoteExtraGreens loc 0 ls else ls)
       in if length redLights = length intersectionLights
             \<and> (\<forall>l \<in> set (filter (\<lambda>l. locationId l = loc) ls1). 3 < timer l)
          then forceNorthSouthGreen loc ls1
          else ls1))"

definition validateIntersectionSafety :: "light list \<Rightarrow> light list" where
  "validateIntersectionSafety lights =
     fold validateAt (firstOccurrences (map locationId lights)) lights"

definition updateTrafficLights ::
    "int \<Rightarrow> real \<Rightarrow> bool \<Rightarrow> car list \<Rightarrow> street list \<Rightarrow> location list \<Rightarrow> light list \<Rightarrow> light list" where
  "updateTrafficLights now deltaTime isSmartControl cars streets locations lights =
     validateIntersectionSafety
       (fold (updateTrafficLight now deltaTime isSmartControl cars streets locations)
          [0..<length lights] lights)"

section \<open>Sample data for the closed examples\<close>

definition sampleCar :: car where
  "sampleCar = \<lparr>carId = ''car-1'', originalId = None, startLocationId = ''P1'',
     destinationId = ''P2'', currentStreetId = ''s1'', direction = Forward, progress = 1/2,
     speed = 0, preferredSpeed = 3/5, maxSpeed = 3/5, reachedDestination = False, stops = 0,
     timeNotMoving = 0, timeNotMovingStart = None, lastStopTime = None, path = [],
     nextTurn = None, waitingToTurnLeft = False, streetsTraveled = 0, totalTravelTime = 0,
     currentStreetStartTime = Some 1000, turnSignalStartTime = None, totalDistance = 0,
     locationsVisited = 0, lastSpeed = 0\<rparr>"

definition approachData :: "string \<Rightarrow> real \<Rightarrow> carData" where
  "approachData s t = \<lparr>cdCar = sampleCar, cdStreetId = s, cdSpeed = 3/5,
     intendedDirection = Straight, estimatedArrivalTime = t, distanceToIntersection = 1/2,
     slowingCars = [], isStopped = False, cdTimeNotMoving = 0, rank = None\<rparr>"

definition exampleLight ::
    "string \<Rightarrow> string \<Rightarrow> string \<Rightarrow> lstate \<Rightarrow> real \<Rightarrow> string option \<Rightarrow> light" where
  "exampleLight i loc s st t g = \<lparr>lightId = i, locationId = loc, streetId = s, state = st,
     timer = t, angle = 0, oppositeGroupId = g, smartSwitchTarget = None,
     lastSmartUpdate = None\<rparr>"

text \<open>Three approaching vehicles, two of them with the same arrival time.\<close>

definition threeCars :: "carData list" where
  "threeCars = [approachData ''s1'' 5, approachData ''s2'' 3, approachData ''s1'' 5]"

text \<open>101 vehicles on one street with pairwise different arrival times.\<close>

definition manyCars :: "carData list" where
  "manyCars = map (\<lambda>k. approachData ''s1'' (real k)) [0..<101]"

text \<open>A four-way intersection, paired as the constructor pairs it, with every light red.\<close>

definition allRedLights :: "light list" where
  "allRedLights =
     [exampleLight ''l1'' ''X'' ''s1'' Red 3 (Some ''opposite-X-0''),
      exampleLight ''l2'' ''X'' ''s2'' Red 3 (Some ''opposite-X-1''),
      exampleLight ''l3'' ''X'' ''s3'' Red 3 (Some ''opposite-X-0''),
      exampleLight ''l4'' ''X'' ''s4'' Red 3 (Some ''opposite-X-1'')]"

section \<open>Vehicle engine: geometry\<close>

text \<open>
  \<^verbatim>\<open>Math.atan2(y, x)\<close>, the angle of the point \<open>(x, y)\<close> in \<open>(-\<pi>, \<pi>]\<close>.
\<close>

definition atan2 :: "real \<Rightarrow> real \<Rightarrow> real" where
  "atan2 y x =
     (if 0 < x then arctan (y / x)
      else if x < 0 then (if 0 \<le> y then arctan (y / x) + pi else arctan (y / x) - pi)
      else if 0 < y then pi / 2
      else if y < 0 then - (pi / 2)
      else 0)"

record position =
  posX :: real
  posY :: real
  posAngle :: real

text \<open>
  \<^verbatim>\<open>calculateCarPosition\<close>: the point on the street at the (clamped) progress, moved 12
  pixels to the right-hand lane, and the heading in degrees. The curved-turn path is disabled in
  the source (it returns \<^verbatim>\<open>null\<close>), so the straight-line position is always used.
\<close>

definition calculateCarPosition :: "car \<Rightarrow> street list \<Rightarrow> location list \<Rightarrow> position option" where
  "calculateCarPosition c streets locations =
    (case findStreet (currentStreetId c) streets of
       None \<Rightarrow> None
     | Some street \<Rightarrow>
        (case (findLocation (sfrom street) locations, findLocation (sto street) locations) of
           (Some fromLocation, Some toLocation) \<Rightarrow>
             (let p = (if progress c < 0 then 0 else if 1 < progress c then 1 else progress c);
                  centerX = (if direction c = Forward
                             then locX fromLocation + (locX toLocation - locX fromLocation) * p
                             else locX toLocation + (locX fromLocation - locX toLocation) * (1 - p));
                  centerY = (if direction c = Forward
                             then locY fromLocation + (locY toLocation - locY fromLocation) * p
                             else locY toLocation + (locY fromLocation - locY toLocation) * (1 - p));
                  streetAngle = atan2 (locY toLocation - locY fromLocation)
                                      (locX toLocation - locX fromLocation);
                  perpAngle = (if direction c = Forward then streetAngle + pi / 2
                               else streetAngle - pi / 2);
                  a = streetAngle * 180 / pi
              in Some \<lparr>posX = centerX + cos perpAngle * 12,
                       posY = centerY + sin perpAngle * 12,
                       posAngle = (if direction c = Backward then jsRem (a + 180) 360 else a)\<rparr>)
         | _ \<Rightarrow> None))"

record bounds =
  minX :: real
  maxX :: real
  minY :: real
  maxY :: real

text \<open>\<^verbatim>\<open>getCarBounds\<close>: the bounding box of the rotated rectangle of the car.\<close>

definition getCarBounds :: "position \<Rightarrow> real \<Rightarrow> real \<Rightarrow> bounds" where
  "getCarBounds pos width height =
    (let angleRad = posAngle pos * pi / 180;
         halfWidth = width / 2;
         halfHeight = height / 2;
         corners = [(- halfWidth, - halfHeight), (halfWidth, - halfHeight),
                    (halfWidth, halfHeight), (- halfWidth, halfHeight)];
         xs = map (\<lambda>(cx, cy). posX pos + cx * cos angleRad - cy * sin angleRad) corners;
         ys = map (\<lambda>(cx, cy). posY pos + cx * sin angleRad + cy * cos angleRad) corners
     in \<lparr>minX = fold min (tl xs) (hd xs), maxX = fold max (tl xs) (hd xs),
         minY = fold min (tl ys) (hd ys), maxY = fold max (tl ys) (hd ys)\<rparr>)"

definition checkBoundsCollision :: "bounds \<Rightarrow> bounds \<Rightarrow> real \<Rightarrow> bool" where
  "checkBoundsCollision b1 b2 margin =
     (\<not> (maxX b1 + margin < minX b2 \<or> maxX b2 + margin < minX b1 \<or>
         maxY b1 + margin < minY b2 \<or> maxY b2 + margin < minY b1))"

text \<open>\<^verbatim>\<open>isCarMovingTowardPoint\<close>: the car moves, and the point lies within 60 degrees of its heading.\<close>

definition isCarMovingTowardPoint ::
    "car \<Rightarrow> real \<times> real \<Rightarrow> street list \<Rightarrow> location list \<Rightarrow> bool" where
  "isCarMovingTowardPoint c targetPoint streets locations =
    (if speed c < 1/100 then False
     else case calculateCarPosition c streets locations of
       None \<Rightarrow> False
     | Some currentPos \<Rightarrow>
        (case findStreet (currentStreetId c) streets of
           None \<Rightarrow> False
         | Some street \<Rightarrow>
            (case (findLocation (sfrom street) locations, findLocation (sto street) locations) of
               (Some fromLocation, Some toLocation) \<Rightarrow>
                 (let mx = (if direction c = Forward then locX toLocation - locX fromLocation
                            else locX fromLocation - locX toLocation);
                      my = (if direction c = Forward then locY toLocation - locY fromLocation
                            else locY fromLocation - locY toLocation);
                      movementMagnitude = hypot mx my;
                      tx = fst targetPoint - posX currentPos;
                      ty = snd targetPoint - posY currentPos;
                      toTargetMagnitude = hypot tx ty
                  in if movementMagnitude = 0 then False
                     else if toTargetMagnitude = 0 then False
                     else 1/2 < (mx / movementMagnitude) * (tx / toTargetMagnitude)
                                + (my / movementMagnitude) * (ty / toTargetMagnitude))
             | _ \<Rightarrow> False)))"

record collision =
  centerDistance :: real
  isColliding :: bool
  car1MovingToward :: bool
  car2MovingToward :: bool

text \<open>
  \<^verbatim>\<open>analyzeCarCollision\<close>; \<open>None\<close> stands for the result with distance \<^verbatim>\<open>Infinity\<close> and
  every flag false, returned when a position cannot be computed.
\<close>

definition analyzeCarCollision ::
    "car \<Rightarrow> car \<Rightarrow> street list \<Rightarrow> location list \<Rightarrow> collision option" where
  "analyzeCarCollision car1 car2 streets locations =
    (case (calculateCarPosition car1 streets locations, calculateCarPosition car2 streets locations) of
       (Some pos1, Some pos2) \<Rightarrow>
         Some \<lparr>centerDistance = hypot (posX pos2 - posX pos1) (posY pos2 - posY pos1),
               isColliding = checkBoundsCollision (getCarBounds pos1 28 14) (getCarBounds pos2 28 14) 5,
               car1MovingToward = isCarMovingTowardPoint car1 (posX pos2, posY pos2) streets locations,
               car2MovingToward = isCarMovingTowardPoint car2 (posX pos1, posY pos1) streets locations\<rparr>
     | _ \<Rightarrow> None)"

text \<open>\<^verbatim>\<open>calculateDistanceBetweenCars\<close>; \<open>None\<close> stands for \<^verbatim>\<open>Infinity\<close>.\<close>

definition calculateDistanceBetweenCars ::
    "car \<Rightarrow> car \<Rightarrow> street list \<Rightarrow> location list \<Rightarrow> real option" where
  "calculateDistanceBetweenCars car1 car2 streets locations =
    (case (calculateCarPosition car1 streets locations, calculateCarPosition car2 streets locations) of
       (Some pos1, Some pos2) \<Rightarrow> Some (hypot (posX pos2 - posX pos1) (posY pos2 - posY pos1))
     | _ \<Rightarrow> None)"

section \<open>Vehicle engine: the other vehicles\<close>

text \<open>
  \<^verbatim>\<open>findCarAhead\<close>: the closest car ahead on the same street in the same direction; of two
  equally close cars the first in the list.
\<close>

definition closerAhead :: "car \<Rightarrow> car \<Rightarrow> car option \<Rightarrow> car option" where
  "closerAhead c otherCar closest =
     (if (if direction c = Forward then progress c < progress otherCar
          else progress otherCar < progress c)
      then (case closest of
              None \<Rightarrow> Some otherCar
            | Some best \<Rightarrow>
                if \<bar>progress otherCar - progress c\<bar> < \<bar>progress best - progress c\<bar>
                then Some otherCar else Some best)
      else closest)"

definition findCarAhead :: "car \<Rightarrow> car list \<Rightarrow> car option" where
  "findCarAhead c allCars =
     fold (closerAhead c)
       (filter (\<lambda>otherCar. carId otherCar \<noteq> carId c \<and> currentStreetId otherCar = currentStreetId c
                  \<and> direction otherCar = direction c \<and> \<not> reachedDestination otherCar) allCars)
       None"

record crossTraffic =
  ctCar :: car
  ctAnalysis :: collision
  ctPriority :: real
  ctShouldStop :: bool

text \<open>
  One step of the loop of \<^verbatim>\<open>findCrossTrafficCar\<close>; the accumulator is
  \<open>(highestPriority, mostCriticalCollision)\<close>.
\<close>

definition crossTrafficStep ::
    "car \<Rightarrow> street \<Rightarrow> street list \<Rightarrow> location list \<Rightarrow> car
       \<Rightarrow> real \<times> crossTraffic option \<Rightarrow> real \<times> crossTraffic option" where
  "crossTrafficStep c currentStreet streets locations otherCar acc =
    (let intersectionLocationId = (if direction c = Forward then sto currentStreet else sfrom currentStreet) in
     if carId otherCar = carId c \<or> reachedDestination otherCar then acc
     else case findStreet (currentStreetId otherCar) streets of
       None \<Rightarrow> acc
     | Some otherStreet \<Rightarrow>
        if \<not> (\<exists>s \<in> set streets.
                 (sfrom s = intersectionLocationId \<or> sto s = intersectionLocationId)
                 \<and> strId s = currentStreetId otherCar)
           \<or> currentStreetId otherCar = currentStreetId c then acc
        else if (if direction otherCar = Forward then sto otherStreet else sfrom otherStreet)
                  \<noteq> intersectionLocationId then acc
        else case analyzeCarCollision c otherCar streets locations of
          None \<Rightarrow> acc
        | Some a \<Rightarrow>
           if distanceToEnd c < 3/10 \<and> distanceToEnd otherCar < 3/10 \<and> isColliding a
           then
             (let priority = 1 + (if car2MovingToward a then 3 else 0)
                               - (if car1MovingToward a then 0 else 2)
                               + (if speed c < speed otherCar then 1 else 0)
                               + max 0 (1 - centerDistance a / 100)
              in if fst acc < priority
                 then (priority, Some \<lparr>ctCar = otherCar, ctAnalysis = a, ctPriority = priority,
                                        ctShouldStop = (car1MovingToward a \<and> car2MovingToward a)\<rparr>)
                 else acc)
           else acc)"

definition findCrossTrafficCar ::
    "car \<Rightarrow> car list \<Rightarrow> street list \<Rightarrow> location list \<Rightarrow> crossTraffic option" where
  "findCrossTrafficCar c allCars streets locations =
    (case findStreet (currentStreetId c) streets of
       None \<Rightarrow> None
     | Some currentStreet \<Rightarrow>
        if 1/4 < distanceToEnd c then None
        else snd (fold (crossTrafficStep c currentStreet streets locations) allCars (0, None)))"

text \<open>\<^verbatim>\<open>calculateDeadlockPriority\<close>; \<open>r\<close> is the random draw.\<close>

definition calculateDeadlockPriority :: "car \<Rightarrow> street list \<Rightarrow> real \<Rightarrow> real" where
  "calculateDeadlockPriority c streets r =
     speed c * 10
     + (case findStreet (currentStreetId c) streets of
          None \<Rightarrow> 0 | Some _ \<Rightarrow> (1 - distanceToEnd c) * 5)
     + (case nextTurn c of
          Some Straight \<Rightarrow> 3 | Some TurnRight \<Rightarrow> 2 | Some TurnLeft \<Rightarrow> 1 | Some Uturn \<Rightarrow> 0
        | None \<Rightarrow> 1)
     + r * (1/10)"

record deadlock =
  hasDeadlock :: bool
  shouldProceed :: bool

text \<open>
  \<^verbatim>\<open>detectAndResolveDeadlock\<close>. The loop over the nearby stopped cars returns at the first
  one whose bounding box collides; \<open>r1\<close> and \<open>r2\<close> are the random draws of the two priorities.
  Ids are compared as strings, in the lexicographic order of their characters.
\<close>

definition detectAndResolveDeadlock ::
    "car \<Rightarrow> car list \<Rightarrow> street list \<Rightarrow> location list \<Rightarrow> real \<Rightarrow> real \<Rightarrow> deadlock" where
  "detectAndResolveDeadlock c allCars streets locations r1 r2 =
    (if timeNotMoving c < 3 then \<lparr>hasDeadlock = False, shouldProceed = False\<rparr>
     else
      (let nearbyStoppedCars =
             filter (\<lambda>otherCar.
                 \<not> (carId otherCar = carId c \<or> reachedDestination otherCar) \<and>
                 \<not> (1/100 < speed otherCar) \<and> \<not> (timeNotMoving otherCar < 2) \<and>
                 (case calculateDistanceBetweenCars c otherCar streets locations of
                    None \<Rightarrow> False | Some d \<Rightarrow> d < 80)) allCars
       in case find (\<lambda>otherCar.
                       case analyzeCarCollision c otherCar streets locations of
                         None \<Rightarrow> False | Some a \<Rightarrow> isColliding a) nearbyStoppedCars of
            None \<Rightarrow> \<lparr>hasDeadlock = False, shouldProceed = False\<rparr>
          | Some otherCar \<Rightarrow>
             (let carPriority = calculateDeadlockPriority c streets r1;
                  otherCarPriority = calculateDeadlockPriority otherCar streets r2
              in if otherCarPriority < carPriority then \<lparr>hasDeadlock = True, shouldProceed = True\<rparr>
                 else if carPriority < otherCarPriority then \<lparr>hasDeadlock = True, shouldProceed = False\<rparr>
                 else \<lparr>hasDeadlock = True, shouldProceed = (carId c < carId otherCar)\<rparr>)))"

text \<open>\<^verbatim>\<open>checkForOncomingTrafficAdvanced\<close>.\<close>

definition checkForOncomingTrafficAdvanced :: "car \<Rightarrow> car list \<Rightarrow> bool" where
  "checkForOncomingTrafficAdvanced c allCars =
     (\<exists>oncomingCar \<in> set (filter (\<lambda>otherCar. carId otherCar \<noteq> carId c
                                    \<and> currentStreetId otherCar = currentStreetId c
                                    \<and> direction otherCar \<noteq> direction c
                                    \<and> \<not> reachedDestination otherCar) allCars).
        (let distance = \<bar>progress oncomingCar - progress c\<bar> in
         if nextTurn oncomingCar = Some Straight \<or> nextTurn oncomingCar = Some TurnRight
            \<or> nextTurn oncomingCar = None
         then distance / (if speed oncomingCar = 0 then 1/10 else speed oncomingCar) < 3
              \<and> distance < 1/2
         else if nextTurn oncomingCar = Some TurnLeft then False
         else distance < 3/10))"

section \<open>Vehicle engine: routing\<close>

text \<open>
  The draws of \<^verbatim>\<open>Math.random()\<close> that one call of \<^verbatim>\<open>updateCar\<close> may make, one field for each
  place of the source that draws; the draws that only decide whether a line is logged are left
  out. \<^verbatim>\<open>Math.random()\<close> returns a number in \<open>[0, 1)\<close>.
\<close>

record draws =
  rPriority :: real
  rOtherPriority :: real
  rParkingLot :: real
  rOtherLocation :: real
  rPreferParking :: real
  rParkingDestination :: real
  rReachable :: real
  rRoute :: real

text \<open>
  \<^verbatim>\<open>xs[Math.floor(Math.random() * xs.length)]\<close> on a non-empty array. For a draw in \<open>[0, 1)\<close>
  the index is in range and the bound below changes nothing (lemma \<open>pick_draw\<close>); no other
  draw occurs.
\<close>

definition pick :: "real \<Rightarrow> 'a list \<Rightarrow> 'a" where
  "pick r xs = xs ! min (nat \<lfloor>r * real (length xs)\<rfloor>) (length xs - 1)"

record routingDecision =
  rdStreet :: street
  rdDirection :: dir
  rdTurn :: turn

text \<open>The module-level \<^verbatim>\<open>routingDecisions\<close> map, from routing keys to decisions.\<close>

type_synonym routingCache = "string \<Rightarrow> routingDecision option"

text \<open>The routing key, a template string; \<^verbatim>\<open>null\<close> is printed as \<^verbatim>\<open>null\<close>.\<close>

definition routingKey :: "string option \<Rightarrow> string \<Rightarrow> string \<Rightarrow> string" where
  "routingKey carOriginalId currentLocationId previousStreetId =
     (case carOriginalId of None \<Rightarrow> ''null'' | Some s \<Rightarrow> s)
       @ ''-'' @ currentLocationId @ ''-'' @ previousStreetId"

text \<open>The two loops that bring the turn angle into \<open>[-\<pi>, \<pi>]\<close>.\<close>

function wrapDown :: "real \<Rightarrow> real" where
  "wrapDown a = (if pi < a then wrapDown (a - 2 * pi) else a)"
  by pat_completeness auto
termination
proof (relation "measure (\<lambda>a. nat \<lceil>(a - pi) / (2 * pi)\<rceil>)")
  show "wf (measure (\<lambda>a. nat \<lceil>(a - pi) / (2 * pi)\<rceil>))" by simp
next
  fix a :: real
  assume gt: "pi < a"
  have eq: "(a - 2 * pi - pi) / (2 * pi) = (a - pi) / (2 * pi) - 1"
    using pi_gt_zero by (simp add: field_simps)
  have pos: "0 < (a - pi) / (2 * pi)" using gt pi_gt_zero by simp
  hence "0 < \<lceil>(a - pi) / (2 * pi)\<rceil>" by simp
  thus "(a - 2 * pi, a) \<in> measure (\<lambda>a. nat \<lceil>(a - pi) / (2 * pi)\<rceil>)"
    unfolding in_measure eq by simp
qed

function wrapUp :: "real \<Rightarrow> real" where
  "wrapUp a = (if a < - pi then wrapUp (a + 2 * pi) else a)"
  by pat_completeness auto
termination
proof (relation "measure (\<lambda>a. nat \<lceil>(- pi - a) / (2 * pi)\<rceil>)")
  show "wf (measure (\<lambda>a. nat \<lceil>(- pi - a) / (2 * pi)\<rceil>))" by simp
next
  fix a :: real
  assume lt: "a < - pi"
  have eq: "(- pi - (a + 2 * pi)) / (2 * pi) = (- pi - a) / (2 * pi) - 1"
    using pi_gt_zero by (simp add: field_simps)
  have pos: "0 < (- pi - a) / (2 * pi)" using lt pi_gt_zero by simp
  hence "0 < \<lceil>(- pi - a) / (2 * pi)\<rceil>" by simp
  thus "(a + 2 * pi, a) \<in> measure (\<lambda>a. nat \<lceil>(- pi - a) / (2 * pi)\<rceil>)"
    unfolding in_measure eq by simp
qed

declare wrapDown.simps [simp del]
declare wrapUp.simps [simp del]

definition calculateTurnType :: "location \<Rightarrow> street \<Rightarrow> real \<Rightarrow> location list \<Rightarrow> turn" where
  "calculateTurnType currentLocation nextStreet approachAngle locations =
    (case findLocation (if sfrom nextStreet = locId currentLocation then sto nextStreet
                        else sfrom nextStreet) locations of
       None \<Rightarrow> Straight
     | Some otherEndLocation \<Rightarrow>
        (let exitAngle = atan2 (locY otherEndLocation - locY currentLocation)
                               (locX otherEndLocation - locX currentLocation);
             turnAngle = wrapUp (wrapDown (exitAngle - approachAngle));
             turnDegrees = \<bar>turnAngle * 180 / pi\<bar>
         in if turnDegrees < 30 then Straight
            else if 150 < turnDegrees then Uturn
            else if 0 < turnAngle then TurnLeft
            else TurnRight))"

definition uturnDecision :: "street \<Rightarrow> string \<Rightarrow> routingDecision" where
  "uturnDecision street currentLocationId =
     \<lparr>rdStreet = street,
      rdDirection = (if sfrom street = currentLocationId then Backward else Forward),
      rdTurn = Uturn\<rparr>"

definition exitDirectionAt :: "street \<Rightarrow> string \<Rightarrow> dir" where
  "exitDirectionAt street currentLocationId =
     (if sfrom street = currentLocationId then Forward else Backward)"

text \<open>
  The decision that \<^verbatim>\<open>findBestNextStreet\<close> computes when the cache has none: the three
  scenarios and the fallback; \<open>None\<close> when no street touches the location. \<open>r\<close> is the draw
  of scenario 3.
\<close>

definition computeRoute ::
    "string \<Rightarrow> string \<Rightarrow> street list \<Rightarrow> location list \<Rightarrow> real \<Rightarrow> routingDecision option" where
  "computeRoute currentLocationId previousStreetId streets locations r =
    (let allConnectedStreets =
           filter (\<lambda>s. sfrom s = currentLocationId \<or> sto s = currentLocationId) streets;
         connectedStreets =
           filter (\<lambda>s. (sfrom s = currentLocationId \<or> sto s = currentLocationId)
                        \<and> strId s \<noteq> previousStreetId) streets
     in if length allConnectedStreets = 1
        then Some (uturnDecision (hd allConnectedStreets) currentLocationId)
        else if length allConnectedStreets = 2
        then (case connectedStreets of
                exitStreet # _ \<Rightarrow>
                  Some \<lparr>rdStreet = exitStreet,
                        rdDirection = exitDirectionAt exitStreet currentLocationId,
                        rdTurn = Straight\<rparr>
              | [] \<Rightarrow> Some (uturnDecision (hd allConnectedStreets) currentLocationId))
        else if 3 \<le> length allConnectedStreets
        then (if connectedStreets \<noteq> []
              then
                (let selectedStreet = pick r connectedStreets;
                     t = (case (findLocation currentLocationId locations,
                                findStreet previousStreetId streets) of
                            (Some currentLocation, Some previousStreet) \<Rightarrow>
                              (case findLocation
                                      (if sfrom previousStreet = currentLocationId
                                       then sto previousStreet else sfrom previousStreet) locations of
                                 None \<Rightarrow> Straight
                               | Some prevOtherLocation \<Rightarrow>
                                   calculateTurnType currentLocation selectedStreet
                                     (atan2 (locY currentLocation - locY prevOtherLocation)
                                            (locX currentLocation - locX prevOtherLocation))
                                     locations)
                          | _ \<Rightarrow> Straight)
                 in Some \<lparr>rdStreet = selectedStreet,
                          rdDirection = exitDirectionAt selectedStreet currentLocationId,
                          rdTurn = t\<rparr>)
              else Some (uturnDecision (hd allConnectedStreets) currentLocationId))
        else (case allConnectedStreets of
                street # _ \<Rightarrow>
                  Some \<lparr>rdStreet = street,
                        rdDirection = exitDirectionAt street currentLocationId,
                        rdTurn = Straight\<rparr>
              | [] \<Rightarrow> None))"

text \<open>
  \<^verbatim>\<open>findBestNextStreet\<close>, with the cache passed in and returned. The cache is read and written
  only for a truthy \<^verbatim>\<open>carOriginalId\<close>; the destination is not used by the source.
\<close>

definition findBestNextStreet ::
    "string \<Rightarrow> string \<Rightarrow> string \<Rightarrow> street list \<Rightarrow> location list \<Rightarrow> string option \<Rightarrow> real
       \<Rightarrow> routingCache \<Rightarrow> routingDecision option \<times> routingCache" where
  "findBestNextStreet currentLocationId destId previousStreetId streets locations
       carOriginalId r cache =
    (let key = routingKey carOriginalId currentLocationId previousStreetId in
     if truthy carOriginalId \<and> cache key \<noteq> None then (cache key, cache)
     else case computeRoute currentLocationId previousStreetId streets locations r of
            None \<Rightarrow> (None, cache)
          | Some routingDecision \<Rightarrow>
              (Some routingDecision,
               if truthy carOriginalId then cache(key \<mapsto> routingDecision) else cache))"

text \<open>\<^verbatim>\<open>generateNewDestination\<close>.\<close>

definition touches :: "street list \<Rightarrow> string \<Rightarrow> street list" where
  "touches streets lid = filter (\<lambda>s. sfrom s = lid \<or> sto s = lid) streets"

definition generateNewDestination :: "string \<Rightarrow> location list \<Rightarrow> street list \<Rightarrow> draws \<Rightarrow> string" where
  "generateNewDestination currentLocationId locations streets rnd =
    (let reachableLocations =
           filter (\<lambda>loc. locId loc \<noteq> currentLocationId \<and> touches streets (locId loc) \<noteq> []) locations
     in if reachableLocations = []
        then (let otherLocations = filter (\<lambda>loc. locId loc \<noteq> currentLocationId) locations
              in if otherLocations \<noteq> [] then locId (pick (rOtherLocation rnd) otherLocations)
                 else currentLocationId)
        else
         (let parkingLots =
                filter (\<lambda>loc. length (touches streets (locId loc)) = 1) reachableLocations
          in if parkingLots \<noteq> [] \<and> rPreferParking rnd < 7/10
             then locId (pick (rParkingDestination rnd) parkingLots)
             else locId (pick (rReachable rnd) reachableLocations)))"

section \<open>Vehicle engine: one step of a vehicle\<close>

text \<open>
  The readings of \<^verbatim>\<open>Date.now()\<close> (milliseconds) that one call of \<^verbatim>\<open>updateCar\<close> may take, one
  field for each place of the source that reads the clock. In
  \<^verbatim>\<open>Date.now() - (car.currentStreetStartTime || Date.now())\<close> the left operand is \<open>atTravel\<close>
  and the right one, read only when the start time is falsy, is \<open>atTravelFallback\<close>.
\<close>

record clock =
  atStop :: int
  atIdle :: int
  atSignal :: int
  atTravel :: int
  atTravelFallback :: int
  atStreetStart :: int

text \<open>\<^verbatim>\<open>car.preferredSpeed || car.maxSpeed\<close>.\<close>

definition cruiseSpeed :: "car \<Rightarrow> real" where
  "cruiseSpeed c = (if preferredSpeed c = 0 then maxSpeed c else preferredSpeed c)"

text \<open>
  What the first half of \<^verbatim>\<open>updateCar\<close> decides: the target speed, whether the car must stop,
  whether cross traffic blocks it, whether it waits to turn left, and whether a car ahead or a
  cross-traffic analysis exists (\<^verbatim>\<open>crossTrafficAnalysis || carAhead\<close>).
\<close>

record drive =
  targetSpeed :: real
  shouldStop :: bool
  crossTrafficBlocking :: bool
  waitingLeft :: bool
  obstacle :: bool

text \<open>
  Car following. The safe following distance is \<open>28 * 2.0\<close> and the minimum distance
  \<open>28 * 1.1\<close> pixels.
\<close>

definition followCarAhead ::
    "car \<Rightarrow> car option \<Rightarrow> street list \<Rightarrow> location list \<Rightarrow> real \<times> bool" where
  "followCarAhead c carAhead streets locations =
    (case carAhead of
       None \<Rightarrow> (cruiseSpeed c, False)
     | Some ahead \<Rightarrow>
        (case analyzeCarCollision c ahead streets locations of
           None \<Rightarrow> (cruiseSpeed c, False)
         | Some a \<Rightarrow>
             if centerDistance a < 56 \<and> car1MovingToward a
             then (if centerDistance a < 154/5 then (0, True)
                   else (min (cruiseSpeed c)
                             (speed ahead * (1 - max 0 ((56 - centerDistance a) / 56) * (1/2))),
                         False))
             else (cruiseSpeed c, False)))"

datatype verdict = NoStop | StopAtLine | YieldLeft

text \<open>
  The callback of \<^verbatim>\<open>relevantLights.some\<close>: whether this light stops the car, and whether it
  does so for a left turn that must yield (the callback then sets \<^verbatim>\<open>waitingToTurnLeft\<close>).
\<close>

definition lightVerdict :: "car \<Rightarrow> location \<Rightarrow> location \<Rightarrow> car list \<Rightarrow> light \<Rightarrow> verdict" where
  "lightVerdict c fromLocation toLocation allCars l =
    (let d = distanceToEnd c;
         streetLength = hypot (locX toLocation - locX fromLocation) (locY toLocation - locY fromLocation)
     in if d * streetLength < 20 then NoStop
        else if state l = Red \<and> d < 3/10 \<and> (20 * (4/5)) / streetLength < d then StopAtLine
        else if state l = Yellow \<and> d < 3/10 \<and> (20 * (4/5)) / streetLength * (3/2) < d then StopAtLine
        else if state l = Green \<and> nextTurn c = Some TurnLeft \<and> d < 1/5
                \<and> checkForOncomingTrafficAdvanced c allCars then YieldLeft
        else NoStop)"

definition relevantLights :: "car \<Rightarrow> street \<Rightarrow> light list \<Rightarrow> light list" where
  "relevantLights c currentStreet trafficLights =
     filter (\<lambda>l. streetId l = currentStreetId c \<and>
                  ((direction c = Forward \<and> locationId l = sto currentStreet) \<or>
                   (direction c = Backward \<and> locationId l = sfrom currentStreet))) trafficLights"

definition decideDrive ::
    "draws \<Rightarrow> car \<Rightarrow> street \<Rightarrow> location \<Rightarrow> location \<Rightarrow> street list \<Rightarrow> location list
       \<Rightarrow> light list \<Rightarrow> car list \<Rightarrow> drive" where
  "decideDrive rnd c currentStreet fromLocation toLocation streets locations trafficLights allCars =
    (let carAhead = findCarAhead c allCars;
         crossTrafficAnalysis = findCrossTrafficCar c allCars streets locations;
         following = followCarAhead c carAhead streets locations;
         blocked = (case crossTrafficAnalysis of
                      None \<Rightarrow> False
                    | Some ct \<Rightarrow> ctShouldStop ct \<and> car1MovingToward (ctAnalysis ct));
         target1 = (if blocked then 0 else fst following);
         stop1 = (blocked \<or> snd following);
         override =
           ((stop1 \<or> speed c < 1/100) \<and>
            (let deadlockAnalysis = detectAndResolveDeadlock c allCars streets locations
                                      (rPriority rnd) (rOtherPriority rnd)
             in hasDeadlock deadlockAnalysis \<and> shouldProceed deadlockAnalysis));
         target2 = (if override then cruiseSpeed c else target1);
         stop2 = (if override then False else stop1);
         blocking = (if override then False else blocked);
         firstStop = (if blocking then None
                      else find (\<lambda>l. lightVerdict c fromLocation toLocation allCars l \<noteq> NoStop)
                             (relevantLights c currentStreet trafficLights))
     in \<lparr>targetSpeed = (if firstStop \<noteq> None then 0 else target2),
         shouldStop = (firstStop \<noteq> None \<or> stop2),
         crossTrafficBlocking = blocking,
         waitingLeft = (case firstStop of
                          None \<Rightarrow> False
                        | Some l \<Rightarrow> lightVerdict c fromLocation toLocation allCars l = YieldLeft),
         obstacle = (crossTrafficAnalysis \<noteq> None \<or> carAhead \<noteq> None)\<rparr>)"

text \<open>
  The second half: the new speed, the stop and waiting counters, the distance and the progress
  on the street, and the start of the turn signal. The result is \<^verbatim>\<open>updatedCar\<close> as it is when
  the end-of-street logic is reached.
\<close>

definition newSpeed :: "car \<Rightarrow> drive \<Rightarrow> real \<Rightarrow> real" where
  "newSpeed c dr deltaTime =
    (let isApproachingTurn = ((nextTurn c = Some TurnLeft \<or> nextTurn c = Some TurnRight)
                              \<and> distanceToEnd c < 1/5);
         target = (if isApproachingTurn then min (targetSpeed dr) (preferredSpeed c * (3/5))
                   else targetSpeed dr);
         deceleration = (if shouldStop dr \<and> target + 1/5 < speed c then 5
                         else if isApproachingTurn \<and> \<not> shouldStop dr then 3
                         else 12/5)
     in if speed c < target then min (speed c + (6/5) * deltaTime) target
        else if target < speed c then max (speed c - deceleration * deltaTime) (max 0 target)
        else speed c)"

definition advance :: "clock \<Rightarrow> car \<Rightarrow> drive \<Rightarrow> real \<Rightarrow> car" where
  "advance clk c dr deltaTime =
    (let v = newSpeed c dr deltaTime;
         isNowStopped = (v < 1/10);
         counted = (1/10 < speed c \<and> isNowStopped \<and> shouldStop dr);
         p = (if direction c = Forward then progress c + v * deltaTime * (2/25)
              else progress c - v * deltaTime * (2/25));
         progressFromStart = (if direction c = Forward then p else 1 - p)
     in c\<lparr>waitingToTurnLeft := waitingLeft dr,
          lastSpeed := speed c,
          speed := v,
          stops := (if counted then stops c + 1 else stops c),
          lastStopTime := (if counted then Some (atStop clk) else lastStopTime c),
          timeNotMovingStart :=
            (if isNowStopped
             then (if truthyTime (timeNotMovingStart c) then timeNotMovingStart c
                   else Some (atIdle clk))
             else None),
          timeNotMoving := (if isNowStopped then timeNotMoving c + deltaTime else timeNotMoving c),
          totalDistance := totalDistance c + v * deltaTime,
          progress := p,
          turnSignalStartTime :=
            (if 1/2 \<le> progressFromStart
                \<and> (nextTurn c = Some TurnLeft \<or> nextTurn c = Some TurnRight)
                \<and> \<not> truthyTime (turnSignalStartTime c)
             then Some (atSignal clk) else turnSignalStartTime c)\<rparr>)"

text \<open>
  The time spent on the current street in milliseconds,
  \<^verbatim>\<open>Date.now() - (car.currentStreetStartTime || Date.now())\<close>.
\<close>

definition streetTime :: "clock \<Rightarrow> car \<Rightarrow> int" where
  "streetTime clk u =
     atTravel clk - (case currentStreetStartTime u of
                       None \<Rightarrow> atTravelFallback clk
                     | Some t \<Rightarrow> if t = 0 then atTravelFallback clk else t)"

text \<open>The fields that every move onto a street sets.\<close>

definition enterStreet :: "clock \<Rightarrow> car \<Rightarrow> string \<Rightarrow> dir \<Rightarrow> string \<Rightarrow> car" where
  "enterStreet clk u sid d nextLocationId =
     u\<lparr>currentStreetId := sid,
       direction := d,
       progress := (if d = Forward then 1/20 else 19/20),
       path := path u @ [nextLocationId],
       speed := max (speed u) (1/10),
       waitingToTurnLeft := False,
       streetsTraveled := streetsTraveled u + 1,
       totalTravelTime := totalTravelTime u + real_of_int (streetTime clk u) / 1000,
       currentStreetStartTime := Some (atStreetStart clk)\<rparr>"

text \<open>The fields that a U-turn on the current street sets; \<open>p\<close> is the new progress.\<close>

definition turnAround :: "car \<Rightarrow> real \<Rightarrow> string \<Rightarrow> car" where
  "turnAround u p nextLocationId =
     u\<lparr>direction := (if direction u = Forward then Backward else Forward),
       progress := p,
       nextTurn := Some Uturn,
       path := path u @ [nextLocationId],
       speed := 1/10,
       waitingToTurnLeft := False,
       reachedDestination := False\<rparr>"

definition atEndOfStreet :: "car \<Rightarrow> bool" where
  "atEndOfStreet u = ((1 \<le> progress u \<and> direction u = Forward)
                      \<or> (progress u \<le> 0 \<and> direction u = Backward))"

text \<open>
  The end-of-street logic, for \<^verbatim>\<open>updatedCar\<close> \<open>u\<close> on \<open>currentStreet\<close>: a parking lot sends the
  car back with a new destination, a reached destination draws a new one, and otherwise the
  router chooses the next street.
\<close>

definition endOfStreet ::
    "clock \<Rightarrow> draws \<Rightarrow> car \<Rightarrow> street \<Rightarrow> street list \<Rightarrow> location list \<Rightarrow> routingCache
       \<Rightarrow> car \<times> routingCache" where
  "endOfStreet clk rnd u currentStreet streets locations cache =
    (let nextLocationId = (if direction u = Forward then sto currentStreet else sfrom currentStreet) in
     case findLocation nextLocationId locations of
       None \<Rightarrow> (u\<lparr>reachedDestination := True\<rparr>, cache)
     | Some nextLocation \<Rightarrow>
        (let connectedStreets = touches streets nextLocationId in
         if length connectedStreets = 1
         then
           (let visited = u\<lparr>locationsVisited := locationsVisited u + 1\<rparr>;
                exitStreet = hd connectedStreets;
                allParkingLots =
                  filter (\<lambda>loc. length (touches streets (locId loc)) = 1
                                 \<and> locId loc \<noteq> nextLocationId) locations
            in if allParkingLots \<noteq> []
               then
                 (let newDestination = pick (rParkingLot rnd) allParkingLots;
                      started = visited\<lparr>destinationId := locId newDestination,
                                        startLocationId := nextLocationId\<rparr>
                  in ((enterStreet clk started (strId exitStreet)
                         (exitDirectionAt exitStreet nextLocationId) nextLocationId)
                        \<lparr>nextTurn := None, reachedDestination := False\<rparr>,
                      cache))
               else (visited\<lparr>reachedDestination := True\<rparr>, cache))
         else if nextLocationId = destinationId u
         then
           (let newDestinationId = generateNewDestination nextLocationId locations streets rnd;
                routed = findBestNextStreet nextLocationId newDestinationId (currentStreetId u)
                           streets locations (jsOr (originalId u) (Some (carId u))) (rRoute rnd) cache
            in case fst routed of
                 None \<Rightarrow>
                   ((turnAround u (if direction u = Forward then 99/100 else 1/100) nextLocationId)
                      \<lparr>destinationId := newDestinationId\<rparr>,
                    snd routed)
               | Some info \<Rightarrow>
                   ((enterStreet clk u (strId (rdStreet info)) (rdDirection info) nextLocationId)
                      \<lparr>destinationId := newDestinationId,
                       nextTurn := Some (rdTurn info),
                       reachedDestination := False\<rparr>,
                    snd routed))
         else
           (let routed = findBestNextStreet nextLocationId (destinationId u) (currentStreetId u)
                           streets locations (jsOr (originalId u) (Some (carId u))) (rRoute rnd) cache
            in case fst routed of
                 None \<Rightarrow>
                   if connectedStreets = [] then (u\<lparr>reachedDestination := True\<rparr>, snd routed)
                   else (turnAround u (if direction u = Forward then 19/20 else 1/20) nextLocationId,
                         snd routed)
               | Some info \<Rightarrow>
                   ((enterStreet clk u (strId (rdStreet info)) (rdDirection info) nextLocationId)
                      \<lparr>nextTurn := Some (rdTurn info), turnSignalStartTime := None\<rparr>,
                    snd routed))))"

text \<open>
  \<^verbatim>\<open>updateCar\<close>, with the clock readings, the random draws and the routing cache passed in, and
  the cache returned with the car.
\<close>

definition updateCar ::
    "clock \<Rightarrow> draws \<Rightarrow> car \<Rightarrow> street list \<Rightarrow> location list \<Rightarrow> light list \<Rightarrow> real \<Rightarrow> car list
       \<Rightarrow> routingCache \<Rightarrow> car \<times> routingCache" where
  "updateCar clk rnd c streets locations trafficLights deltaTime allCars cache =
    (if reachedDestination c then (c, cache)
     else case findStreet (currentStreetId c) streets of
       None \<Rightarrow> (c\<lparr>reachedDestination := True\<rparr>, cache)
     | Some currentStreet \<Rightarrow>
        (case (findLocation (sfrom currentStreet) locations,
               findLocation (sto currentStreet) locations) of
           (Some fromLocation, Some toLocation) \<Rightarrow>
             (let dr = decideDrive rnd c currentStreet fromLocation toLocation streets locations
                         trafficLights allCars;
                  u = advance clk c dr deltaTime
              in if atEndOfStreet u \<and> 1/100 < speed u \<and> \<not> (shouldStop dr \<and> obstacle dr)
                 then endOfStreet clk rnd u currentStreet streets locations cache
                 else (u, cache))
         | _ \<Rightarrow> (c\<lparr>reachedDestination := True\<rparr>, cache)))"

text \<open>
  \<^verbatim>\<open>simulateTraffic\<close>: the time step is capped at a tenth of a second and every car is updated
  against the list of cars as it was before the tick; the cache is shared by the calls. \<open>clk k\<close>
  and \<open>rnd k\<close> are the clock readings and the draws of the call for the \<open>k\<close>-th car.
\<close>

fun updateEach ::
    "(nat \<Rightarrow> clock) \<Rightarrow> (nat \<Rightarrow> draws) \<Rightarrow> street list \<Rightarrow> location list \<Rightarrow> light list \<Rightarrow> real
       \<Rightarrow> car list \<Rightarrow> nat \<Rightarrow> car list \<Rightarrow> routingCache \<Rightarrow> car list \<times> routingCache" where
  "updateEach clk rnd streets locations trafficLights deltaTime allCars k [] cache = ([], cache)"
| "updateEach clk rnd streets locations trafficLights deltaTime allCars k (c # cs) cache =
     (let r = updateCar (clk k) (rnd k) c streets locations trafficLights deltaTime allCars cache;
          rest = updateEach clk rnd streets locations trafficLights deltaTime allCars (Suc k) cs (snd r)
      in (fst r # fst rest, snd rest))"

definition simulateTraffic ::
    "(nat \<Rightarrow> clock) \<Rightarrow> (nat \<Rightarrow> draws) \<Rightarrow> car list \<Rightarrow> street list \<Rightarrow> location list \<Rightarrow> light list
       \<Rightarrow> real \<Rightarrow> routingCache \<Rightarrow> car list \<times> routingCache" where
  "simulateTraffic clk rnd cars streets locations trafficLights deltaTime cache =
     updateEach clk rnd streets locations trafficLights (min deltaTime (1/10)) cars 0 cars cache"

section \<open>Sample light sets and auxiliary notions\<close>


definition endOfYellowLights :: "light list" where
  "endOfYellowLights =
     [exampleLight ''l1'' ''X'' ''s1'' Yellow (39/20) (Some ''opposite-X-0''),
      exampleLight ''l2'' ''X'' ''s2'' Red 5 (Some ''opposite-X-1''),
      exampleLight ''l3'' ''X'' ''s3'' Yellow (39/20) (Some ''opposite-X-0''),
      exampleLight ''l4'' ''X'' ''s4'' Red 5 (Some ''opposite-X-1'')]"



definition skeleton :: "light list \<Rightarrow> (string \<times> string \<times> string option) list" where
  "skeleton ls = map (\<lambda>l. (locationId l, lightId l, oppositeGroupId l)) ls"


section \<open>Reachable light configurations and the phase invariant\<close>

text \<open>Every light of the intersection has a group id.\<close>

definition groupsAssigned :: "string \<Rightarrow> light list \<Rightarrow> bool" where
  "groupsAssigned L ls = (\<forall>k < length ls. locationId (ls ! k) = L \<longrightarrow> truthy (oppositeGroupId (ls ! k)))"

text \<open>The lights of the intersection have pairwise different ids.\<close>

definition distinctIds :: "string \<Rightarrow> light list \<Rightarrow> bool" where
  "distinctIds L ls =
     (\<forall>j < length ls. \<forall>k < length ls.
        locationId (ls ! j) = L \<and> locationId (ls ! k) = L \<and> lightId (ls ! j) = lightId (ls ! k)
        \<longrightarrow> j = k)"

text \<open>The lights of the intersection form at most two groups.\<close>

definition atMostTwoGroups :: "string \<Rightarrow> light list \<Rightarrow> bool" where
  "atMostTwoGroups L ls =
     (\<exists>ga gb. \<forall>k < length ls. locationId (ls ! k) = L \<longrightarrow>
        oppositeGroupId (ls ! k) = ga \<or> oppositeGroupId (ls ! k) = gb)"

text \<open>The lights of the intersection that are not red share one group and one state.\<close>

definition onePhase :: "string \<Rightarrow> light list \<Rightarrow> bool" where
  "onePhase L ls =
     (\<exists>g s. \<forall>k < length ls. locationId (ls ! k) = L \<longrightarrow>
        state (ls ! k) = Red \<or> (oppositeGroupId (ls ! k) = g \<and> state (ls ! k) = s))"

text \<open>Same length, same locations, and at the intersection the same ids and groups.\<close>

definition sameFrame :: "string \<Rightarrow> light list \<Rightarrow> light list \<Rightarrow> bool" where
  "sameFrame L a b =
     (length a = length b \<and>
      (\<forall>k < length b. locationId (a ! k) = locationId (b ! k) \<and>
         (locationId (b ! k) = L \<longrightarrow>
            lightId (a ! k) = lightId (b ! k) \<and> oppositeGroupId (a ! k) = oppositeGroupId (b ! k))))"

definition phaseInv :: "string \<Rightarrow> bool \<Rightarrow> light list \<Rightarrow> bool" where
  "phaseInv L two ls =
     (groupsAssigned L ls \<and> distinctIds L ls \<and> onePhase L ls \<and> (two \<longrightarrow> atMostTwoGroups L ls))"

text \<open>
  The light set that \<^verbatim>\<open>createIntersectionTrafficLights\<close> returns for the intersection
  \<open>L\<close> (the constructor itself reads the clock and draws random timers): three or more
  lights, each with a group id, those of the group of the first light green and the others red.
\<close>

definition initialAt :: "string \<Rightarrow> light list \<Rightarrow> bool" where
  "initialAt L ls =
     (let here = filter (\<lambda>l. locationId l = L) ls in
      3 \<le> length here \<and>
      (\<forall>l \<in> set here. truthy (oppositeGroupId l) \<and>
          state l = (if oppositeGroupId l = oppositeGroupId (hd here) then Green else Red)))"

text \<open>
  The configurations produced by repeated batch updates, with any clock, time step, cars and
  graph at each step; steps under fixed-timer control are taken only when \<open>fixedTimer\<close>
  holds.
\<close>

inductive reachable :: "bool \<Rightarrow> light list \<Rightarrow> light list \<Rightarrow> bool" for fixedTimer ls0 where
  start: "reachable fixedTimer ls0 ls0"
| step: "reachable fixedTimer ls0 ls \<Longrightarrow> isSmartControl \<or> fixedTimer \<Longrightarrow>
         reachable fixedTimer ls0
           (updateTrafficLights now deltaTime isSmartControl cars streets locations ls)"

text \<open>No two lights of the intersection with different group ids are both green or yellow.\<close>

definition mutuallyExclusive :: "string \<Rightarrow> light list \<Rightarrow> bool" where
  "mutuallyExclusive L ls =
     (\<forall>a \<in> set ls. \<forall>b \<in> set ls.
        locationId a = L \<and> locationId b = L \<and> oppositeGroupId a \<noteq> oppositeGroupId b
        \<longrightarrow> \<not> ((state a = Green \<or> state a = Yellow) \<and> (state b = Green \<or> state b = Yellow)))"

definition sixWayLights :: "light list" where
  "sixWayLights =
     [exampleLight ''l1'' ''X'' ''s1'' Green (1/2) (Some ''opposite-X-0''),
      exampleLight ''l2'' ''X'' ''s2'' Red (1/2) (Some ''opposite-X-1''),
      exampleLight ''l3'' ''X'' ''s3'' Red (1/2) (Some ''opposite-X-2''),
      exampleLight ''l4'' ''X'' ''s4'' Green (1/2) (Some ''opposite-X-0''),
      exampleLight ''l5'' ''X'' ''s5'' Red (1/2) (Some ''opposite-X-1''),
      exampleLight ''l6'' ''X'' ''s6'' Red (1/2) (Some ''opposite-X-2'')]"

definition twinIdLights :: "light list" where
  "twinIdLights =
     [exampleLight ''l1'' ''X'' ''s1'' Green (3/2) (Some ''opposite-X-0''),
      exampleLight ''l2'' ''X'' ''s2'' Red (1/2) (Some ''opposite-X-1''),
      exampleLight ''l1'' ''X'' ''s3'' Green (1/2) (Some ''opposite-X-0''),
      exampleLight ''l4'' ''X'' ''s4'' Red (1/2) (Some ''opposite-X-1'')]"

definition fourWayLights :: "light list" where
  "fourWayLights =
     [exampleLight ''l1'' ''X'' ''s1'' Green (199/20) (Some ''opposite-X-0''),
      exampleLight ''l2'' ''X'' ''s2'' Red (1/2) (Some ''opposite-X-1''),
      exampleLight ''l3'' ''X'' ''s3'' Green (199/20) (Some ''opposite-X-0''),
      exampleLight ''l4'' ''X'' ''s4'' Red (1/2) (Some ''opposite-X-1'')]"

section \<open>Vehicle engine: properties and sample traffic\<close>

text \<open>The six metric counters of a vehicle, compared field by field.\<close>

definition countersLe :: "car \<Rightarrow> car \<Rightarrow> bool" where
  "countersLe a b =
     (stops a \<le> stops b \<and> streetsTraveled a \<le> streetsTraveled b \<and>
      locationsVisited a \<le> locationsVisited b \<and> totalDistance a \<le> totalDistance b \<and>
      totalTravelTime a \<le> totalTravelTime b \<and> timeNotMoving a \<le> timeNotMoving b)"

text \<open>
  \<^verbatim>\<open>isStoppedForCollision\<close> of \<^verbatim>\<open>updateCar\<close>, as a function of the inputs of the call: the car
  must stop, and a car ahead or a cross-traffic analysis exists.
\<close>

definition stoppedForCollision ::
    "draws \<Rightarrow> car \<Rightarrow> street list \<Rightarrow> location list \<Rightarrow> light list \<Rightarrow> car list \<Rightarrow> bool" where
  "stoppedForCollision rnd c streets locations trafficLights allCars =
    (case findStreet (currentStreetId c) streets of
       None \<Rightarrow> False
     | Some currentStreet \<Rightarrow>
        (case (findLocation (sfrom currentStreet) locations,
               findLocation (sto currentStreet) locations) of
           (Some fromLocation, Some toLocation) \<Rightarrow>
             (let dr = decideDrive rnd c currentStreet fromLocation toLocation streets locations
                         trafficLights allCars
              in shouldStop dr \<and> obstacle dr)
         | _ \<Rightarrow> False))"


text \<open>
  A crossing \<open>X\<close> of four streets of 500 pixels each, a car driving east on \<open>s1\<close> that is 1.5
  pixels before the end of its street, and a car driving north on \<open>s2\<close> that is 30 pixels
  before the end of its street.
\<close>

definition crossingLocations :: "location list" where
  "crossingLocations =
     [\<lparr>locId = ''W'', locX = 0, locY = 500\<rparr>, \<lparr>locId = ''X'', locX = 500, locY = 500\<rparr>,
      \<lparr>locId = ''S'', locX = 500, locY = 1000\<rparr>, \<lparr>locId = ''E'', locX = 1000, locY = 500\<rparr>,
      \<lparr>locId = ''N'', locX = 500, locY = 0\<rparr>]"

definition crossingStreets :: "street list" where
  "crossingStreets =
     [\<lparr>strId = ''s1'', sfrom = ''W'', sto = ''X''\<rparr>, \<lparr>strId = ''s2'', sfrom = ''S'', sto = ''X''\<rparr>,
      \<lparr>strId = ''s3'', sfrom = ''X'', sto = ''E''\<rparr>, \<lparr>strId = ''s4'', sfrom = ''X'', sto = ''N''\<rparr>]"

definition eastboundCar :: car where
  "eastboundCar = sampleCar\<lparr>startLocationId := ''W'', destinationId := ''N'',
     progress := 997/1000, speed := 1, preferredSpeed := 1, maxSpeed := 1\<rparr>"

definition northboundCar :: car where
  "northboundCar = sampleCar\<lparr>carId := ''car-2'', startLocationId := ''S'', destinationId := ''E'',
     currentStreetId := ''s2'', progress := 47/50, speed := 3/5\<rparr>"

definition clock0 :: clock where
  "clock0 = \<lparr>atStop = 2000, atIdle = 2000, atSignal = 2000, atTravel = 2000,
             atTravelFallback = 2000, atStreetStart = 2000\<rparr>"

definition draws0 :: draws where
  "draws0 = \<lparr>rPriority = 0, rOtherPriority = 0, rParkingLot = 0, rOtherLocation = 0,
             rPreferParking = 0, rParkingDestination = 0, rReachable = 0, rRoute = 0\<rparr>"

section \<open>Arrival times\<close>

lemma arrival_time_finite:
  assumes "isCarApproachingIntersection c streets locations = Some ap"
  shows "calculateEnhancedEstimatedArrivalTime c ap streets locations slowing \<noteq> None"
  using assms
  by (auto simp add: isCarApproachingIntersection_def calculateEnhancedEstimatedArrivalTime_def
        Let_def split: option.splits if_splits list.splits)

section \<open>Properties of the adaptive scoring\<close>



lemma highest_fold_inv:
  "0 \<le> fst acc \<Longrightarrow>
   (snd acc = None \<longrightarrow> fst acc = 0) \<Longrightarrow>
   (\<forall>g. snd acc = Some g \<longrightarrow> 0 < fst acc \<and> (g, fst acc) \<in> S) \<Longrightarrow>
   (\<forall>e \<in> S'. snd e \<le> fst acc) \<Longrightarrow>
   0 \<le> fst (fold highestStep ps acc) \<and>
   (snd (fold highestStep ps acc) = None \<longrightarrow> fst (fold highestStep ps acc) = 0) \<and>
   (\<forall>g. snd (fold highestStep ps acc) = Some g \<longrightarrow>
        0 < fst (fold highestStep ps acc) \<and> (g, fst (fold highestStep ps acc)) \<in> S \<union> set ps) \<and>
   (\<forall>e \<in> S' \<union> set ps. snd e \<le> fst (fold highestStep ps acc))"
proof (induction ps arbitrary: acc S S')
  case Nil
  then show ?case by simp
next
  case (Cons p ps)
  let ?acc' = "highestStep p acc"
  have a: "0 \<le> fst ?acc'" using Cons.prems(1) by (simp add: highestStep_def)
  have b: "snd ?acc' = None \<longrightarrow> fst ?acc' = 0"
    using Cons.prems(2) by (simp add: highestStep_def)
  have c: "\<forall>g. snd ?acc' = Some g \<longrightarrow> 0 < fst ?acc' \<and> (g, fst ?acc') \<in> insert p S"
    using Cons.prems(1,3) by (cases p) (auto simp: highestStep_def)
  have d: "\<forall>e \<in> insert p S'. snd e \<le> fst ?acc'"
    using Cons.prems(4) by (auto simp: highestStep_def)
  from Cons.IH[OF a b c d] show ?case by simp
qed

lemma highest_spec:
  "0 \<le> fst (highest ps) \<and>
   (snd (highest ps) = None \<longrightarrow> fst (highest ps) = 0) \<and>
   (\<forall>g. snd (highest ps) = Some g \<longrightarrow> 0 < fst (highest ps) \<and> (g, fst (highest ps)) \<in> set ps) \<and>
   (\<forall>e \<in> set ps. snd e \<le> fst (highest ps))"
  using highest_fold_inv[of "(0, None)" "{}" "{}" ps] by (simp add: highest_def)

lemma firstOccurrences_set: "set (firstOccurrences xs) = set xs"
  by (induction xs rule: firstOccurrences.induct) auto

lemma combine_keys:
  "fst ` set (combineOppositeStreetScores sc ls) = (\<lambda>l. groupKey (oppositeGroupId l)) ` set ls"
  by (simp add: combineOppositeStreetScores_def firstOccurrences_set image_image)




lemma assignRanks_length: "length (assignRanks i r p xs) = length xs"
  by (induction xs arbitrary: i r p) (auto simp: Let_def)

lemma assignRanks_erase:
  "map (\<lambda>d. d\<lparr>rank := None\<rparr>) (assignRanks i r p xs) = map (\<lambda>d. d\<lparr>rank := None\<rparr>) xs"
  by (induction xs arbitrary: i r p) (auto simp: Let_def)

lemma assignRanks_tm: "map estimatedArrivalTime (assignRanks i r p xs) = map estimatedArrivalTime xs"
  by (induction xs arbitrary: i r p) (auto simp: Let_def)

lemma assignRanks_street: "map cdStreetId (assignRanks i r p xs) = map cdStreetId xs"
  by (induction xs arbitrary: i r p) (auto simp: Let_def)

lemma count_below_head:
  assumes "sorted (map estimatedArrivalTime (pre @ c # cs))"
  shows "length (filter (\<lambda>d. estimatedArrivalTime d < estimatedArrivalTime c) (pre @ c # cs)) = length (filter (\<lambda>d. estimatedArrivalTime d < estimatedArrivalTime c) pre)"
proof -
  have "\<forall>d \<in> set cs. estimatedArrivalTime c \<le> estimatedArrivalTime d"
    using assms by (auto simp: sorted_append)
  then have "filter (\<lambda>d. estimatedArrivalTime d < estimatedArrivalTime c) cs = []"
    by (auto simp: filter_empty_conv)
  then show ?thesis by simp
qed

lemma assignRanks_head_rank:
  assumes srt: "sorted (map estimatedArrivalTime (pre @ c # cs))"
    and inv: "pre \<noteq> [] \<longrightarrow> prev = estimatedArrivalTime (last pre) \<and> cur = 1 + int (length (filter (\<lambda>d. estimatedArrivalTime d < prev) pre))"
    and inv0: "pre = [] \<longrightarrow> cur = 1"
  shows "(if 0 < length pre \<and> prev < estimatedArrivalTime c then int (length pre) + 1 else cur)
         = 1 + int (length (filter (\<lambda>d. estimatedArrivalTime d < estimatedArrivalTime c) pre))"
proof (cases "pre = []")
  case True
  then show ?thesis using inv0 by simp
next
  case False
  then have p: "prev = estimatedArrivalTime (last pre)" "cur = 1 + int (length (filter (\<lambda>d. estimatedArrivalTime d < prev) pre))"
    using inv by auto
  have le: "\<forall>d \<in> set pre. estimatedArrivalTime d \<le> estimatedArrivalTime (last pre)"
  proof
    fix d assume "d \<in> set pre"
    have "sorted (map estimatedArrivalTime pre)" using srt by (simp add: sorted_append)
    moreover have "pre = butlast pre @ [last pre]" using False by simp
    ultimately have "sorted (map estimatedArrivalTime (butlast pre @ [last pre]))" by simp
    then have "\<forall>x \<in> set (butlast pre). estimatedArrivalTime x \<le> estimatedArrivalTime (last pre)"
      by (auto simp: sorted_append)
    moreover have "d \<in> set (butlast pre) \<or> d = last pre"
      using \<open>d \<in> set pre\<close> False by (metis Un_iff \<open>pre = butlast pre @ [last pre]\<close> empty_iff empty_set set_ConsD set_append)
    ultimately show "estimatedArrivalTime d \<le> estimatedArrivalTime (last pre)" by auto
  qed
  have lastle: "estimatedArrivalTime (last pre) \<le> estimatedArrivalTime c"
    using srt False by (auto simp: sorted_append)
  show ?thesis
  proof (cases "prev < estimatedArrivalTime c")
    case True
    then have "\<forall>d \<in> set pre. estimatedArrivalTime d < estimatedArrivalTime c" using le p(1) by fastforce
    then have "filter (\<lambda>d. estimatedArrivalTime d < estimatedArrivalTime c) pre = pre" by (simp add: filter_id_conv)
    then show ?thesis using True False by simp
  next
    case F2: False
    then have "estimatedArrivalTime c = prev" using lastle p(1) by simp
    then show ?thesis using F2 p(2) by simp
  qed
qed

lemma assignRanks_rank:
  assumes "sorted (map estimatedArrivalTime (pre @ xs))"
    and "pre \<noteq> [] \<longrightarrow> prev = estimatedArrivalTime (last pre) \<and> cur = 1 + int (length (filter (\<lambda>d. estimatedArrivalTime d < prev) pre))"
    and "pre = [] \<longrightarrow> cur = 1"
    and "k < length xs"
  shows "rank (assignRanks (length pre) cur prev xs ! k)
         = Some (1 + int (length (filter (\<lambda>d. estimatedArrivalTime d < estimatedArrivalTime (xs ! k)) (pre @ xs))))"
  using assms
proof (induction xs arbitrary: pre cur prev k)
  case Nil
  then show ?case by simp
next
  case (Cons c cs)
  let ?r = "(if 0 < length pre \<and> prev < estimatedArrivalTime c then int (length pre) + 1 else cur)"
  have r: "?r = 1 + int (length (filter (\<lambda>d. estimatedArrivalTime d < estimatedArrivalTime c) pre))"
    using assignRanks_head_rank[OF Cons.prems(1) Cons.prems(2) Cons.prems(3)] .
  have cnt: "length (filter (\<lambda>d. estimatedArrivalTime d < estimatedArrivalTime c) (pre @ c # cs)) = length (filter (\<lambda>d. estimatedArrivalTime d < estimatedArrivalTime c) pre)"
    using count_below_head[OF Cons.prems(1)] .
  show ?case
  proof (cases k)
    case 0
    then show ?thesis using r cnt by (simp add: Let_def)
  next
    case (Suc k')
    have s': "sorted (map estimatedArrivalTime ((pre @ [c]) @ cs))" using Cons.prems(1) by simp
    have i1: "pre @ [c] \<noteq> [] \<longrightarrow> estimatedArrivalTime c = estimatedArrivalTime (last (pre @ [c])) \<and>
              ?r = 1 + int (length (filter (\<lambda>d. estimatedArrivalTime d < estimatedArrivalTime c) (pre @ [c])))"
      using r by simp
    have i2: "pre @ [c] = [] \<longrightarrow> ?r = 1" by simp
    have k': "k' < length cs" using Cons.prems(4) Suc by simp
    from Cons.IH[OF s' i1 i2 k']
    show ?thesis using Suc by (simp add: Let_def)
  qed
qed

lemma rankCars_rank_index:
  assumes "k < length cs"
  shows "rank (rankCarsByArrivalTime cs ! k)
         = Some (1 + int (length (filter (\<lambda>c. estimatedArrivalTime c < estimatedArrivalTime (sortByArrival cs ! k)) cs)))"
proof -
  have s: "sorted (map estimatedArrivalTime ([] @ sortByArrival cs))" by (simp add: sortByArrival_def)
  have k: "k < length (sortByArrival cs)" using assms by (simp add: sortByArrival_def)
  have "rank (assignRanks (length ([]::carData list)) 1 0 (sortByArrival cs) ! k)
        = Some (1 + int (length (filter (\<lambda>d. estimatedArrivalTime d < estimatedArrivalTime (sortByArrival cs ! k)) ([] @ sortByArrival cs))))"
    by (rule assignRanks_rank[OF s _ _ k]) simp_all
  moreover have "length (filter (\<lambda>d. estimatedArrivalTime d < t) (sortByArrival cs)) = length (filter (\<lambda>d. estimatedArrivalTime d < t) cs)" for t
  proof -
    have "mset (filter (\<lambda>d. estimatedArrivalTime d < t) (sortByArrival cs)) = mset (filter (\<lambda>d. estimatedArrivalTime d < t) cs)"
      by (simp add: sortByArrival_def)
    then show ?thesis by (metis size_mset)
  qed
  ultimately show ?thesis by (simp add: rankCarsByArrivalTime_def)
qed

lemma rankCars_rank:
  assumes "d \<in> set (rankCarsByArrivalTime cs)"
  shows "rank d = Some (1 + int (length (filter (\<lambda>c. estimatedArrivalTime c < estimatedArrivalTime d) cs)))"
proof -
  obtain k where k: "k < length (rankCarsByArrivalTime cs)" "d = rankCarsByArrivalTime cs ! k"
    using assms by (metis in_set_conv_nth)
  have len: "length (rankCarsByArrivalTime cs) = length cs"
    by (simp add: rankCarsByArrivalTime_def assignRanks_length sortByArrival_def)
  have "map estimatedArrivalTime (rankCarsByArrivalTime cs) = map estimatedArrivalTime (sortByArrival cs)"
    by (simp add: rankCarsByArrivalTime_def assignRanks_tm)
  then have "estimatedArrivalTime d = estimatedArrivalTime (sortByArrival cs ! k)"
    using k len by (metis length_map nth_map)
  then show ?thesis using rankCars_rank_index[of k cs] k len by simp
qed



lemma initScores_fold:
  "fold (\<lambda>l m. m(streetId l \<mapsto> Num 0)) ls m0 s
   = (if s \<in> streetId ` set ls then Some (Num 0) else m0 s)"
  by (induction ls arbitrary: m0) auto

lemma initScores_apply:
  "initScores ls s = (if s \<in> streetId ` set ls then Some (Num 0) else None)"
  by (simp add: initScores_def initScores_fold)

lemma fold_addScore:
  assumes "\<forall>d \<in> set ds. \<exists>r. rank d = Some r" and "m s = Some (Num a)"
  shows "fold addScore ds m s
         = Some (Num (a + (\<Sum>d\<leftarrow>filter (\<lambda>d. cdStreetId d = s) ds. 100 - the (rank d))))"
  using assms
proof (induction ds arbitrary: m a)
  case Nil
  then show ?case by simp
next
  case (Cons d ds)
  obtain r where r: "rank d = Some r" using Cons.prems(1) by auto
  show ?case
  proof (cases "cdStreetId d = s")
    case True
    have "addScore d m s = Some (Num (a + (100 - r)))"
      using True Cons.prems(2) r by (simp add: addScore_def contribution_def)
    moreover have "\<forall>d \<in> set ds. \<exists>r. rank d = Some r" using Cons.prems(1) by simp
    ultimately have "fold addScore ds (addScore d m) s
        = Some (Num (a + (100 - r) + (\<Sum>d\<leftarrow>filter (\<lambda>d. cdStreetId d = s) ds. 100 - the (rank d))))"
      using Cons.IH[of "addScore d m" "a + (100 - r)"] by blast
    then show ?thesis using True r by (simp add: add.assoc)
  next
    case False
    have "addScore d m s = Some (Num a)"
      using False Cons.prems(2) by (simp add: addScore_def)
    moreover have "\<forall>d \<in> set ds. \<exists>r. rank d = Some r" using Cons.prems(1) by simp
    ultimately have "fold addScore ds (addScore d m) s
        = Some (Num (a + (\<Sum>d\<leftarrow>filter (\<lambda>d. cdStreetId d = s) ds. 100 - the (rank d))))"
      using Cons.IH[of "addScore d m" a] by blast
    then show ?thesis using False by simp
  qed
qed

lemma streetScore_sum:
  assumes "\<forall>d \<in> set ds. \<exists>r. rank d = Some r" and "s \<in> streetId ` set ls"
  shows "calculateStreetScores ds ls s
         = Some (Num (\<Sum>d\<leftarrow>filter (\<lambda>d. cdStreetId d = s) ds. 100 - the (rank d)))"
  using fold_addScore[OF assms(1), of "initScores ls" s 0] assms(2)
  by (simp add: calculateStreetScores_def initScores_apply)

lemma rank_le_length:
  assumes "d \<in> set (rankCarsByArrivalTime cs)"
  shows "\<exists>r. rank d = Some r \<and> 1 \<le> r \<and> r \<le> int (length cs)"
proof -
  have r: "rank d = Some (1 + int (length (filter (\<lambda>c. estimatedArrivalTime c < estimatedArrivalTime d) cs)))"
    using rankCars_rank[OF assms] .
  have "estimatedArrivalTime d \<in> set (map estimatedArrivalTime (rankCarsByArrivalTime cs))" using assms by auto
  then have "estimatedArrivalTime d \<in> set (map estimatedArrivalTime (sortByArrival cs))"
    by (simp add: rankCarsByArrivalTime_def assignRanks_tm)
  then obtain c where c: "c \<in> set cs" "estimatedArrivalTime c = estimatedArrivalTime d"
    by (auto simp: sortByArrival_def)
  have "length (filter (\<lambda>c. estimatedArrivalTime c < estimatedArrivalTime d) cs) < length cs"
    using c by (intro length_filter_less[of c]) auto
  then show ?thesis using r by simp
qed



lemma truthy_key:
  assumes "\<forall>l \<in> set ls. truthy (oppositeGroupId l)"
    and "(g, s) \<in> set (combineOppositeStreetScores sc ls)"
  shows "truthy (Some g)"
proof -
  have "g \<in> fst ` set (combineOppositeStreetScores sc ls)" using assms(2) by force
  then obtain l where "l \<in> set ls" "g = groupKey (oppositeGroupId l)"
    unfolding combine_keys by auto
  then show ?thesis using assms(1) by (auto simp: truthy_def groupKey_def split: option.splits)
qed

text \<open>
  Claim C7 (adaptive all-red deadlock escape). For a non-empty intersection light set whose
  lights all carry a group id: when every light is red with a timer above 2, the decision is
  \<open>SWITCH\<close>; it targets a group whose combined score is positive and maximal when some
  group has a positive score, and the first light's group when none has.
\<close>

theorem all_red_forces_switch:
  assumes ne: "ls \<noteq> []"
    and red: "\<forall>l \<in> set ls. state l = Red \<and> 2 < timer l"
    and grp: "\<forall>l \<in> set ls. truthy (oppositeGroupId l)"
  shows "dAction (makeTrafficLightDecision (combineOppositeStreetScores sc ls) ls) = SWITCH \<and>
    ((\<exists>e \<in> set (combineOppositeStreetScores sc ls). 0 < snd e) \<longrightarrow>
       (\<exists>g s. targetGroup (makeTrafficLightDecision (combineOppositeStreetScores sc ls) ls) = Some g
          \<and> (g, s) \<in> set (combineOppositeStreetScores sc ls) \<and> 0 < s
          \<and> (\<forall>e \<in> set (combineOppositeStreetScores sc ls). snd e \<le> s))) \<and>
    ((\<forall>e \<in> set (combineOppositeStreetScores sc ls). snd e \<le> 0) \<longrightarrow>
       targetGroup (makeTrafficLightDecision (combineOppositeStreetScores sc ls) ls)
         = oppositeGroupId (hd ls))"
proof -
  let ?ps = "combineOppositeStreetScores sc ls"
  let ?d = "makeTrafficLightDecision ?ps ls"
  note hs = highest_spec[of ?ps]
  have allRed: "\<forall>l \<in> set ls. state l = Red" using red by simp
  have old: "\<exists>l \<in> set ls. 2 < timer l" using red ne by (cases ls) auto
  have first: "firstGroupOf ls = oppositeGroupId (hd ls)" "truthy (firstGroupOf ls)"
    using ne grp by (cases ls; simp add: firstGroupOf_def)+
  show ?thesis
  proof (cases "snd (highest ?ps)")
    case None
    then have "fst (highest ?ps) = 0" using hs by blast
    moreover have "\<forall>e \<in> set ?ps. snd e \<le> fst (highest ?ps)" using hs by blast
    ultimately have z: "\<forall>e \<in> set ?ps. snd e \<le> 0" by simp
    have "jsOr (snd (highest ?ps)) (firstGroupOf ls) = firstGroupOf ls"
      using None by (simp add: jsOr_def truthy_def)
    then have "?d = \<lparr>dAction = SWITCH, targetGroup = firstGroupOf ls,
                     dReason = DEADLOCK_PREVENTION_ALL_RED\<rparr>"
      using allRed old first(2) by (simp add: makeTrafficLightDecision_def Let_def)
    then have "dAction ?d = SWITCH" "targetGroup ?d = oppositeGroupId (hd ls)"
      using first(1) by simp_all
    moreover have "\<not> (\<exists>e \<in> set ?ps. 0 < snd e)" using z by fastforce
    ultimately show ?thesis by blast
  next
    case (Some g)
    then have g: "0 < fst (highest ?ps)" "(g, fst (highest ?ps)) \<in> set ?ps"
      "\<forall>e \<in> set ?ps. snd e \<le> fst (highest ?ps)"
      using hs by auto
    have tg: "truthy (Some g)" using truthy_key[OF grp g(2)] .
    then have "jsOr (snd (highest ?ps)) (firstGroupOf ls) = Some g"
      using Some by (simp add: jsOr_def)
    then have "?d = \<lparr>dAction = SWITCH, targetGroup = Some g,
                     dReason = DEADLOCK_PREVENTION_ALL_RED\<rparr>"
      using allRed old tg by (simp add: makeTrafficLightDecision_def Let_def)
    then have "dAction ?d = SWITCH" "targetGroup ?d = Some g" by simp_all
    moreover have "\<not> (\<forall>e \<in> set ?ps. snd e \<le> 0)" using g(1,2) by fastforce
    ultimately show ?thesis using g by blast
  qed
qed

text \<open>
  Claim C6 (adaptive scoring), as amended. The ranked list is the input list in ascending
  order of arrival time; the rank of a vehicle is one more than the number of vehicles with
  a strictly smaller arrival time (so equal arrival times share a rank); each vehicle
  contributes 100 minus its rank, and the score of a street of the intersection is the sum of
  the contributions of the vehicles on it. The contribution is non-negative when at most 100
  vehicles are ranked.
\<close>

theorem adaptive_scoring:
  "sorted (map estimatedArrivalTime (rankCarsByArrivalTime cs)) \<and>
   mset (map (\<lambda>d. d\<lparr>rank := None\<rparr>) (rankCarsByArrivalTime cs)) = mset (map (\<lambda>d. d\<lparr>rank := None\<rparr>) cs) \<and>
   (\<forall>d \<in> set (rankCarsByArrivalTime cs).
      rank d = Some (1 + int (length (filter (\<lambda>c. estimatedArrivalTime c < estimatedArrivalTime d) cs))) \<and>
      contribution d = Num (100 - (1 + int (length (filter (\<lambda>c. estimatedArrivalTime c < estimatedArrivalTime d) cs))))) \<and>
   (\<forall>s \<in> streetId ` set lights.
      calculateStreetScores (rankCarsByArrivalTime cs) lights s
        = Some (Num (\<Sum>d\<leftarrow>filter (\<lambda>d. cdStreetId d = s) (rankCarsByArrivalTime cs).
             100 - (1 + int (length (filter (\<lambda>c. estimatedArrivalTime c < estimatedArrivalTime d) cs)))))) \<and>
   (length cs \<le> 100 \<longrightarrow>
      (\<forall>d \<in> set (rankCarsByArrivalTime cs). \<exists>n. contribution d = Num n \<and> 0 \<le> n))"
proof -
  let ?R = "rankCarsByArrivalTime cs"
  let ?rk = "\<lambda>d. 1 + int (length (filter (\<lambda>c. estimatedArrivalTime c < estimatedArrivalTime d) cs))"
  have a: "sorted (map estimatedArrivalTime ?R)"
    by (simp add: rankCarsByArrivalTime_def assignRanks_tm sortByArrival_def)
  have "map (\<lambda>d. d\<lparr>rank := None\<rparr>) ?R = map (\<lambda>d. d\<lparr>rank := None\<rparr>) (sortByArrival cs)"
    by (simp add: rankCarsByArrivalTime_def assignRanks_erase)
  then have b: "mset (map (\<lambda>d. d\<lparr>rank := None\<rparr>) ?R) = mset (map (\<lambda>d. d\<lparr>rank := None\<rparr>) cs)"
    by (simp add: sortByArrival_def)
  have r: "\<forall>d \<in> set ?R. rank d = Some (?rk d)"
    using rankCars_rank by blast
  then have c: "\<forall>d \<in> set ?R. rank d = Some (?rk d) \<and> contribution d = Num (100 - ?rk d)"
    by (simp add: contribution_def)
  have d: "\<forall>s \<in> streetId ` set lights. calculateStreetScores ?R lights s
        = Some (Num (\<Sum>d\<leftarrow>filter (\<lambda>d. cdStreetId d = s) ?R. 100 - ?rk d))"
  proof
    fix s assume s: "s \<in> streetId ` set lights"
    have ex: "\<forall>d \<in> set ?R. \<exists>r. rank d = Some r" using r by blast
    have "map (\<lambda>d. 100 - the (rank d)) (filter (\<lambda>d. cdStreetId d = s) ?R)
          = map (\<lambda>d. 100 - ?rk d) (filter (\<lambda>d. cdStreetId d = s) ?R)"
    proof (rule map_cong[OF refl])
      fix d assume "d \<in> set (filter (\<lambda>d. cdStreetId d = s) ?R)"
      then have "rank d = Some (?rk d)" using r by simp
      then show "100 - the (rank d) = 100 - ?rk d" by (simp only: option.sel)
    qed
    then show "calculateStreetScores ?R lights s
        = Some (Num (\<Sum>d\<leftarrow>filter (\<lambda>d. cdStreetId d = s) ?R. 100 - ?rk d))"
      using streetScore_sum[OF ex s] by (simp only:)
  qed
  have e: "length cs \<le> 100 \<longrightarrow> (\<forall>d \<in> set ?R. \<exists>n. contribution d = Num n \<and> 0 \<le> n)"
  proof (intro impI ballI)
    fix d assume len: "length cs \<le> 100" and d: "d \<in> set ?R"
    obtain r where "rank d = Some r" "r \<le> int (length cs)" using rank_le_length[OF d] by blast
    then show "\<exists>n. contribution d = Num n \<and> 0 \<le> n" using len by (simp add: contribution_def)
  qed
  show ?thesis using a b c d e by (intro conjI)
qed


lemma threeCars_ranked:
  "rankCarsByArrivalTime threeCars =
     [(approachData ''s2'' 3)\<lparr>rank := Some 1\<rparr>, (approachData ''s1'' 5)\<lparr>rank := Some 2\<rparr>,
      (approachData ''s1'' 5)\<lparr>rank := Some 2\<rparr>]"
  by (simp add: rankCarsByArrivalTime_def sortByArrival_def threeCars_def approachData_def)

theorem adaptive_scoring_witness:
  "length threeCars \<le> 100 \<and>
   map rank (rankCarsByArrivalTime threeCars) = [Some 1, Some 2, Some 2] \<and>
   map contribution (rankCarsByArrivalTime threeCars) = [Num 99, Num 98, Num 98] \<and>
   calculateStreetScores (rankCarsByArrivalTime threeCars) allRedLights ''s1'' = Some (Num 196)"
proof -
  have s1: "''s1'' \<in> streetId ` set allRedLights"
    by (simp add: allRedLights_def exampleLight_def)
  have "calculateStreetScores (rankCarsByArrivalTime threeCars) allRedLights ''s1''
        = Some (Num (\<Sum>d\<leftarrow>filter (\<lambda>d. cdStreetId d = ''s1'') (rankCarsByArrivalTime threeCars).
             100 - (1 + int (length (filter (\<lambda>c. estimatedArrivalTime c < estimatedArrivalTime d) threeCars)))))"
    using adaptive_scoring[of threeCars allRedLights] s1 by blast
  then have "calculateStreetScores (rankCarsByArrivalTime threeCars) allRedLights ''s1'' = Some (Num 196)"
    by (simp add: threeCars_ranked) (simp add: threeCars_def approachData_def)
  then show ?thesis
    by (simp add: threeCars_ranked contribution_def) (simp add: threeCars_def)
qed

lemma manyCars_sorted: "sortByArrival manyCars = manyCars"
proof -
  have "map estimatedArrivalTime manyCars = map real [0..<101]"
    by (simp add: manyCars_def approachData_def)
  moreover have "sorted (map real [0..<101])"
    by (simp add: sorted_map)
  ultimately show ?thesis
    unfolding sortByArrival_def by (simp add: sort_key_id_if_sorted)
qed

text \<open>
  With 101 vehicles of pairwise different arrival times the last one has rank 101 and
  contributes \<open>-1\<close>: the contribution can be negative.
\<close>

theorem contribution_negative_counterexample:
  "contribution (rankCarsByArrivalTime manyCars ! 100) = Num (- 1)"
proof -
  have len: "length manyCars = 101" by (simp add: manyCars_def)
  have nth: "manyCars ! 100 = approachData ''s1'' 100"
    unfolding manyCars_def by (subst nth_map) simp_all
  have "filter (\<lambda>c. estimatedArrivalTime c < 100) manyCars
        = map (\<lambda>k. approachData ''s1'' (real k)) (filter (\<lambda>k. real k < 100) [0..<101])"
    by (simp add: manyCars_def filter_map o_def approachData_def)
  moreover have "filter (\<lambda>k. real k < 100) [0..<101] = [0..<100]"
  proof -
    have "[0..<Suc 100] = [0..<100] @ [100]" by (rule upt_Suc_append) simp
    then have "[0..<101] = [0..<100] @ [100]" by simp
    moreover have "filter (\<lambda>k. real k < 100) [0..<100] = [0..<100]"
      by (rule filter_True) simp
    ultimately show ?thesis by simp
  qed
  ultimately have cnt: "length (filter (\<lambda>c. estimatedArrivalTime c < 100) manyCars) = 100"
    by simp
  have "rank (rankCarsByArrivalTime manyCars ! 100)
        = Some (1 + int (length (filter (\<lambda>c. estimatedArrivalTime c < estimatedArrivalTime (sortByArrival manyCars ! 100)) manyCars)))"
    by (rule rankCars_rank_index) (simp add: len)
  then have "rank (rankCarsByArrivalTime manyCars ! 100) = Some 101"
    using cnt by (simp add: manyCars_sorted nth approachData_def)
  then show ?thesis by (simp add: contribution_def)
qed

theorem all_red_forces_switch_witness:
  "allRedLights \<noteq> [] \<and>
   dAction (makeTrafficLightDecision
      (combineOppositeStreetScores (calculateStreetScores (rankCarsByArrivalTime threeCars) allRedLights)
         allRedLights) allRedLights) = SWITCH \<and>
   targetGroup (makeTrafficLightDecision
      (combineOppositeStreetScores (calculateStreetScores (rankCarsByArrivalTime threeCars) allRedLights)
         allRedLights) allRedLights) = Some ''opposite-X-0''"
proof -
  let ?sc = "calculateStreetScores (rankCarsByArrivalTime threeCars) allRedLights"
  have ne: "allRedLights \<noteq> []" by (simp add: allRedLights_def)
  have red: "\<forall>l \<in> set allRedLights. state l = Red \<and> 2 < timer l"
    by (simp add: allRedLights_def exampleLight_def)
  have grp: "\<forall>l \<in> set allRedLights. truthy (oppositeGroupId l)"
    by (simp add: allRedLights_def exampleLight_def truthy_def)
  note t = all_red_forces_switch[OF ne red grp, of ?sc]
  have ps: "combineOppositeStreetScores ?sc allRedLights = [(''opposite-X-0'', 196), (''opposite-X-1'', 99)]"
    by (simp add: combineOppositeStreetScores_def calculateStreetScores_def threeCars_ranked
        allRedLights_def exampleLight_def groupKey_def initScores_def addScore_def contribution_def
        approachData_def)
  have "targetGroup (makeTrafficLightDecision (combineOppositeStreetScores ?sc allRedLights) allRedLights)
        = Some ''opposite-X-0''"
    unfolding ps
    by (simp add: makeTrafficLightDecision_def highest_def highestStep_def Let_def
        allRedLights_def exampleLight_def jsOr_def truthy_def firstGroupOf_def)
  then show ?thesis using t ne by simp
qed

section \<open>Properties of the light state machine\<close>

lemma length_syncGroup [simp]: "length (syncGroup a b me ls) = length ls"
  by (simp add: syncGroup_def)

lemma length_pushPerpendicular [simp]: "length (pushPerpendicular me ls) = length ls"
  by (simp add: pushPerpendicular_def)

lemma length_promoteTarget [simp]: "length (promoteTarget me ls) = length ls"
  by (simp add: promoteTarget_def targetToWaiting_def clearTargets_def)

lemma length_applySmartDecision [simp]: "length (applySmartDecision d me ls) = length ls"
  by (simp add: applySmartDecision_def)

lemma length_smartPhase [simp]: "length (smartPhase now cars streets locations i ls) = length ls"
  by (simp add: smartPhase_def Let_def)

lemma length_changeState [simp]: "length (changeState smart i ls) = length ls"
  by (simp add: changeState_def Let_def split: lstate.splits)

lemma length_stateMachine [simp]: "length (stateMachine smart i ls) = length ls"
  by (simp add: stateMachine_def)


lemma length_incrementTimer [simp]: "length (incrementTimer dt i ls) = length ls"
  by (simp add: incrementTimer_def)

lemma length_ensureGroup [simp]: "length (ensureGroup i ls) = length ls"
  by (simp add: ensureGroup_def)

lemma prepared_self:
  assumes "i < length ls"
  shows "state (ensureGroup i (incrementTimer dt i ls) ! i) = state (ls ! i)"
    and "timer (ensureGroup i (incrementTimer dt i ls) ! i) = timer (ls ! i) + dt"
    and "locationId (ensureGroup i (incrementTimer dt i ls) ! i) = locationId (ls ! i)"
    and "lightId (ensureGroup i (incrementTimer dt i ls) ! i) = lightId (ls ! i)"
  using assms by (simp_all add: ensureGroup_def incrementTimer_def)

lemma prepared_other:
  assumes "j \<noteq> i"
  shows "ensureGroup i (incrementTimer dt i ls) ! j = ls ! j"
  using assms by (simp add: ensureGroup_def incrementTimer_def)

lemma changeState_self_traditional:
  assumes "i < length p"
  shows "state (changeState False i p ! i)
         = (case state (p ! i) of Green \<Rightarrow> Yellow | Yellow \<Rightarrow> Red | Waiting \<Rightarrow> Green | Red \<Rightarrow> Red)"
    and "oppositeGroupId (changeState False i p ! i) = oppositeGroupId (p ! i)"
  using assms
  by (simp_all add: changeState_def Let_def syncGroup_def pushPerpendicular_def sameIntersection_def
      split: lstate.splits)

lemma changeState_push:
  assumes "i < length p" "j < length p" "state (p ! i) = Yellow" "state (p ! j) = Red"
    and "locationId (p ! j) = locationId (p ! i)"
    and "oppositeGroupId (p ! j) \<noteq> oppositeGroupId (p ! i)"
  shows "state (changeState False i p ! j) = Waiting \<and> timer (changeState False i p ! j) = 0"
proof -
  have "j \<noteq> i" using assms(3,4) by auto
  then show ?thesis using assms
    by (simp add: changeState_def Let_def syncGroup_def pushPerpendicular_def sameIntersection_def)
qed

text \<open>
  Claim C5 (fixed-timer cycle). Under traditional control the light that is updated, with its
  timer advanced by the time step, goes from green to yellow exactly when the timer has reached
  10, from yellow to red exactly when it has reached 2, from waiting to green exactly when it
  has reached 1/2, and stays red when it is red; when it goes from yellow to red, every red
  light of the same intersection with another group id is in state waiting afterwards, with
  its timer reset.
\<close>

theorem fixed_timer_cycle:
  assumes i: "i < length ls"
  shows
   "(state (ls ! i) = Green \<longrightarrow>
       state (updateTrafficLight now dt False cars streets locations i ls ! i)
         = (if 10 \<le> timer (ls ! i) + dt then Yellow else Green)) \<and>
    (state (ls ! i) = Yellow \<longrightarrow>
       state (updateTrafficLight now dt False cars streets locations i ls ! i)
         = (if 2 \<le> timer (ls ! i) + dt then Red else Yellow)) \<and>
    (state (ls ! i) = Waiting \<longrightarrow>
       state (updateTrafficLight now dt False cars streets locations i ls ! i)
         = (if 1/2 \<le> timer (ls ! i) + dt then Green else Waiting)) \<and>
    (state (ls ! i) = Red \<longrightarrow>
       state (updateTrafficLight now dt False cars streets locations i ls ! i) = Red) \<and>
    (state (ls ! i) = Yellow \<and> 2 \<le> timer (ls ! i) + dt \<longrightarrow>
       (\<forall>j < length ls.
          locationId (ls ! j) = locationId (ls ! i) \<and> state (ls ! j) = Red \<and>
          oppositeGroupId (ls ! j)
            \<noteq> oppositeGroupId (updateTrafficLight now dt False cars streets locations i ls ! i)
          \<longrightarrow> state (updateTrafficLight now dt False cars streets locations i ls ! j) = Waiting
              \<and> timer (updateTrafficLight now dt False cars streets locations i ls ! j) = 0))"
proof -
  let ?p = "ensureGroup i (incrementTimer dt i ls)"
  let ?U = "updateTrafficLight now dt False cars streets locations i ls"
  note ps = prepared_self[OF i, where dt = dt]
  have lp: "i < length ?p" using i by simp
  have U: "?U = (if timedOut (timer (ls ! i) + dt) (cycleDuration False (state (ls ! i)))
                 then changeState False i ?p else ?p)"
    using i ps by (simp add: updateTrafficLight_def stateMachine_def)
  note cs = changeState_self_traditional[OF lp]
  have g: "state (ls ! i) = Green \<Longrightarrow> state (?U ! i) = (if 10 \<le> timer (ls ! i) + dt then Yellow else Green)"
    using ps cs by (simp add: U timedOut_def)
  have y: "state (ls ! i) = Yellow \<Longrightarrow> state (?U ! i) = (if 2 \<le> timer (ls ! i) + dt then Red else Yellow)"
    using ps cs by (simp add: U timedOut_def)
  have w: "state (ls ! i) = Waiting \<Longrightarrow> state (?U ! i) = (if 1/2 \<le> timer (ls ! i) + dt then Green else Waiting)"
    using ps cs by (simp add: U timedOut_def)
  have r: "state (ls ! i) = Red \<Longrightarrow> state (?U ! i) = Red"
    using ps cs by (simp add: U timedOut_def)
  have push: "state (?U ! j) = Waiting \<and> timer (?U ! j) = 0"
    if a: "state (ls ! i) = Yellow" "2 \<le> timer (ls ! i) + dt" "j < length ls"
       "locationId (ls ! j) = locationId (ls ! i)" "state (ls ! j) = Red"
       "oppositeGroupId (ls ! j) \<noteq> oppositeGroupId (?U ! i)" for j
  proof -
    have ji: "j \<noteq> i" using a(1,5) by auto
    have pj: "?p ! j = ls ! j" using prepared_other[OF ji] .
    have U': "?U = changeState False i ?p" using a(1,2) by (simp add: U timedOut_def)
    have "oppositeGroupId (?p ! j) \<noteq> oppositeGroupId (?p ! i)"
      using a(6) cs(2) pj by (simp add: U')
    then show ?thesis
      unfolding U'
      using changeState_push[of i ?p j] lp a(3,4,5) ps pj a(1) by simp
  qed
  show ?thesis using g y w r push by blast
qed








lemmas light_eval =
  updateTrafficLight_def incrementTimer_def ensureGroup_def stateMachine_def changeState_def
  smartPhase_def smartUpdateDue_def syncGroup_def pushPerpendicular_def promoteTarget_def
  targetToWaiting_def allCurrentGroupRed_def clearTargets_def sameIntersection_def timedOut_def
  truthy_def exampleLight_def Let_def



lemma fixed_eval2:
  "map state (updateTrafficLight 0 (1/10) False [] [] [] 0 endOfYellowLights) = [Red, Waiting, Red, Waiting]"
  by (simp add: endOfYellowLights_def light_eval)



theorem fixed_timer_cycle_witness:
  "0 < length endOfYellowLights \<and> state (endOfYellowLights ! 0) = Yellow \<and>
   state (updateTrafficLight 0 (1/10) False [] [] [] 0 endOfYellowLights ! 0) = Red \<and>
   map state (updateTrafficLight 0 (1/10) False [] [] [] 0 endOfYellowLights) = [Red, Waiting, Red, Waiting]"
proof -
  have i: "0 < length endOfYellowLights" by (simp add: endOfYellowLights_def)
  have y: "state (endOfYellowLights ! 0) = Yellow" "timer (endOfYellowLights ! 0) = 39/20"
    by (simp_all add: endOfYellowLights_def exampleLight_def)
  have "state (updateTrafficLight 0 (1/10) False [] [] [] 0 endOfYellowLights ! 0)
        = (if 2 \<le> timer (endOfYellowLights ! 0) + 1/10 then Red else Yellow)"
    using fixed_timer_cycle[OF i, where now = 0 and dt = "1/10" and cars = "[]" and streets = "[]" and locations = "[]"] y(1) by blast
  then have "state (updateTrafficLight 0 (1/10) False [] [] [] 0 endOfYellowLights ! 0) = Red"
    using y(2) by simp
  then show ?thesis using i y fixed_eval2 by simp
qed

section \<open>Properties of the safety validator\<close>

lemma skeleton_length: "skeleton a = skeleton b \<Longrightarrow> length a = length b"
  unfolding skeleton_def by (rule map_eq_imp_length_eq)

lemma skeleton_nth:
  assumes "skeleton a = skeleton b" "k < length b"
  shows "locationId (a ! k) = locationId (b ! k)" "lightId (a ! k) = lightId (b ! k)"
    "oppositeGroupId (a ! k) = oppositeGroupId (b ! k)"
proof -
  have l: "k < length a" using skeleton_length[OF assms(1)] assms(2) by simp
  have "skeleton a ! k = skeleton b ! k" using assms(1) by simp
  then have "(locationId (a ! k), lightId (a ! k), oppositeGroupId (a ! k))
             = (locationId (b ! k), lightId (b ! k), oppositeGroupId (b ! k))"
    using l assms(2) by (simp add: skeleton_def)
  then show "locationId (a ! k) = locationId (b ! k)" "lightId (a ! k) = lightId (b ! k)"
    "oppositeGroupId (a ! k) = oppositeGroupId (b ! k)" by simp_all
qed



lemma demote_skeleton: "skeleton (demoteExtraGreens loc n ls) = skeleton ls"
  by (induction ls arbitrary: n) (auto simp: skeleton_def)

lemma demote_length [simp]: "length (demoteExtraGreens loc n ls) = length ls"
  by (induction ls arbitrary: n) auto

lemma demote_nth:
  "k < length ls \<Longrightarrow>
   demoteExtraGreens loc n ls ! k = ls ! k \<or>
   (locationId (ls ! k) = loc \<and> demoteExtraGreens loc n ls ! k = (ls ! k)\<lparr>state := Red, timer := 0\<rparr>)"
proof (induction ls arbitrary: n k)
  case Nil
  then show ?case by simp
next
  case (Cons l ls)
  show ?case
  proof (cases k)
    case 0
    then show ?thesis by simp
  next
    case (Suc k')
    then have "k' < length ls" using Cons.prems by simp
    from Cons.IH[OF this] show ?thesis using Suc by simp
  qed
qed

lemma demote_other:
  "k < length ls \<Longrightarrow> locationId (ls ! k) \<noteq> loc \<Longrightarrow> demoteExtraGreens loc n ls ! k = ls ! k"
  using demote_nth[of k ls loc n] by auto

lemma demote_keeps_green:
  "n < 2 \<Longrightarrow> \<exists>k < length ls. locationId (ls ! k) = loc \<and> state (ls ! k) = Green \<Longrightarrow>
   \<exists>k < length ls. locationId (demoteExtraGreens loc n ls ! k) = loc
        \<and> state (demoteExtraGreens loc n ls ! k) = Green"
proof (induction ls arbitrary: n)
  case Nil
  then show ?case by simp
next
  case (Cons l ls)
  show ?case
  proof (cases "locationId l = loc \<and> state l = Green")
    case True
    then have "locationId (demoteExtraGreens loc n (l # ls) ! 0) = loc
        \<and> state (demoteExtraGreens loc n (l # ls) ! 0) = Green"
      using Cons.prems(1) by simp
    then show ?thesis by (intro exI[of _ 0]) simp
  next
    case False
    from Cons.prems(2) obtain k where k: "k < length (l # ls)" "locationId ((l # ls) ! k) = loc"
      "state ((l # ls) ! k) = Green" by blast
    then obtain k' where k': "k = Suc k'" using False by (cases k) auto
    then have "\<exists>k < length ls. locationId (ls ! k) = loc \<and> state (ls ! k) = Green"
      using k by auto
    from Cons.IH[OF Cons.prems(1) this] obtain j where
      "j < length ls" "locationId (demoteExtraGreens loc n ls ! j) = loc"
      "state (demoteExtraGreens loc n ls ! j) = Green" by blast
    then show ?thesis using False by (intro exI[of _ "Suc j"]) auto
  qed
qed

lemma length_filter_eq_all: "(length (filter P xs) = length xs) = (\<forall>x \<in> set xs. P x)"
proof (induction xs)
  case Nil
  then show ?case by simp
next
  case (Cons x xs)
  have le: "length (filter P xs) \<le> length xs" by simp
  show ?case
  proof (cases "P x")
    case True
    then show ?thesis using Cons by simp
  next
    case False
    have "length (filter P xs) < Suc (length xs)" by (simp add: le_imp_less_Suc)
    then have "length (filter P (x # xs)) \<noteq> length (x # xs)" using False by auto
    then show ?thesis using False by simp
  qed
qed

lemma validateAt_result:
  "validateAt loc ls =
     (if length (filter (\<lambda>l. locationId l = loc) ls) < 4 then ls
      else if 2 < length (filter (\<lambda>l. state l = Green) (filter (\<lambda>l. locationId l = loc) ls))
      then demoteExtraGreens loc 0 ls
      else if (\<forall>l \<in> set ls. locationId l = loc \<longrightarrow> state l = Red \<and> 3 < timer l)
      then forceNorthSouthGreen loc ls else ls)"
proof -
  let ?here = "filter (\<lambda>l. locationId l = loc) ls"
  let ?greens = "filter (\<lambda>l. state l = Green) ?here"
  let ?reds = "filter (\<lambda>l. state l = Red) ?here"
  have "(length ?reds = length ?here) = (\<forall>l \<in> set ?here. state l = Red)"
    by (rule length_filter_eq_all)
  then have allred: "(length ?reds = length ?here) = (\<forall>l \<in> set ls. locationId l = loc \<longrightarrow> state l = Red)"
    by auto
  have "length ?reds \<noteq> length ?here" if "2 < length ?greens"
  proof
    assume "length ?reds = length ?here"
    then have "\<forall>l \<in> set ?here. state l = Red" by (simp only: length_filter_eq_all)
    then have "?greens = []" by (auto simp: filter_empty_conv)
    then show False using that by simp
  qed
  then show ?thesis
    unfolding validateAt_def Let_def allred by auto
qed

lemma forceNS_skeleton: "skeleton (forceNorthSouthGreen loc ls) = skeleton ls"
  by (simp add: skeleton_def forceNorthSouthGreen_def)

lemma validateAt_skeleton: "skeleton (validateAt loc ls) = skeleton ls"
  by (simp add: validateAt_result demote_skeleton forceNS_skeleton)

lemma validateAt_length [simp]: "length (validateAt loc ls) = length ls"
  using skeleton_length[OF validateAt_skeleton] .

lemma validateAt_other:
  assumes "k < length ls" "locationId (ls ! k) \<noteq> loc"
  shows "validateAt loc ls ! k = ls ! k"
  using assms by (simp add: validateAt_result demote_other forceNorthSouthGreen_def)









lemmas batch_eval =
  updateTrafficLights_def validateIntersectionSafety_def validateAt_def forceNorthSouthGreen_def
  upt_rec light_eval





section \<open>Mutual exclusion of the phases\<close>

lemma sameFrame_refl: "sameFrame L a a"
  by (simp add: sameFrame_def)

lemma sameFrame_trans: "sameFrame L a b \<Longrightarrow> sameFrame L b c \<Longrightarrow> sameFrame L a c"
  unfolding sameFrame_def by auto

lemma sameFrame_groupsAssigned: "sameFrame L a b \<Longrightarrow> groupsAssigned L b \<Longrightarrow> groupsAssigned L a"
  unfolding sameFrame_def groupsAssigned_def by auto

lemma sameFrame_distinctIds: "sameFrame L a b \<Longrightarrow> distinctIds L b \<Longrightarrow> distinctIds L a"
  unfolding sameFrame_def distinctIds_def by (metis (no_types, lifting))

lemma sameFrame_atMostTwoGroups: "sameFrame L a b \<Longrightarrow> atMostTwoGroups L b \<Longrightarrow> atMostTwoGroups L a"
  unfolding sameFrame_def atMostTwoGroups_def by metis

text \<open>Lights of the intersection keep their state, or go to red.\<close>

lemma onePhase_shrink:
  assumes "onePhase L b" "sameFrame L a b"
    and "\<forall>k < length b. locationId (b ! k) = L \<longrightarrow> state (a ! k) = state (b ! k) \<or> state (a ! k) = Red"
  shows "onePhase L a"
proof -
  from assms(1) obtain g s where gs: "\<forall>k < length b. locationId (b ! k) = L \<longrightarrow>
        state (b ! k) = Red \<or> (oppositeGroupId (b ! k) = g \<and> state (b ! k) = s)"
    unfolding onePhase_def by blast
  have "\<forall>k < length a. locationId (a ! k) = L \<longrightarrow>
        state (a ! k) = Red \<or> (oppositeGroupId (a ! k) = g \<and> state (a ! k) = s)"
    using gs assms(2,3) unfolding sameFrame_def by (metis (no_types, lifting))
  then show ?thesis unfolding onePhase_def by blast
qed

text \<open>Every light of the intersection in state \<open>x\<close> goes to \<open>y\<close>, the others keep their state.\<close>

lemma onePhase_recolor:
  assumes "onePhase L b" "sameFrame L a b" "x \<noteq> Red"
    and "\<forall>k < length b. locationId (b ! k) = L \<longrightarrow>
            state (a ! k) = (if state (b ! k) = x then y else state (b ! k))"
  shows "onePhase L a"
proof -
  from assms(1) obtain g s where gs: "\<forall>k < length b. locationId (b ! k) = L \<longrightarrow>
        state (b ! k) = Red \<or> (oppositeGroupId (b ! k) = g \<and> state (b ! k) = s)"
    unfolding onePhase_def by blast
  have len: "length a = length b" using assms(2) by (simp add: sameFrame_def)
  have fr: "\<And>k. k < length b \<Longrightarrow> locationId (a ! k) = locationId (b ! k)"
    "\<And>k. k < length b \<Longrightarrow> locationId (b ! k) = L \<Longrightarrow> oppositeGroupId (a ! k) = oppositeGroupId (b ! k)"
    using assms(2) by (simp_all add: sameFrame_def)
  have "\<forall>k < length a. locationId (a ! k) = L \<longrightarrow>
        state (a ! k) = Red \<or> (oppositeGroupId (a ! k) = g \<and> state (a ! k) = (if s = x then y else s))"
  proof (intro allI impI)
    fix k assume k: "k < length a" "locationId (a ! k) = L"
    then have kb: "k < length b" "locationId (b ! k) = L" using len fr(1) by auto
    have st: "state (a ! k) = (if state (b ! k) = x then y else state (b ! k))"
      using assms(4) kb by blast
    from gs kb have "state (b ! k) = Red \<or> (oppositeGroupId (b ! k) = g \<and> state (b ! k) = s)" by blast
    then show "state (a ! k) = Red \<or> (oppositeGroupId (a ! k) = g \<and> state (a ! k) = (if s = x then y else s))"
      using st fr(2)[OF kb] assms(3) by auto
  qed
  then show ?thesis unfolding onePhase_def by blast
qed

text \<open>From an all-red intersection, the lights that leave red all have group \<open>g\<close> and go to \<open>s\<close>.\<close>

lemma onePhase_from_all_red:
  assumes "sameFrame L a b"
    and "\<forall>k < length b. locationId (b ! k) = L \<longrightarrow>
            state (a ! k) = Red \<or> (oppositeGroupId (b ! k) = g \<and> state (a ! k) = s)"
  shows "onePhase L a"
proof -
  have "\<forall>k < length a. locationId (a ! k) = L \<longrightarrow>
        state (a ! k) = Red \<or> (oppositeGroupId (a ! k) = g \<and> state (a ! k) = s)"
    using assms unfolding sameFrame_def by (metis (no_types, lifting))
  then show ?thesis unfolding onePhase_def by blast
qed

lemma skeleton_sameFrame: "skeleton a = skeleton b \<Longrightarrow> sameFrame L a b"
  unfolding sameFrame_def using skeleton_length skeleton_nth by metis

lemma skeleton_map:
  assumes "\<And>l. locationId (f l) = locationId l" "\<And>l. lightId (f l) = lightId l"
    "\<And>l. oppositeGroupId (f l) = oppositeGroupId l"
  shows "skeleton (map f ls) = skeleton ls"
  using assms by (simp add: skeleton_def)

lemma skeleton_update:
  assumes "locationId v = locationId (ls ! i)" "lightId v = lightId (ls ! i)"
    "oppositeGroupId v = oppositeGroupId (ls ! i)"
  shows "skeleton (ls[i := v]) = skeleton ls"
proof (cases "i < length ls")
  case True
  have "skeleton (ls[i := v]) = (skeleton ls)[i := (locationId v, lightId v, oppositeGroupId v)]"
    by (simp add: skeleton_def map_update)
  also have "\<dots> = skeleton ls"
    using assms True by (simp add: skeleton_def list_update_same_conv)
  finally show ?thesis .
next
  case False
  then show ?thesis by (simp add: list_update_beyond)
qed

lemma incrementTimer_skeleton: "skeleton (incrementTimer dt i ls) = skeleton ls"
  unfolding incrementTimer_def by (rule skeleton_update) simp_all

lemma syncGroup_skeleton: "skeleton (syncGroup a b me ls) = skeleton ls"
  unfolding syncGroup_def by (rule skeleton_map) simp_all

lemma pushPerpendicular_skeleton: "skeleton (pushPerpendicular me ls) = skeleton ls"
  unfolding pushPerpendicular_def by (rule skeleton_map) simp_all

lemma targetToWaiting_skeleton: "skeleton (targetToWaiting me ls) = skeleton ls"
  unfolding targetToWaiting_def by (rule skeleton_map) simp_all

lemma clearTargets_skeleton: "skeleton (clearTargets me ls) = skeleton ls"
  unfolding clearTargets_def by (rule skeleton_map) simp_all

lemma promoteTarget_skeleton: "skeleton (promoteTarget me ls) = skeleton ls"
  by (simp add: promoteTarget_def clearTargets_skeleton targetToWaiting_skeleton)

lemma applySmartDecision_skeleton: "skeleton (applySmartDecision d me ls) = skeleton ls"
proof -
  have a: "skeleton (map (\<lambda>l. if sameIntersection me l
                 then (if state l = Green
                       then l\<lparr>smartSwitchTarget := targetGroup d, state := Yellow, timer := 0\<rparr>
                       else l\<lparr>smartSwitchTarget := targetGroup d\<rparr>)
                 else l) ls) = skeleton ls"
    by (rule skeleton_map) simp_all
  have b: "skeleton (map (\<lambda>l. if sameIntersection me l \<and> oppositeGroupId l = targetGroup d \<and> state l = Green
                 then l\<lparr>timer := 0\<rparr> else l) ls) = skeleton ls"
    by (rule skeleton_map) simp_all
  show ?thesis unfolding applySmartDecision_def using a b by simp
qed

lemma smartPhase_skeleton: "skeleton (smartPhase now cars streets locations i ls) = skeleton ls"
proof -
  have "skeleton (map (\<lambda>l. if sameIntersection (ls ! i) l then l\<lparr>lastSmartUpdate := Some now\<rparr> else l) ls)
        = skeleton ls"
    by (rule skeleton_map) simp_all
  then show ?thesis
    by (simp add: smartPhase_def Let_def applySmartDecision_skeleton)
qed

lemma changeState_skeleton: "skeleton (changeState smart i ls) = skeleton ls"
proof -
  have u: "skeleton (ls[i := (ls ! i)\<lparr>timer := 0, state := s\<rparr>]) = skeleton ls" for s
    by (rule skeleton_update) simp_all
  have r: "skeleton (ls[i := (ls ! i)\<lparr>timer := 0\<rparr>]) = skeleton ls"
    by (rule skeleton_update) simp_all
  show ?thesis
    by (simp add: changeState_def Let_def syncGroup_skeleton pushPerpendicular_skeleton
        promoteTarget_skeleton u r split: lstate.splits)
qed

lemma stateMachine_skeleton: "skeleton (stateMachine smart i ls) = skeleton ls"
  by (simp add: stateMachine_def changeState_skeleton)

lemma ensureGroup_sameFrame:
  assumes "groupsAssigned L ls"
  shows "sameFrame L (ensureGroup i ls) ls"
proof (cases "i < length ls \<and> locationId (ls ! i) \<noteq> L")
  case True
  then show ?thesis
    unfolding sameFrame_def ensureGroup_def by (auto simp: nth_list_update)
next
  case False
  have "ensureGroup i ls = ls"
  proof (cases "i < length ls")
    case True
    then have "truthy (oppositeGroupId (ls ! i))"
      using False assms unfolding groupsAssigned_def by auto
    then show ?thesis by (simp add: ensureGroup_def)
  next
    case F: False
    then show ?thesis by (simp add: ensureGroup_def list_update_beyond)
  qed
  then show ?thesis by (simp add: sameFrame_refl)
qed

lemma ensureGroup_states:
  "k < length ls \<Longrightarrow> state (ensureGroup i ls ! k) = state (ls ! k)"
  by (cases "k = i") (simp_all add: ensureGroup_def)

lemma incrementTimer_states:
  "k < length ls \<Longrightarrow> state (incrementTimer dt i ls ! k) = state (ls ! k)"
  by (cases "k = i") (simp_all add: incrementTimer_def)

lemma onePhase_same_states:
  assumes "onePhase L b" "sameFrame L a b"
    and "\<forall>k < length b. locationId (b ! k) = L \<longrightarrow> state (a ! k) = state (b ! k)"
  shows "onePhase L a"
  using onePhase_shrink[OF assms(1,2)] assms(3) by blast

lemma incrementTimer_onePhase:
  assumes "onePhase L ls"
  shows "onePhase L (incrementTimer dt i ls)"
  using onePhase_same_states[OF assms skeleton_sameFrame[OF incrementTimer_skeleton]]
    incrementTimer_states by blast

lemma ensureGroup_onePhase:
  assumes "onePhase L ls" "groupsAssigned L ls"
  shows "onePhase L (ensureGroup i ls)"
  using onePhase_same_states[OF assms(1) ensureGroup_sameFrame[OF assms(2)]]
    ensureGroup_states by blast

lemma applySmartDecision_states:
  "(\<forall>k < length ls. state (applySmartDecision d me ls ! k) = state (ls ! k)) \<or>
   (\<forall>k < length ls. state (applySmartDecision d me ls ! k)
        = (if sameIntersection me (ls ! k) \<and> state (ls ! k) = Green then Yellow else state (ls ! k)))"
  by (simp add: applySmartDecision_def)

lemma applySmartDecision_onePhase:
  assumes "onePhase L ls"
  shows "onePhase L (applySmartDecision d me ls)"
proof -
  note fr = skeleton_sameFrame[OF applySmartDecision_skeleton, of L d me ls]
  consider (same) "\<forall>k < length ls. state (applySmartDecision d me ls ! k) = state (ls ! k)"
    | (switch) "\<forall>k < length ls. state (applySmartDecision d me ls ! k)
        = (if sameIntersection me (ls ! k) \<and> state (ls ! k) = Green then Yellow else state (ls ! k))"
    using applySmartDecision_states by blast
  then show ?thesis
  proof cases
    case same
    then show ?thesis using onePhase_same_states[OF assms fr] by blast
  next
    case switch
    show ?thesis
    proof (cases "locationId me = L")
      case True
      have "\<forall>k < length ls. locationId (ls ! k) = L \<longrightarrow>
              state (applySmartDecision d me ls ! k)
                = (if state (ls ! k) = Green then Yellow else state (ls ! k))"
        using switch True by (simp add: sameIntersection_def)
      then show ?thesis using onePhase_recolor[OF assms fr, of Green Yellow] by simp
    next
      case False
      have "\<forall>k < length ls. locationId (ls ! k) = L \<longrightarrow>
              state (applySmartDecision d me ls ! k) = state (ls ! k)"
        using switch False by (simp add: sameIntersection_def)
      then show ?thesis using onePhase_same_states[OF assms fr] by blast
    qed
  qed
qed

lemma stamp_onePhase:
  assumes "onePhase L ls"
  shows "onePhase L (map (\<lambda>l. if sameIntersection me l then l\<lparr>lastSmartUpdate := Some now\<rparr> else l) ls)"
proof -
  let ?st = "map (\<lambda>l. if sameIntersection me l then l\<lparr>lastSmartUpdate := Some now\<rparr> else l) ls"
  have "skeleton ?st = skeleton ls" by (rule skeleton_map) simp_all
  then have fr: "sameFrame L ?st ls" by (rule skeleton_sameFrame)
  have "\<forall>k < length ls. locationId (ls ! k) = L \<longrightarrow> state (?st ! k) = state (ls ! k)" by simp
  then show ?thesis using onePhase_same_states[OF assms fr] by blast
qed

lemma smartPhase_onePhase:
  assumes "onePhase L ls"
  shows "onePhase L (smartPhase now cars streets locations i ls)"
  by (simp add: smartPhase_def Let_def assms applySmartDecision_onePhase stamp_onePhase)

lemma changeState_elsewhere:
  assumes "k < length ls" "i < length ls" "locationId (ls ! k) \<noteq> locationId (ls ! i)"
  shows "changeState smart i ls ! k = ls ! k"
proof -
  have ki: "k \<noteq> i" using assms(3) by auto
  show ?thesis
    using assms ki
    by (simp add: changeState_def Let_def syncGroup_def pushPerpendicular_def promoteTarget_def
        targetToWaiting_def clearTargets_def sameIntersection_def split: lstate.splits)
qed

text \<open>
  The state of every light of the intersection after the light \<open>i\<close> has moved from \<open>x\<close> to
  \<open>y\<close> and its group has been synchronised.
\<close>

lemma sync_states:
  assumes inv: "onePhase L ls" and ids: "distinctIds L ls"
    and i: "i < length ls" "locationId (ls ! i) = L" "state (ls ! i) = x" and x: "x \<noteq> Red"
    and k: "k < length ls" "locationId (ls ! k) = L"
  shows "state (syncGroup x y ((ls ! i)\<lparr>timer := 0, state := y\<rparr>)
                  (ls[i := (ls ! i)\<lparr>timer := 0, state := y\<rparr>]) ! k)
         = (if state (ls ! k) = x then y else state (ls ! k))"
proof (cases "k = i")
  case True
  then show ?thesis using i by (simp add: syncGroup_def)
next
  case False
  from inv obtain g s where gs: "\<forall>k < length ls. locationId (ls ! k) = L \<longrightarrow>
        state (ls ! k) = Red \<or> (oppositeGroupId (ls ! k) = g \<and> state (ls ! k) = s)"
    unfolding onePhase_def by blast
  have gi: "oppositeGroupId (ls ! i) = g" "s = x" using gs i x by auto
  have idk: "lightId (ls ! k) \<noteq> lightId (ls ! i)"
    using ids i k False unfolding distinctIds_def by blast
  have gk: "state (ls ! k) = x \<Longrightarrow> oppositeGroupId (ls ! k) = oppositeGroupId (ls ! i)"
    using gs k gi x by auto
  show ?thesis
    using False k i idk gk by (auto simp: syncGroup_def sameIntersection_def)
qed

lemma sync_onePhase:
  assumes inv: "onePhase L ls" and ids: "distinctIds L ls"
    and i: "i < length ls" "locationId (ls ! i) = L" "state (ls ! i) = x" and x: "x \<noteq> Red"
  shows "onePhase L (syncGroup x y ((ls ! i)\<lparr>timer := 0, state := y\<rparr>)
                  (ls[i := (ls ! i)\<lparr>timer := 0, state := y\<rparr>]))"
proof -
  let ?me = "(ls ! i)\<lparr>timer := 0, state := y\<rparr>"
  have "skeleton (syncGroup x y ?me (ls[i := ?me])) = skeleton (ls[i := ?me])"
    by (rule syncGroup_skeleton)
  also have "\<dots> = skeleton ls" by (rule skeleton_update) simp_all
  finally have fr: "sameFrame L (syncGroup x y ?me (ls[i := ?me])) ls"
    by (rule skeleton_sameFrame)
  have "\<forall>k < length ls. locationId (ls ! k) = L \<longrightarrow>
          state (syncGroup x y ?me (ls[i := ?me]) ! k) = (if state (ls ! k) = x then y else state (ls ! k))"
    using sync_states[OF inv ids i x] by blast
  then show ?thesis using onePhase_recolor[OF inv fr x] by blast
qed

text \<open>After the yellow light \<open>i\<close> and its group have gone to red, the intersection is all red.\<close>

lemma sync_all_red:
  assumes inv: "onePhase L ls" and ids: "distinctIds L ls"
    and i: "i < length ls" "locationId (ls ! i) = L" "state (ls ! i) = Yellow"
    and k: "k < length ls" "locationId (ls ! k) = L"
  shows "state (syncGroup Yellow Red ((ls ! i)\<lparr>timer := 0, state := Red\<rparr>)
                  (ls[i := (ls ! i)\<lparr>timer := 0, state := Red\<rparr>]) ! k) = Red"
proof -
  from inv obtain g s where gs: "\<forall>k < length ls. locationId (ls ! k) = L \<longrightarrow>
        state (ls ! k) = Red \<or> (oppositeGroupId (ls ! k) = g \<and> state (ls ! k) = s)"
    unfolding onePhase_def by blast
  have "s = Yellow" using gs i by auto
  then have "state (ls ! k) = Red \<or> state (ls ! k) = Yellow" using gs k by auto
  then show ?thesis
    using sync_states[OF inv ids i _ k, of Red] by auto
qed

lemma yellow_to_red_onePhase:
  assumes inv: "onePhase L ls" and ids: "distinctIds L ls"
    and i: "i < length ls" "locationId (ls ! i) = L" "state (ls ! i) = Yellow"
    and two: "smart \<or> atMostTwoGroups L ls"
  shows "onePhase L (changeState smart i ls)"
proof -
  let ?me = "(ls ! i)\<lparr>timer := 0, state := Red\<rparr>"
  let ?S = "syncGroup Yellow Red ?me (ls[i := ?me])"
  have skS: "skeleton ?S = skeleton ls"
  proof -
    have "skeleton ?S = skeleton (ls[i := ?me])" by (rule syncGroup_skeleton)
    also have "\<dots> = skeleton ls" by (rule skeleton_update) simp_all
    finally show ?thesis .
  qed
  have lenS: "length ?S = length ls" by simp
  have red: "\<And>k. k < length ls \<Longrightarrow> locationId (ls ! k) = L \<Longrightarrow> state (?S ! k) = Red"
    using sync_all_red[OF inv ids i] by blast
  have grp: "\<And>k. k < length ls \<Longrightarrow> oppositeGroupId (?S ! k) = oppositeGroupId (ls ! k)"
    and loc: "\<And>k. k < length ls \<Longrightarrow> locationId (?S ! k) = locationId (ls ! k)"
    using skeleton_nth[OF skS] by blast+
  have cs: "changeState smart i ls = (if smart then promoteTarget ?me ?S else pushPerpendicular ?me ?S)"
    using i(3) by (simp add: changeState_def Let_def)
  show ?thesis
  proof (cases smart)
    case False
    then obtain ga gb where gab: "\<forall>k < length ls. locationId (ls ! k) = L \<longrightarrow>
        oppositeGroupId (ls ! k) = ga \<or> oppositeGroupId (ls ! k) = gb"
      using two unfolding atMostTwoGroups_def by blast
    let ?g = "if oppositeGroupId (ls ! i) = ga then gb else ga"
    have fr: "sameFrame L (pushPerpendicular ?me ?S) ls"
      using pushPerpendicular_skeleton[of ?me ?S] skS by (intro skeleton_sameFrame) simp
    have "\<forall>k < length ls. locationId (ls ! k) = L \<longrightarrow>
            state (pushPerpendicular ?me ?S ! k) = Red \<or>
            (oppositeGroupId (ls ! k) = ?g \<and> state (pushPerpendicular ?me ?S ! k) = Waiting)"
    proof (intro allI impI)
      fix k assume k: "k < length ls" "locationId (ls ! k) = L"
      have gi: "oppositeGroupId (ls ! i) = ga \<or> oppositeGroupId (ls ! i) = gb"
        and gk: "oppositeGroupId (ls ! k) = ga \<or> oppositeGroupId (ls ! k) = gb"
        using gab i k by blast+
      have st: "state (pushPerpendicular ?me ?S ! k)
            = (if oppositeGroupId (ls ! k) \<noteq> oppositeGroupId (ls ! i) then Waiting else Red)"
        using k i red[OF k] grp[OF k(1)] loc[OF k(1)]
        by (simp add: pushPerpendicular_def sameIntersection_def)
      show "state (pushPerpendicular ?me ?S ! k) = Red \<or>
            (oppositeGroupId (ls ! k) = ?g \<and> state (pushPerpendicular ?me ?S ! k) = Waiting)"
        using st gi gk by auto
    qed
    then have "onePhase L (pushPerpendicular ?me ?S)"
      using onePhase_from_all_red[OF fr] by blast
    then show ?thesis unfolding cs using False by simp
  next
    case True
    show ?thesis
    proof (cases "truthy (smartSwitchTarget (ls ! i))")
      case nt: False
      have fr: "sameFrame L ?S ls" using skS by (rule skeleton_sameFrame)
      have "\<forall>k < length ls. locationId (ls ! k) = L \<longrightarrow>
            state (?S ! k) = Red \<or> (oppositeGroupId (ls ! k) = None \<and> state (?S ! k) = Waiting)"
        using red by blast
      then have "onePhase L ?S" using onePhase_from_all_red[OF fr] by blast
      then show ?thesis unfolding cs using True nt by (simp add: promoteTarget_def)
    next
      case t: True
      let ?T = "targetToWaiting ?me ?S"
      have skT: "skeleton ?T = skeleton ls" using targetToWaiting_skeleton[of ?me ?S] skS by simp
      have stT: "\<forall>k < length ls. locationId (ls ! k) = L \<longrightarrow>
            state (?T ! k) = Red \<or>
            (oppositeGroupId (ls ! k) = smartSwitchTarget (ls ! i) \<and> state (?T ! k) = Waiting)"
      proof (intro allI impI)
        fix k assume k: "k < length ls" "locationId (ls ! k) = L"
        have "state (?T ! k)
              = (if oppositeGroupId (ls ! k) = smartSwitchTarget (ls ! i) then Waiting else Red)"
          using k i red[OF k] grp[OF k(1)] loc[OF k(1)]
          by (simp add: targetToWaiting_def sameIntersection_def)
        then show "state (?T ! k) = Red \<or>
            (oppositeGroupId (ls ! k) = smartSwitchTarget (ls ! i) \<and> state (?T ! k) = Waiting)"
          by auto
      qed
      have "onePhase L ?T"
        using onePhase_from_all_red[OF skeleton_sameFrame[OF skT]] stT by blast
      moreover have "onePhase L (clearTargets ?me ?T)"
      proof -
        have "skeleton (clearTargets ?me ?T) = skeleton ls"
          using clearTargets_skeleton[of ?me ?T] skT by simp
        then have fr: "sameFrame L (clearTargets ?me ?T) ls" by (rule skeleton_sameFrame)
        have lenT: "length ?T = length ls" by (simp add: targetToWaiting_def)
        have "\<forall>k < length ls. state (clearTargets ?me ?T ! k) = state (?T ! k)"
          using lenT by (simp add: clearTargets_def)
        then have "\<forall>k < length ls. locationId (ls ! k) = L \<longrightarrow>
            state (clearTargets ?me ?T ! k) = Red \<or>
            (oppositeGroupId (ls ! k) = smartSwitchTarget (ls ! i) \<and> state (clearTargets ?me ?T ! k) = Waiting)"
          using stT by simp
        then show ?thesis using onePhase_from_all_red[OF fr] by blast
      qed
      ultimately show ?thesis unfolding cs using True t by (simp add: promoteTarget_def)
    qed
  qed
qed

lemma changeState_onePhase:
  assumes inv: "onePhase L ls" and ids: "distinctIds L ls" and i: "i < length ls"
    and two: "smart \<or> atMostTwoGroups L ls"
  shows "onePhase L (changeState smart i ls)"
proof (cases "locationId (ls ! i) = L")
  case False
  have fr: "sameFrame L (changeState smart i ls) ls"
    using changeState_skeleton by (rule skeleton_sameFrame)
  have "\<forall>k < length ls. locationId (ls ! k) = L \<longrightarrow> state (changeState smart i ls ! k) = state (ls ! k)"
    using changeState_elsewhere[OF _ i] False by simp
  then show ?thesis using onePhase_same_states[OF inv fr] by blast
next
  case True
  show ?thesis
  proof (cases "state (ls ! i)")
    case Red
    have fr: "sameFrame L (changeState smart i ls) ls"
      using changeState_skeleton by (rule skeleton_sameFrame)
    have "\<forall>k < length ls. state (changeState smart i ls ! k) = state (ls ! k)"
    proof (intro allI impI)
      fix k assume "k < length ls"
      then show "state (changeState smart i ls ! k) = state (ls ! k)"
        using Red i by (cases "k = i") (simp_all add: changeState_def)
    qed
    then show ?thesis using onePhase_same_states[OF inv fr] by blast
  next
    case Yellow
    then show ?thesis using yellow_to_red_onePhase[OF inv ids i True _ two] by simp
  next
    case Green
    have "onePhase L (syncGroup Green Yellow ((ls ! i)\<lparr>timer := 0, state := Yellow\<rparr>)
                  (ls[i := (ls ! i)\<lparr>timer := 0, state := Yellow\<rparr>]))"
      by (rule sync_onePhase[OF inv ids i True Green]) simp
    then show ?thesis using Green by (simp add: changeState_def Let_def)
  next
    case Waiting
    have "onePhase L (syncGroup Waiting Green ((ls ! i)\<lparr>timer := 0, state := Green\<rparr>)
                  (ls[i := (ls ! i)\<lparr>timer := 0, state := Green\<rparr>]))"
      by (rule sync_onePhase[OF inv ids i True Waiting]) simp
    then show ?thesis using Waiting by (simp add: changeState_def Let_def)
  qed
qed

lemma phaseInv_frame:
  assumes "phaseInv L two b" "sameFrame L a b" "onePhase L a"
  shows "phaseInv L two a"
  using assms sameFrame_groupsAssigned sameFrame_distinctIds sameFrame_atMostTwoGroups
  unfolding phaseInv_def by blast

lemma stateMachine_phaseInv:
  assumes "phaseInv L two ls" "smart \<or> two" "i < length ls"
  shows "phaseInv L two (stateMachine smart i ls)"
proof (cases "timedOut (timer (ls ! i)) (cycleDuration smart (state (ls ! i)))")
  case True
  have "smart \<or> atMostTwoGroups L ls" using assms unfolding phaseInv_def by blast
  then have "onePhase L (changeState smart i ls)"
    using changeState_onePhase[of L ls i smart] assms(1,3) unfolding phaseInv_def by blast
  then have "onePhase L (stateMachine smart i ls)" using True by (simp add: stateMachine_def)
  then show ?thesis
    using phaseInv_frame[OF assms(1) skeleton_sameFrame[OF stateMachine_skeleton]] by blast
next
  case False
  then have "stateMachine smart i ls = ls" by (simp add: stateMachine_def)
  then show ?thesis using assms(1) by simp
qed

lemma updateTrafficLight_phaseInv:
  assumes "phaseInv L two ls" "smart \<or> two"
  shows "phaseInv L two (updateTrafficLight now dt smart cars streets locations i ls)"
proof -
  let ?a = "incrementTimer dt i ls"
  let ?b = "ensureGroup i ?a"
  let ?c = "smartPhase now cars streets locations i ?b"
  have a: "phaseInv L two ?a"
    using phaseInv_frame[OF assms(1) skeleton_sameFrame[OF incrementTimer_skeleton]]
      incrementTimer_onePhase assms(1) unfolding phaseInv_def by blast
  have b: "phaseInv L two ?b"
  proof -
    have ga: "groupsAssigned L ?a" and oa: "onePhase L ?a" using a unfolding phaseInv_def by blast+
    show ?thesis
      using phaseInv_frame[OF a ensureGroup_sameFrame[OF ga]] ensureGroup_onePhase[OF oa ga] by blast
  qed
  have c: "phaseInv L two ?c"
    using phaseInv_frame[OF b skeleton_sameFrame[OF smartPhase_skeleton]]
      smartPhase_onePhase b unfolding phaseInv_def by blast
  show ?thesis
  proof (cases "length ls \<le> i")
    case True
    then show ?thesis using assms(1) by (simp add: updateTrafficLight_def)
  next
    case False
    show ?thesis
    proof (cases smart)
      case True
      then show ?thesis
        using False stateMachine_phaseInv[OF c, of True i] by (simp add: updateTrafficLight_def)
    next
      case F: False
      then have two using assms(2) by simp
      then show ?thesis
        using False F stateMachine_phaseInv[OF b, of False i] by (simp add: updateTrafficLight_def)
    qed
  qed
qed

lemma fold_update_phaseInv:
  assumes "phaseInv L two ls" "smart \<or> two"
  shows "phaseInv L two (fold (updateTrafficLight now dt smart cars streets locations) is ls)"
  using assms(1)
proof (induction "is" arbitrary: ls)
  case Nil
  then show ?case by simp
next
  case (Cons i "is")
  show ?case
    using Cons.IH[OF updateTrafficLight_phaseInv[OF Cons.prems assms(2)]] by simp
qed

lemma forceNS_states:
  "k < length ls \<Longrightarrow>
   state (forceNorthSouthGreen loc ls ! k)
     = (if locationId (ls ! k) = loc \<and> oppositeGroupId (ls ! k) = Some ''north-south''
        then Green else state (ls ! k))"
  by (simp add: forceNorthSouthGreen_def)

lemma validateAt_onePhase:
  assumes "onePhase L ls"
  shows "onePhase L (validateAt x ls)"
proof -
  have fr: "sameFrame L (validateAt x ls) ls"
    using validateAt_skeleton by (rule skeleton_sameFrame)
  show ?thesis
  proof (cases "x = L")
    case False
    have "\<forall>k < length ls. locationId (ls ! k) = L \<longrightarrow> state (validateAt x ls ! k) = state (ls ! k)"
      using validateAt_other[of _ ls x] False by simp
    then show ?thesis using onePhase_same_states[OF assms fr] by blast
  next
    case True
    have "validateAt x ls = ls \<or> validateAt x ls = demoteExtraGreens x 0 ls \<or>
          (validateAt x ls = forceNorthSouthGreen x ls \<and>
           (\<forall>l \<in> set ls. locationId l = x \<longrightarrow> state l = Red \<and> 3 < timer l))"
      by (simp add: validateAt_result)
    then consider (same) "validateAt x ls = ls"
      | (demote) "validateAt x ls = demoteExtraGreens x 0 ls"
      | (force) "validateAt x ls = forceNorthSouthGreen x ls"
          "\<forall>l \<in> set ls. locationId l = x \<longrightarrow> state l = Red \<and> 3 < timer l"
      by blast
    then show ?thesis
    proof cases
      case same
      then show ?thesis using assms by simp
    next
      case demote
      have "\<forall>k < length ls. locationId (ls ! k) = L \<longrightarrow>
              state (validateAt x ls ! k) = state (ls ! k) \<or> state (validateAt x ls ! k) = Red"
      proof (intro allI impI)
        fix k assume k: "k < length ls"
        from demote_nth[OF k, of x 0]
        show "state (validateAt x ls ! k) = state (ls ! k) \<or> state (validateAt x ls ! k) = Red"
          unfolding demote by (elim disjE) simp_all
      qed
      then show ?thesis using onePhase_shrink[OF assms fr] by blast
    next
      case force
      have "\<forall>k < length ls. locationId (ls ! k) = L \<longrightarrow>
              state (validateAt x ls ! k) = Red \<or>
              (oppositeGroupId (ls ! k) = Some ''north-south'' \<and> state (validateAt x ls ! k) = Green)"
      proof (intro allI impI)
        fix k assume k: "k < length ls" "locationId (ls ! k) = L"
        then have "state (ls ! k) = Red" using force(2) True nth_mem by blast
        then show "state (validateAt x ls ! k) = Red \<or>
              (oppositeGroupId (ls ! k) = Some ''north-south'' \<and> state (validateAt x ls ! k) = Green)"
          unfolding force(1) using forceNS_states[OF k(1), of x] by auto
      qed
      then show ?thesis using onePhase_from_all_red[OF fr] by blast
    qed
  qed
qed

lemma validateAt_phaseInv:
  assumes "phaseInv L two ls"
  shows "phaseInv L two (validateAt x ls)"
  using phaseInv_frame[OF assms skeleton_sameFrame[OF validateAt_skeleton]]
    validateAt_onePhase assms unfolding phaseInv_def by blast

lemma fold_validate_phaseInv:
  "phaseInv L two ls \<Longrightarrow> phaseInv L two (fold validateAt locs ls)"
  by (induction locs arbitrary: ls) (simp_all add: validateAt_phaseInv)

lemma updateTrafficLights_phaseInv:
  assumes "phaseInv L two ls" "smart \<or> two"
  shows "phaseInv L two (updateTrafficLights now dt smart cars streets locations ls)"
  unfolding updateTrafficLights_def validateIntersectionSafety_def
  using fold_validate_phaseInv[OF fold_update_phaseInv[OF assms]] by blast

lemma onePhase_mutuallyExclusive:
  assumes "onePhase L ls"
  shows "mutuallyExclusive L ls"
proof -
  from assms obtain g s where gs: "\<forall>k < length ls. locationId (ls ! k) = L \<longrightarrow>
        state (ls ! k) = Red \<or> (oppositeGroupId (ls ! k) = g \<and> state (ls ! k) = s)"
    unfolding onePhase_def by blast
  have el: "state a = Red \<or> oppositeGroupId a = g" if "a \<in> set ls" "locationId a = L" for a
    using that gs by (metis in_set_conv_nth)
  show ?thesis
    unfolding mutuallyExclusive_def
  proof (intro ballI impI notI)
    fix a b
    assume a: "a \<in> set ls" and b: "b \<in> set ls"
      and h: "locationId a = L \<and> locationId b = L \<and> oppositeGroupId a \<noteq> oppositeGroupId b"
      and c: "(state a = Green \<or> state a = Yellow) \<and> (state b = Green \<or> state b = Yellow)"
    have "oppositeGroupId a = g" using el[OF a] h c by auto
    moreover have "oppositeGroupId b = g" using el[OF b] h c by auto
    ultimately show False using h by simp
  qed
qed

lemma initialAt_phaseInv:
  assumes "initialAt L ls" "distinctIds L ls" "fx \<longrightarrow> atMostTwoGroups L ls"
  shows "phaseInv L fx ls"
proof -
  let ?here = "filter (\<lambda>l. locationId l = L) ls"
  have h: "\<forall>l \<in> set ?here. truthy (oppositeGroupId l) \<and>
          state l = (if oppositeGroupId l = oppositeGroupId (hd ?here) then Green else Red)"
    using assms(1) unfolding initialAt_def Let_def by blast
  have mem: "ls ! k \<in> set ?here" if "k < length ls" "locationId (ls ! k) = L" for k
    using that by simp
  have "groupsAssigned L ls" unfolding groupsAssigned_def using h mem by blast
  moreover have "onePhase L ls"
    unfolding onePhase_def
  proof (intro exI[of _ "oppositeGroupId (hd ?here)"] exI[of _ Green] allI impI)
    fix k assume "k < length ls" "locationId (ls ! k) = L"
    then have "state (ls ! k) = (if oppositeGroupId (ls ! k) = oppositeGroupId (hd ?here) then Green else Red)"
      using h mem by blast
    then show "state (ls ! k) = Red \<or>
        (oppositeGroupId (ls ! k) = oppositeGroupId (hd ?here) \<and> state (ls ! k) = Green)"
      by (auto split: if_splits)
  qed
  ultimately show ?thesis using assms(2,3) unfolding phaseInv_def by blast
qed

lemma reachable_phaseInv:
  assumes "reachable fx ls0 ls" "phaseInv L fx ls0"
  shows "phaseInv L fx ls"
  using assms
proof (induction rule: reachable.induct)
  case start
  then show ?case by simp
next
  case (step ls isSmartControl now deltaTime cars streets locations)
  then show ?case using updateTrafficLights_phaseInv[of L fx ls isSmartControl] by simp
qed

text \<open>
  Claim C1 (phase mutual exclusion), as amended. From an initial intersection light set whose
  lights have pairwise different ids, every configuration reached by batch updates is
  mutually exclusive at that intersection, provided the lights form at most two groups or
  every step is under smart control.
\<close>

theorem mutual_exclusion:
  assumes "initialAt L ls0" and "distinctIds L ls0" and "reachable fixedTimer ls0 ls"
    and "fixedTimer \<longrightarrow> atMostTwoGroups L ls0"
  shows "mutuallyExclusive L ls"
proof -
  have "phaseInv L fixedTimer ls"
    using reachable_phaseInv[OF assms(3) initialAt_phaseInv[OF assms(1,2,4)]] .
  then show ?thesis using onePhase_mutuallyExclusive unfolding phaseInv_def by blast
qed

lemma six_way_step:
  "map state (updateTrafficLights 0 10 False [] [] [] sixWayLights)
     = [Red, Green, Green, Red, Red, Red]"
  by (simp add: sixWayLights_def batch_eval)

lemma twin_step1:
  "updateTrafficLights 0 (43/5) False [] [] [] twinIdLights =
     [exampleLight ''l1'' ''X'' ''s1'' Yellow 0 (Some ''opposite-X-0''),
      exampleLight ''l2'' ''X'' ''s2'' Red (91/10) (Some ''opposite-X-1''),
      exampleLight ''l1'' ''X'' ''s3'' Green (91/10) (Some ''opposite-X-0''),
      exampleLight ''l4'' ''X'' ''s4'' Red (91/10) (Some ''opposite-X-1'')]"
  by (simp add: twinIdLights_def batch_eval)

lemma twin_step2:
  "updateTrafficLights 0 1 False [] [] []
     [exampleLight ''l1'' ''X'' ''s1'' Yellow 0 (Some ''opposite-X-0''),
      exampleLight ''l2'' ''X'' ''s2'' Red (91/10) (Some ''opposite-X-1''),
      exampleLight ''l1'' ''X'' ''s3'' Green (91/10) (Some ''opposite-X-0''),
      exampleLight ''l4'' ''X'' ''s4'' Red (91/10) (Some ''opposite-X-1'')] =
     [exampleLight ''l1'' ''X'' ''s1'' Yellow 1 (Some ''opposite-X-0''),
      exampleLight ''l2'' ''X'' ''s2'' Red (101/10) (Some ''opposite-X-1''),
      exampleLight ''l1'' ''X'' ''s3'' Yellow 0 (Some ''opposite-X-0''),
      exampleLight ''l4'' ''X'' ''s4'' Red (101/10) (Some ''opposite-X-1'')]"
  by (simp add: batch_eval)

lemma twin_step3:
  "map state (updateTrafficLights 0 1 False [] [] []
     [exampleLight ''l1'' ''X'' ''s1'' Yellow 1 (Some ''opposite-X-0''),
      exampleLight ''l2'' ''X'' ''s2'' Red (101/10) (Some ''opposite-X-1''),
      exampleLight ''l1'' ''X'' ''s3'' Yellow 0 (Some ''opposite-X-0''),
      exampleLight ''l4'' ''X'' ''s4'' Red (101/10) (Some ''opposite-X-1'')])
   = [Red, Green, Yellow, Green]"
  by (simp add: batch_eval)

lemma six_full: "updateTrafficLights 0 10 False [] [] [] sixWayLights =
     [exampleLight ''l1'' ''X'' ''s1'' Red 0 (Some ''opposite-X-0''),
      exampleLight ''l2'' ''X'' ''s2'' Green 0 (Some ''opposite-X-1''),
      exampleLight ''l3'' ''X'' ''s3'' Green 0 (Some ''opposite-X-2''),
      exampleLight ''l4'' ''X'' ''s4'' Red 0 (Some ''opposite-X-0''),
      exampleLight ''l5'' ''X'' ''s5'' Red 0 (Some ''opposite-X-1''),
      exampleLight ''l6'' ''X'' ''s6'' Red 0 (Some ''opposite-X-2'')]"
  by (simp add: sixWayLights_def batch_eval)

lemma twin_full:
  "updateTrafficLights 0 1 False [] [] []
     (updateTrafficLights 0 1 False [] [] []
        (updateTrafficLights 0 (43/5) False [] [] [] twinIdLights)) =
     [exampleLight ''l1'' ''X'' ''s1'' Red 0 (Some ''opposite-X-0''),
      exampleLight ''l2'' ''X'' ''s2'' Green 0 (Some ''opposite-X-1''),
      exampleLight ''l1'' ''X'' ''s3'' Yellow 1 (Some ''opposite-X-0''),
      exampleLight ''l4'' ''X'' ''s4'' Green 1 (Some ''opposite-X-1'')]"
  unfolding twin_step1 twin_step2 by (simp add: batch_eval)

lemma four_full: "updateTrafficLights 0 (1/10) False [] [] [] fourWayLights =
     [exampleLight ''l1'' ''X'' ''s1'' Yellow 0 (Some ''opposite-X-0''),
      exampleLight ''l2'' ''X'' ''s2'' Red (3/5) (Some ''opposite-X-1''),
      exampleLight ''l3'' ''X'' ''s3'' Yellow (1/10) (Some ''opposite-X-0''),
      exampleLight ''l4'' ''X'' ''s4'' Red (3/5) (Some ''opposite-X-1'')]"
  by (simp add: fourWayLights_def batch_eval)

lemma not_exclusive:
  assumes "a \<in> set ls" "b \<in> set ls" "locationId a = L" "locationId b = L"
    "oppositeGroupId a \<noteq> oppositeGroupId b"
    "state a = Green \<or> state a = Yellow" "state b = Green \<or> state b = Yellow"
  shows "\<not> mutuallyExclusive L ls"
  using assms unfolding mutuallyExclusive_def by blast

lemma six_initial: "initialAt ''X'' sixWayLights"
  by (simp add: initialAt_def sixWayLights_def exampleLight_def truthy_def)

lemma six_ids: "distinctIds ''X'' sixWayLights"
  by (auto simp: distinctIds_def sixWayLights_def exampleLight_def nth_Cons split: nat.splits)

lemma twin_initial: "initialAt ''X'' twinIdLights"
  by (simp add: initialAt_def twinIdLights_def exampleLight_def truthy_def)

lemma twin_two: "atMostTwoGroups ''X'' twinIdLights"
  unfolding atMostTwoGroups_def
  by (intro exI[of _ "Some ''opposite-X-0''"] exI[of _ "Some ''opposite-X-1''"])
     (auto simp: twinIdLights_def exampleLight_def nth_Cons split: nat.splits)

lemma four_initial: "initialAt ''X'' fourWayLights"
  by (simp add: initialAt_def fourWayLights_def exampleLight_def truthy_def)

lemma four_ids: "distinctIds ''X'' fourWayLights"
  by (auto simp: distinctIds_def fourWayLights_def exampleLight_def nth_Cons split: nat.splits)

lemma four_two: "atMostTwoGroups ''X'' fourWayLights"
  unfolding atMostTwoGroups_def
  by (intro exI[of _ "Some ''opposite-X-0''"] exI[of _ "Some ''opposite-X-1''"])
     (auto simp: fourWayLights_def exampleLight_def nth_Cons split: nat.splits)

text \<open>
  Fixed-timer control at an intersection of six streets (three groups): after a step of 10
  seconds the first group has gone through yellow to red and the lights of both other groups
  have been pushed to waiting and on to green. And with two lights of one group sharing an
  id, the second is not synchronised and is still yellow when the other group is green.
\<close>

theorem mutual_exclusion_counterexample:
  "initialAt ''X'' sixWayLights \<and> distinctIds ''X'' sixWayLights \<and>
   reachable True sixWayLights (updateTrafficLights 0 10 False [] [] [] sixWayLights) \<and>
   map state (updateTrafficLights 0 10 False [] [] [] sixWayLights)
     = [Red, Green, Green, Red, Red, Red] \<and>
   \<not> mutuallyExclusive ''X'' (updateTrafficLights 0 10 False [] [] [] sixWayLights) \<and>
   initialAt ''X'' twinIdLights \<and> atMostTwoGroups ''X'' twinIdLights \<and>
   reachable True twinIdLights
     (updateTrafficLights 0 1 False [] [] []
        (updateTrafficLights 0 1 False [] [] []
           (updateTrafficLights 0 (43/5) False [] [] [] twinIdLights))) \<and>
   map state
     (updateTrafficLights 0 1 False [] [] []
        (updateTrafficLights 0 1 False [] [] []
           (updateTrafficLights 0 (43/5) False [] [] [] twinIdLights)))
     = [Red, Green, Yellow, Green] \<and>
   \<not> mutuallyExclusive ''X''
     (updateTrafficLights 0 1 False [] [] []
        (updateTrafficLights 0 1 False [] [] []
           (updateTrafficLights 0 (43/5) False [] [] [] twinIdLights)))"
proof -
  have r6: "reachable True sixWayLights (updateTrafficLights 0 10 False [] [] [] sixWayLights)"
    by (rule reachable.step[OF reachable.start]) simp
  have n6: "\<not> mutuallyExclusive ''X'' (updateTrafficLights 0 10 False [] [] [] sixWayLights)"
    unfolding six_full
    by (rule not_exclusive[of "exampleLight ''l2'' ''X'' ''s2'' Green 0 (Some ''opposite-X-1'')" _
          "exampleLight ''l3'' ''X'' ''s3'' Green 0 (Some ''opposite-X-2'')"])
       (simp_all add: exampleLight_def)
  have rt: "reachable True twinIdLights
     (updateTrafficLights 0 1 False [] [] []
        (updateTrafficLights 0 1 False [] [] []
           (updateTrafficLights 0 (43/5) False [] [] [] twinIdLights)))"
    by (intro reachable.step reachable.start) simp_all
  have nt: "\<not> mutuallyExclusive ''X''
     (updateTrafficLights 0 1 False [] [] []
        (updateTrafficLights 0 1 False [] [] []
           (updateTrafficLights 0 (43/5) False [] [] [] twinIdLights)))"
    unfolding twin_full
    by (rule not_exclusive[of "exampleLight ''l2'' ''X'' ''s2'' Green 0 (Some ''opposite-X-1'')" _
          "exampleLight ''l1'' ''X'' ''s3'' Yellow 1 (Some ''opposite-X-0'')"])
       (simp_all add: exampleLight_def)
  have m6: "map state (updateTrafficLights 0 10 False [] [] [] sixWayLights)
     = [Red, Green, Green, Red, Red, Red]"
    unfolding six_full by (simp add: exampleLight_def)
  have mt: "map state
     (updateTrafficLights 0 1 False [] [] []
        (updateTrafficLights 0 1 False [] [] []
           (updateTrafficLights 0 (43/5) False [] [] [] twinIdLights)))
     = [Red, Green, Yellow, Green]"
    unfolding twin_full by (simp add: exampleLight_def)
  show ?thesis
    using six_initial six_ids r6 m6 n6 twin_initial twin_two rt mt nt by (intro conjI)
qed

theorem mutual_exclusion_witness:
  "initialAt ''X'' fourWayLights \<and> distinctIds ''X'' fourWayLights \<and>
   atMostTwoGroups ''X'' fourWayLights \<and>
   reachable True fourWayLights (updateTrafficLights 0 (1/10) False [] [] [] fourWayLights) \<and>
   mutuallyExclusive ''X'' (updateTrafficLights 0 (1/10) False [] [] [] fourWayLights) \<and>
   map state (updateTrafficLights 0 (1/10) False [] [] [] fourWayLights) = [Yellow, Red, Yellow, Red]"
proof -
  have r: "reachable True fourWayLights (updateTrafficLights 0 (1/10) False [] [] [] fourWayLights)"
    by (rule reachable.step[OF reachable.start]) simp
  have "mutuallyExclusive ''X'' (updateTrafficLights 0 (1/10) False [] [] [] fourWayLights)"
    using mutual_exclusion[OF four_initial four_ids r] four_two by simp
  moreover have "map state (updateTrafficLights 0 (1/10) False [] [] [] fourWayLights)
      = [Yellow, Red, Yellow, Red]"
    unfolding four_full by (simp add: exampleLight_def)
  ultimately show ?thesis using four_initial four_ids four_two r by (intro conjI)
qed

section \<open>Routing\<close>

lemma pick_draw:
  assumes "0 \<le> r" "r < 1" "xs \<noteq> []"
  shows "pick r xs = xs ! nat \<lfloor>r * real (length xs)\<rfloor>"
proof -
  have n: "0 < length xs" using assms(3) by simp
  have "r * real (length xs) < real (length xs)" using assms(2) n by simp
  then have "\<lfloor>r * real (length xs)\<rfloor> < int (length xs)" by linarith
  then have "nat \<lfloor>r * real (length xs)\<rfloor> \<le> length xs - 1" using n by linarith
  then show ?thesis by (simp add: pick_def min_absorb1)
qed

lemma findBestNextStreet_cache_grows:
  "cache \<subseteq>\<^sub>m snd (findBestNextStreet cur dest prev streets locations i r cache)"
  by (auto simp add: findBestNextStreet_def Let_def map_le_def split: option.splits)





section \<open>Metric counters\<close>

lemma newSpeed_nonneg:
  assumes "0 \<le> deltaTime" "0 \<le> speed c"
  shows "0 \<le> newSpeed c dr deltaTime"
  using assms by (auto simp add: newSpeed_def Let_def min_def max_def)

lemma countersLe_refl: "countersLe a a"
  by (simp add: countersLe_def)

lemma countersLe_trans: "countersLe a b \<Longrightarrow> countersLe b c \<Longrightarrow> countersLe a c"
  by (auto simp add: countersLe_def)

lemma advance_counters:
  assumes "0 \<le> deltaTime" "0 \<le> speed c"
  shows "countersLe c (advance clk c dr deltaTime)"
  using assms newSpeed_nonneg[OF assms, of dr]
  by (simp add: countersLe_def advance_def Let_def)

lemma streetTime_advance: "streetTime clk (advance clk' c dr deltaTime) = streetTime clk c"
  by (simp add: streetTime_def advance_def Let_def)

lemma enterStreet_counters:
  assumes "0 \<le> streetTime clk u"
  shows "countersLe u (enterStreet clk u sid d n)"
  using assms by (simp add: countersLe_def enterStreet_def)

lemma endOfStreet_counters:
  assumes "0 \<le> streetTime clk u"
  shows "countersLe u (fst (endOfStreet clk rnd u currentStreet streets locations cache))"
  using assms
  by (auto simp add: endOfStreet_def Let_def countersLe_def enterStreet_def turnAround_def
        streetTime_def split: option.splits)

text \<open>
  Claim C10 (monotone metrics), as amended. For a time step and a speed that are not negative,
  and a clock that does not read less than the start time of the current street, the six metric
  counters of the car that \<^verbatim>\<open>updateCar\<close> returns are at least those of the car it was given.
\<close>

theorem metric_counters_monotone:
  assumes "0 \<le> deltaTime" and "0 \<le> speed c" and "0 \<le> streetTime clk c"
    and "updateCar clk rnd c streets locations trafficLights deltaTime allCars cache = (c', cache')"
  shows "stops c \<le> stops c' \<and> streetsTraveled c \<le> streetsTraveled c' \<and>
         locationsVisited c \<le> locationsVisited c' \<and> totalDistance c \<le> totalDistance c' \<and>
         totalTravelTime c \<le> totalTravelTime c' \<and> timeNotMoving c \<le> timeNotMoving c'"
proof -
  have adv: "\<And>dr. countersLe c (advance clk c dr deltaTime)"
    using advance_counters[OF assms(1,2)] .
  have eos: "\<And>dr s. countersLe c (fst (endOfStreet clk rnd (advance clk c dr deltaTime) s streets locations cache))"
    using countersLe_trans[OF adv endOfStreet_counters] assms(3) streetTime_advance by simp
  have "countersLe c (fst (updateCar clk rnd c streets locations trafficLights deltaTime allCars cache))"
    using adv eos
    by (simp add: updateCar_def Let_def countersLe_refl countersLe_def[of c "c\<lparr>reachedDestination := True\<rparr>"]
          split: option.splits)
  then show ?thesis using assms(4) by (simp add: countersLe_def)
qed

section \<open>Progress along the street\<close>

lemma advance_same_street:
  "currentStreetId (advance clk c dr deltaTime) = currentStreetId c"
  "direction (advance clk c dr deltaTime) = direction c"
  "streetsTraveled (advance clk c dr deltaTime) = streetsTraveled c"
  "reachedDestination (advance clk c dr deltaTime) = reachedDestination c"
  "speed (advance clk c dr deltaTime) = newSpeed c dr deltaTime"
  by (simp_all add: advance_def Let_def)

lemma advance_inside:
  assumes "0 \<le> deltaTime" "0 \<le> speed c" "0 < progress c" "progress c < 1"
    and "\<not> atEndOfStreet (advance clk c dr deltaTime)"
  shows "0 < progress (advance clk c dr deltaTime) \<and> progress (advance clk c dr deltaTime) < 1"
proof -
  define k where "k = newSpeed c dr deltaTime * deltaTime * (2/25)"
  have k: "0 \<le> k"
    unfolding k_def using newSpeed_nonneg[OF assms(1,2), of dr] assms(1) by simp
  have p: "progress (advance clk c dr deltaTime) =
             (if direction c = Forward then progress c + k else progress c - k)"
    by (simp add: advance_def Let_def k_def)
  have d: "direction (advance clk c dr deltaTime) = direction c"
    by (simp add: advance_def Let_def)
  show ?thesis
    using assms(3,4,5) k unfolding atEndOfStreet_def p d by (cases "direction c") auto
qed

lemma endOfStreet_progress:
  "reachedDestination (fst (endOfStreet clk rnd u s streets locations cache)) \<or>
   (0 < progress (fst (endOfStreet clk rnd u s streets locations cache)) \<and>
    progress (fst (endOfStreet clk rnd u s streets locations cache)) < 1)"
  by (auto simp add: endOfStreet_def Let_def enterStreet_def turnAround_def split: option.splits)

lemma endOfStreet_reset:
  "streetsTraveled (fst (endOfStreet clk rnd u s streets locations cache)) = streetsTraveled u \<or>
   progress (fst (endOfStreet clk rnd u s streets locations cache)) =
     (if direction (fst (endOfStreet clk rnd u s streets locations cache)) = Forward
      then 1/20 else 19/20)"
  by (auto simp add: endOfStreet_def Let_def enterStreet_def turnAround_def split: option.splits)

text \<open>
  Claim C2 (progress bounds), as amended. For an active car with progress strictly between 0
  and 1, a speed and a time step that are not negative: whenever \<^verbatim>\<open>updateCar\<close> counts a new
  street, the progress is reset to 0.05 (forward) or 0.95 (backward); and the returned car is
  marked as arrived, or has progress strictly between 0 and 1, or stands at or beyond the end
  of the same street, in the same direction, with a speed of at most 0.01 or stopped for a
  collision.
\<close>

theorem progress_bounds:
  assumes "\<not> reachedDestination c" and "0 < progress c" and "progress c < 1"
    and "0 \<le> speed c" and "0 \<le> deltaTime"
    and "updateCar clk rnd c streets locations trafficLights deltaTime allCars cache = (c', cache')"
  shows "(streetsTraveled c' = streetsTraveled c \<or>
          progress c' = (if direction c' = Forward then 1/20 else 19/20)) \<and>
         (reachedDestination c' \<or> (0 < progress c' \<and> progress c' < 1) \<or>
          (atEndOfStreet c' \<and> currentStreetId c' = currentStreetId c \<and> direction c' = direction c \<and>
           (speed c' \<le> 1/100 \<or> stoppedForCollision rnd c streets locations trafficLights allCars)))"
proof (cases "findStreet (currentStreetId c) streets")
  case None
  then show ?thesis using assms(1,6) by (auto simp add: updateCar_def)
next
  case (Some currentStreet)
  show ?thesis
  proof (cases "findLocation (sfrom currentStreet) locations")
    case None
    then show ?thesis using assms(1,6) Some by (auto simp add: updateCar_def)
  next
    case f: (Some fromLocation)
    show ?thesis
    proof (cases "findLocation (sto currentStreet) locations")
      case None
      then show ?thesis using assms(1,6) Some f by (auto simp add: updateCar_def)
    next
      case t: (Some toLocation)
      define dr where "dr = decideDrive rnd c currentStreet fromLocation toLocation streets locations
                         trafficLights allCars"
      define u where "u = advance clk c dr deltaTime"
      have held: "stoppedForCollision rnd c streets locations trafficLights allCars
                    = (shouldStop dr \<and> obstacle dr)"
        by (simp add: stoppedForCollision_def Some f t dr_def Let_def)
      define go where "go = (atEndOfStreet u \<and> 1/100 < speed u \<and> \<not> (shouldStop dr \<and> obstacle dr))"
      have upd: "updateCar clk rnd c streets locations trafficLights deltaTime allCars cache =
                   (if go then endOfStreet clk rnd u currentStreet streets locations cache
                    else (u, cache))"
      proof -
        have nr: "reachedDestination c = False" using assms(1) by simp
        show ?thesis
          by (simp only: updateCar_def Some f t dr_def u_def go_def Let_def nr if_False
                option.case prod.case)
      qed
      show ?thesis
      proof (cases go)
        case True
        then have c': "c' = fst (endOfStreet clk rnd u currentStreet streets locations cache)"
          using assms(6) upd by simp
        have st: "streetsTraveled u = streetsTraveled c"
          by (simp add: u_def advance_same_street)
        show ?thesis
          using endOfStreet_progress[of clk rnd u currentStreet streets locations cache]
                endOfStreet_reset[of clk rnd u currentStreet streets locations cache]
          unfolding c'[symmetric] st by blast
      next
        case False
        then have c': "c' = u" using assms(6) upd by simp
        have same: "currentStreetId u = currentStreetId c" "direction u = direction c"
                   "streetsTraveled u = streetsTraveled c"
          by (simp_all add: u_def advance_same_street)
        show ?thesis
        proof (cases "atEndOfStreet u")
          case True
          then have "speed u \<le> 1/100 \<or> (shouldStop dr \<and> obstacle dr)"
            using False unfolding go_def by auto
          then show ?thesis using True same held c' by simp
        next
          case nend: False
          have "0 < progress u \<and> progress u < 1"
            using advance_inside[OF assms(5,4,2,3)] nend unfolding u_def by blast
          then show ?thesis using same c' by simp
        qed
      qed
    qed
  qed
qed

section \<open>Sample traffic\<close>

lemma hypot_eval: "0 \<le> c \<Longrightarrow> a\<^sup>2 + b\<^sup>2 = c\<^sup>2 \<Longrightarrow> hypot a b = c"
  by (simp add: hypot_def)

lemma atan2_eval:
  "0 < x \<Longrightarrow> atan2 0 x = 0"
  "y < 0 \<Longrightarrow> atan2 y 0 = - (pi / 2)"
  "0 < y \<Longrightarrow> atan2 y 0 = pi / 2"
  by (simp_all add: atan2_def)

lemma sample_lookup:
  "findStreet ''s1'' crossingStreets = Some \<lparr>strId = ''s1'', sfrom = ''W'', sto = ''X''\<rparr>"
  "findStreet ''s2'' crossingStreets = Some \<lparr>strId = ''s2'', sfrom = ''S'', sto = ''X''\<rparr>"
  "findLocation ''W'' crossingLocations = Some \<lparr>locId = ''W'', locX = 0, locY = 500\<rparr>"
  "findLocation ''X'' crossingLocations = Some \<lparr>locId = ''X'', locX = 500, locY = 500\<rparr>"
  "findLocation ''S'' crossingLocations = Some \<lparr>locId = ''S'', locX = 500, locY = 1000\<rparr>"
  by (simp_all add: findStreet_def findLocation_def crossingStreets_def crossingLocations_def)

lemma east_fields:
  "carId eastboundCar = ''car-1''" "currentStreetId eastboundCar = ''s1''"
  "direction eastboundCar = Forward" "progress eastboundCar = 997/1000" "speed eastboundCar = 1"
  "preferredSpeed eastboundCar = 1" "maxSpeed eastboundCar = 1" "nextTurn eastboundCar = None"
  "reachedDestination eastboundCar = False" "timeNotMoving eastboundCar = 0"
  by (simp_all add: eastboundCar_def sampleCar_def)

lemma north_fields:
  "carId northboundCar = ''car-2''" "currentStreetId northboundCar = ''s2''"
  "direction northboundCar = Forward" "progress northboundCar = 47/50" "speed northboundCar = 3/5"
  "reachedDestination northboundCar = False"
  by (simp_all add: northboundCar_def sampleCar_def)

lemma east_position:
  "calculateCarPosition eastboundCar crossingStreets crossingLocations =
     Some \<lparr>posX = 997/2, posY = 512, posAngle = 0\<rparr>"
  by (simp add: calculateCarPosition_def sample_lookup east_fields atan2_eval Let_def)

lemma north_position:
  "calculateCarPosition northboundCar crossingStreets crossingLocations =
     Some \<lparr>posX = 512, posY = 530, posAngle = - 90\<rparr>"
  by (simp add: calculateCarPosition_def sample_lookup north_fields atan2_eval Let_def)

lemma east_bounds:
  "getCarBounds \<lparr>posX = 997/2, posY = 512, posAngle = 0\<rparr> 28 14 =
     \<lparr>minX = 969/2, maxX = 1025/2, minY = 505, maxY = 519\<rparr>"
  by (simp add: getCarBounds_def Let_def)

lemma north_bounds:
  "getCarBounds \<lparr>posX = 512, posY = 530, posAngle = - 90\<rparr> 28 14 =
     \<lparr>minX = 505, maxX = 519, minY = 516, maxY = 544\<rparr>"
proof -
  have a: "(- 90) * pi / 180 = - (pi / 2)" by simp
  show ?thesis by (simp add: getCarBounds_def Let_def a)
qed

lemma gap: "hypot (27/2) 18 = 45/2" "hypot (- (27/2)) (- 18) = 45/2"
           "hypot 500 0 = 500" "hypot 0 (- 500) = 500"
  by (rule hypot_eval; simp add: power2_eq_square)+

lemma east_toward:
  "isCarMovingTowardPoint eastboundCar (512, 530) crossingStreets crossingLocations"
  by (simp add: isCarMovingTowardPoint_def east_position sample_lookup east_fields gap Let_def)

lemma north_toward:
  "isCarMovingTowardPoint northboundCar (997/2, 512) crossingStreets crossingLocations"
  by (simp add: isCarMovingTowardPoint_def north_position sample_lookup north_fields gap Let_def)

lemma sample_collision:
  "analyzeCarCollision eastboundCar northboundCar crossingStreets crossingLocations =
     Some \<lparr>centerDistance = 45/2, isColliding = True, car1MovingToward = True,
           car2MovingToward = True\<rparr>"
  by (simp add: analyzeCarCollision_def east_position north_position east_bounds north_bounds
        east_toward north_toward gap checkBoundsCollision_def)

lemma sample_cross_traffic:
  "findCrossTrafficCar eastboundCar [eastboundCar, northboundCar] crossingStreets crossingLocations =
     Some \<lparr>ctCar = northboundCar,
           ctAnalysis = \<lparr>centerDistance = 45/2, isColliding = True, car1MovingToward = True,
                          car2MovingToward = True\<rparr>,
           ctPriority = 191/40, ctShouldStop = True\<rparr>"
proof -
  have on: "\<exists>s \<in> set crossingStreets. (sfrom s = ''X'' \<or> sto s = ''X'') \<and> strId s = ''s2''"
    by (simp add: crossingStreets_def)
  show ?thesis
    by (simp add: findCrossTrafficCar_def crossTrafficStep_def sample_lookup east_fields
          north_fields sample_collision distanceToEnd_def on Let_def)
qed

lemma sample_drive:
  "decideDrive draws0 eastboundCar \<lparr>strId = ''s1'', sfrom = ''W'', sto = ''X''\<rparr>
       \<lparr>locId = ''W'', locX = 0, locY = 500\<rparr> \<lparr>locId = ''X'', locX = 500, locY = 500\<rparr>
       crossingStreets crossingLocations [] [eastboundCar, northboundCar] =
     \<lparr>targetSpeed = 0, shouldStop = True, crossTrafficBlocking = True, waitingLeft = False,
      obstacle = True\<rparr>"
proof -
  have ahead: "findCarAhead eastboundCar [eastboundCar, northboundCar] = None"
    by (simp add: findCarAhead_def east_fields north_fields)
  show ?thesis
    by (simp add: decideDrive_def sample_cross_traffic ahead followCarAhead_def
          detectAndResolveDeadlock_def east_fields cruiseSpeed_def Let_def)
qed

text \<open>
  Claim C2 as stated fails at the crossing: the eastbound car, 1.5 pixels before the end of its
  street at speed 1, brakes for the northbound car, still moves 2 pixels in a tick of a tenth of
  a second, and is kept on its street with progress 1.001 because it is stopped for a collision.
\<close>

theorem held_beyond_end_counterexample:
  "0 < progress eastboundCar \<and> progress eastboundCar < 1 \<and>
   progress (fst (updateCar clock0 draws0 eastboundCar crossingStreets crossingLocations []
                    (1/10) [eastboundCar, northboundCar] Map.empty)) = 1001/1000 \<and>
   reachedDestination (fst (updateCar clock0 draws0 eastboundCar crossingStreets crossingLocations []
                    (1/10) [eastboundCar, northboundCar] Map.empty)) = False \<and>
   currentStreetId (fst (updateCar clock0 draws0 eastboundCar crossingStreets crossingLocations []
                    (1/10) [eastboundCar, northboundCar] Map.empty)) = ''s1'' \<and>
   direction (fst (updateCar clock0 draws0 eastboundCar crossingStreets crossingLocations []
                    (1/10) [eastboundCar, northboundCar] Map.empty)) = Forward"
  by (simp add: updateCar_def sample_lookup east_fields sample_drive advance_def newSpeed_def
        distanceToEnd_def atEndOfStreet_def Let_def)

text \<open>
  Claim C10 as stated fails for a negative time step (the step is a difference of two readings
  of the wall clock, capped from above only): the waiting time of a standing car decreases.
\<close>

theorem negative_step_counterexample:
  "timeNotMoving sampleCar = 0 \<and>
   timeNotMoving (fst (updateCar clock0 draws0 sampleCar crossingStreets crossingLocations []
                         (- 1) [sampleCar] Map.empty)) = - 1"
proof -
  have f: "carId sampleCar = ''car-1''" "currentStreetId sampleCar = ''s1''"
    "direction sampleCar = Forward" "progress sampleCar = 1/2" "speed sampleCar = 0"
    "preferredSpeed sampleCar = 3/5" "nextTurn sampleCar = None"
    "reachedDestination sampleCar = False" "timeNotMoving sampleCar = 0"
    by (simp_all add: sampleCar_def)
  have dr: "decideDrive draws0 sampleCar \<lparr>strId = ''s1'', sfrom = ''W'', sto = ''X''\<rparr>
       \<lparr>locId = ''W'', locX = 0, locY = 500\<rparr> \<lparr>locId = ''X'', locX = 500, locY = 500\<rparr>
       crossingStreets crossingLocations [] [sampleCar] =
     \<lparr>targetSpeed = 3/5, shouldStop = False, crossTrafficBlocking = False, waitingLeft = False,
      obstacle = False\<rparr>"
    by (simp add: decideDrive_def findCarAhead_def findCrossTrafficCar_def sample_lookup f
          followCarAhead_def detectAndResolveDeadlock_def cruiseSpeed_def distanceToEnd_def
          relevantLights_def Let_def)
  show ?thesis
    by (simp add: updateCar_def sample_lookup f dr advance_def newSpeed_def
          distanceToEnd_def atEndOfStreet_def Let_def)
qed

lemma wrap_quarter: "wrapUp (wrapDown (pi / 2)) = pi / 2"
proof -
  have a: "wrapDown (pi / 2) = pi / 2" by (subst wrapDown.simps) simp
  have b: "wrapUp (pi / 2) = pi / 2"
    using pi_gt_zero by (subst wrapUp.simps) simp
  show ?thesis by (simp only: a b)
qed

lemma sample_route:
  "findBestNextStreet ''X'' ''N'' ''s1'' crossingStreets crossingLocations (Some ''car-1'') 0 Map.empty =
     (Some \<lparr>rdStreet = \<lparr>strId = ''s2'', sfrom = ''S'', sto = ''X''\<rparr>, rdDirection = Backward,
            rdTurn = TurnLeft\<rparr>,
      [''car-1-X-s1'' \<mapsto> \<lparr>rdStreet = \<lparr>strId = ''s2'', sfrom = ''S'', sto = ''X''\<rparr>,
                            rdDirection = Backward, rdTurn = TurnLeft\<rparr>])"
proof -
  have streets: "filter (\<lambda>s. sfrom s = ''X'' \<or> sto s = ''X'') crossingStreets = crossingStreets"
    "filter (\<lambda>s. (sfrom s = ''X'' \<or> sto s = ''X'') \<and> strId s \<noteq> ''s1'') crossingStreets =
       tl crossingStreets"
    by (simp_all add: crossingStreets_def)
  have len: "length crossingStreets = 4" "tl crossingStreets \<noteq> []"
    by (simp_all add: crossingStreets_def)
  have p: "pick 0 (tl crossingStreets) = \<lparr>strId = ''s2'', sfrom = ''S'', sto = ''X''\<rparr>"
    by (simp add: pick_def crossingStreets_def)
  have t: "calculateTurnType \<lparr>locId = ''X'', locX = 500, locY = 500\<rparr>
             \<lparr>strId = ''s2'', sfrom = ''S'', sto = ''X''\<rparr> 0 crossingLocations = TurnLeft"
    by (simp add: calculateTurnType_def sample_lookup atan2_eval wrap_quarter Let_def)
  have r: "computeRoute ''X'' ''s1'' crossingStreets crossingLocations 0 =
             Some \<lparr>rdStreet = \<lparr>strId = ''s2'', sfrom = ''S'', sto = ''X''\<rparr>, rdDirection = Backward,
                   rdTurn = TurnLeft\<rparr>"
    unfolding computeRoute_def streets Let_def p
    by (simp add: len sample_lookup atan2_eval t exitDirectionAt_def)
  show ?thesis
    by (simp add: findBestNextStreet_def r truthy_def routingKey_def Let_def)
qed

lemma east_alone_drive:
  "decideDrive draws0 eastboundCar \<lparr>strId = ''s1'', sfrom = ''W'', sto = ''X''\<rparr>
       \<lparr>locId = ''W'', locX = 0, locY = 500\<rparr> \<lparr>locId = ''X'', locX = 500, locY = 500\<rparr>
       crossingStreets crossingLocations [] [eastboundCar] =
     \<lparr>targetSpeed = 1, shouldStop = False, crossTrafficBlocking = False, waitingLeft = False,
      obstacle = False\<rparr>"
  by (simp add: decideDrive_def findCarAhead_def findCrossTrafficCar_def crossTrafficStep_def
        sample_lookup east_fields followCarAhead_def cruiseSpeed_def distanceToEnd_def
        relevantLights_def Let_def)

lemma east_alone_step:
  "fst (updateCar clock0 draws0 eastboundCar crossingStreets crossingLocations [] (1/10)
         [eastboundCar] Map.empty) =
     eastboundCar\<lparr>currentStreetId := ''s2'', direction := Backward, progress := 19/20,
        path := [''X''], nextTurn := Some TurnLeft, streetsTraveled := 1, totalTravelTime := 1,
        currentStreetStartTime := Some 2000, totalDistance := 1/10, lastSpeed := 1\<rparr>"
proof -
  let ?u = "advance clock0 eastboundCar \<lparr>targetSpeed = 1, shouldStop = False,
              crossTrafficBlocking = False, waitingLeft = False, obstacle = False\<rparr> (1/10)"
  have u: "?u = eastboundCar\<lparr>progress := 201/200, totalDistance := 1/10, lastSpeed := 1\<rparr>"
    by (simp add: advance_def newSpeed_def east_fields eastboundCar_def sampleCar_def
          distanceToEnd_def truthyTime_def Let_def)
  have t: "touches crossingStreets ''X'' = crossingStreets"
    by (simp add: touches_def crossingStreets_def)
  have len: "length crossingStreets = 4"
    by (simp add: crossingStreets_def)
  have e: "fst (endOfStreet clock0 draws0 (eastboundCar\<lparr>progress := 201/200, totalDistance := 1/10,
             lastSpeed := 1\<rparr>) \<lparr>strId = ''s1'', sfrom = ''W'', sto = ''X''\<rparr> crossingStreets
             crossingLocations Map.empty) =
           eastboundCar\<lparr>currentStreetId := ''s2'', direction := Backward, progress := 19/20,
             path := [''X''], nextTurn := Some TurnLeft, streetsTraveled := 1, totalTravelTime := 1,
             currentStreetStartTime := Some 2000, totalDistance := 1/10, lastSpeed := 1\<rparr>"
    unfolding endOfStreet_def Let_def
    by (simp add: sample_lookup eastboundCar_def sampleCar_def len t
          jsOr_def truthy_def draws0_def sample_route enterStreet_def streetTime_def clock0_def)
  show ?thesis
    unfolding updateCar_def
    by (simp add: sample_lookup east_fields east_alone_drive u e atEndOfStreet_def Let_def)
qed

theorem progress_bounds_witness:
  "\<not> reachedDestination eastboundCar \<and> 0 < progress eastboundCar \<and> progress eastboundCar < 1 \<and>
   0 \<le> speed eastboundCar \<and>
   progress (fst (updateCar clock0 draws0 eastboundCar crossingStreets crossingLocations []
                    (1/10) [eastboundCar] Map.empty)) = 19/20 \<and>
   direction (fst (updateCar clock0 draws0 eastboundCar crossingStreets crossingLocations []
                    (1/10) [eastboundCar] Map.empty)) = Backward \<and>
   streetsTraveled (fst (updateCar clock0 draws0 eastboundCar crossingStreets crossingLocations []
                    (1/10) [eastboundCar] Map.empty)) = streetsTraveled eastboundCar + 1 \<and>
   (reachedDestination (fst (updateCar clock0 draws0 eastboundCar crossingStreets crossingLocations []
                    (1/10) [eastboundCar] Map.empty)) \<or>
    (0 < progress (fst (updateCar clock0 draws0 eastboundCar crossingStreets crossingLocations []
                    (1/10) [eastboundCar] Map.empty)) \<and>
     progress (fst (updateCar clock0 draws0 eastboundCar crossingStreets crossingLocations []
                    (1/10) [eastboundCar] Map.empty)) < 1) \<or>
    (atEndOfStreet (fst (updateCar clock0 draws0 eastboundCar crossingStreets crossingLocations []
                    (1/10) [eastboundCar] Map.empty)) \<and>
     currentStreetId (fst (updateCar clock0 draws0 eastboundCar crossingStreets crossingLocations []
                    (1/10) [eastboundCar] Map.empty)) = currentStreetId eastboundCar \<and>
     direction (fst (updateCar clock0 draws0 eastboundCar crossingStreets crossingLocations []
                    (1/10) [eastboundCar] Map.empty)) = direction eastboundCar \<and>
     (speed (fst (updateCar clock0 draws0 eastboundCar crossingStreets crossingLocations []
                    (1/10) [eastboundCar] Map.empty)) \<le> 1/100 \<or>
      stoppedForCollision draws0 eastboundCar crossingStreets crossingLocations [] [eastboundCar])))"
proof -
  let ?U = "updateCar clock0 draws0 eastboundCar crossingStreets crossingLocations []
              (1/10) [eastboundCar] Map.empty"
  have h: "\<not> reachedDestination eastboundCar" "0 < progress eastboundCar"
    "progress eastboundCar < 1" "0 \<le> speed eastboundCar" "(0::real) \<le> 1/10"
    by (simp_all add: east_fields)
  have v: "progress (fst ?U) = 19/20" "direction (fst ?U) = Backward"
    "streetsTraveled (fst ?U) = streetsTraveled eastboundCar + 1"
    unfolding east_alone_step by (simp_all add: eastboundCar_def sampleCar_def)
  show ?thesis
    using progress_bounds[OF h prod.collapse[symmetric, of ?U]] h v by blast
qed

theorem metric_counters_monotone_witness:
  "(0::real) \<le> 1/10 \<and> 0 \<le> speed eastboundCar \<and> 0 \<le> streetTime clock0 eastboundCar \<and>
   stops eastboundCar \<le> stops (fst (updateCar clock0 draws0 eastboundCar crossingStreets
        crossingLocations [] (1/10) [eastboundCar] Map.empty)) \<and>
   streetsTraveled eastboundCar \<le> streetsTraveled (fst (updateCar clock0 draws0 eastboundCar
        crossingStreets crossingLocations [] (1/10) [eastboundCar] Map.empty)) \<and>
   locationsVisited eastboundCar \<le> locationsVisited (fst (updateCar clock0 draws0 eastboundCar
        crossingStreets crossingLocations [] (1/10) [eastboundCar] Map.empty)) \<and>
   totalDistance eastboundCar \<le> totalDistance (fst (updateCar clock0 draws0 eastboundCar
        crossingStreets crossingLocations [] (1/10) [eastboundCar] Map.empty)) \<and>
   totalTravelTime eastboundCar \<le> totalTravelTime (fst (updateCar clock0 draws0 eastboundCar
        crossingStreets crossingLocations [] (1/10) [eastboundCar] Map.empty)) \<and>
   timeNotMoving eastboundCar \<le> timeNotMoving (fst (updateCar clock0 draws0 eastboundCar
        crossingStreets crossingLocations [] (1/10) [eastboundCar] Map.empty)) \<and>
   totalTravelTime (fst (updateCar clock0 draws0 eastboundCar
        crossingStreets crossingLocations [] (1/10) [eastboundCar] Map.empty)) = 1 \<and>
   totalDistance (fst (updateCar clock0 draws0 eastboundCar
        crossingStreets crossingLocations [] (1/10) [eastboundCar] Map.empty)) = 1/10"
proof -
  let ?U = "updateCar clock0 draws0 eastboundCar crossingStreets crossingLocations []
              (1/10) [eastboundCar] Map.empty"
  have h: "(0::real) \<le> 1/10" "0 \<le> speed eastboundCar" "0 \<le> streetTime clock0 eastboundCar"
    by (simp_all add: east_fields streetTime_def clock0_def eastboundCar_def sampleCar_def)
  have v: "totalTravelTime (fst ?U) = 1" "totalDistance (fst ?U) = 1/10"
    unfolding east_alone_step by simp_all
  show ?thesis
    using metric_counters_monotone[OF h prod.collapse[symmetric, of ?U]] h v by blast
qed

end
